theory Spec2Isabelle
  imports Complex_Main "HOL-Library.Product_Lexorder" "HOL-Library.Multiset"
begin

section \<open>Python's Decimal under the default context\<close>

text \<open>
  The rent computation of \<^verbatim>\<open>crud.py\<close> works on \<^verbatim>\<open>decimal.Decimal\<close>. A finite Decimal is
  the triple the library keeps: a sign, a coefficient (the digit string \<^verbatim>\<open>_int\<close>, here a
  natural number) and an exponent; its value is \<open>(-1)^sign * coefficient * 10^exponent\<close>.
  The application never changes the arithmetic context, so every operation runs under the
  default one: precision 28, rounding \<^verbatim>\<open>ROUND_HALF_EVEN\<close>, \<^verbatim>\<open>Emax = 999999\<close>,
  \<^verbatim>\<open>Emin = -999999\<close>, no clamping, and the traps \<^verbatim>\<open>InvalidOperation\<close>,
  \<^verbatim>\<open>DivisionByZero\<close> and \<^verbatim>\<open>Overflow\<close> enabled (a trapped signal raises an exception;
  the other signals only set a flag and are not modelled).
  The special values (NaN, infinities) are outside the model: the request validation in
  front of the routes and the NUMERIC columns of the store only produce finite values.
\<close>

datatype decimal_signal = Overflow | DivisionByZero | InvalidOperation

record Decimal =
  d_sign :: bool
  d_int :: nat
  d_exp :: int

definition Dec :: "int \<Rightarrow> int \<Rightarrow> Decimal" where
  \<comment> \<open>\<open>Dec c e\<close> is the literal with signed coefficient \<open>c\<close> and exponent \<open>e\<close>:
      \<^verbatim>\<open>Decimal("10000")\<close> is \<open>Dec 10000 0\<close>, \<^verbatim>\<open>Decimal("1.0")\<close> is \<open>Dec 10 (-1)\<close>.\<close>
  "Dec c e = \<lparr>d_sign = (c < 0), d_int = nat \<bar>c\<bar>, d_exp = e\<rparr>"

definition decimal_val :: "Decimal \<Rightarrow> rat" where
  \<comment> \<open>The rational number a Decimal denotes; Python's \<^verbatim>\<open>==\<close> on Decimals compares these.\<close>
  "decimal_val d =
     (if d_sign d then - 1 else 1) * of_nat (d_int d) *
     (if 0 \<le> d_exp d then 10 ^ nat (d_exp d) else 1 / 10 ^ nat (- d_exp d))"

definition decimal_bool :: "Decimal \<Rightarrow> bool" where
  \<comment> \<open>\<^verbatim>\<open>__bool__\<close>: a Decimal is falsy exactly when it is zero.\<close>
  "decimal_bool d = (d_int d \<noteq> 0)"

definition prec :: int where "prec = 28"
definition Emax :: int where "Emax = 999999"
definition Emin :: int where "Emin = - 999999"
definition Etiny :: int where "Etiny = Emin - prec + 1"
definition Etop :: int where "Etop = Emax - prec + 1"

fun ndigits :: "nat \<Rightarrow> nat" where
  \<comment> \<open>\<^verbatim>\<open>len(self._int)\<close>: the number of decimal digits, 1 for zero.\<close>
  "ndigits n = (if n < 10 then 1 else Suc (ndigits (n div 10)))"

definition round_half_even :: "nat \<Rightarrow> nat \<Rightarrow> nat" where
  \<comment> \<open>Drop the last \<open>k\<close> digits of \<open>c\<close>, rounding to nearest, ties to even
      (\<^verbatim>\<open>_round_half_even\<close> followed by the increment of \<^verbatim>\<open>_fix\<close>).\<close>
  "round_half_even c k =
     (let q = c div 10 ^ k; r = c mod 10 ^ k
      in if 2 * r > 10 ^ k \<or> (2 * r = 10 ^ k \<and> odd q) then q + 1 else q)"

definition decimal_fix :: "Decimal \<Rightarrow> decimal_signal + Decimal" where
  \<comment> \<open>\<^verbatim>\<open>Decimal._fix(context)\<close>: round to the precision and keep the exponent in range.\<close>
  "decimal_fix d =
     (if d_int d = 0 then Inr (d\<lparr>d_exp := min (max (d_exp d) Etiny) Emax\<rparr>)
      else
        let len = int (ndigits (d_int d));
            exp_min0 = len + d_exp d - prec
        in if exp_min0 > Etop then Inl Overflow
           else
             let exp_min = (if exp_min0 < Etiny then Etiny else exp_min0)
             in if d_exp d < exp_min then
                  let digits = len + d_exp d - exp_min;
                      coeff = (if digits < 0 then 0
                               else round_half_even (d_int d) (nat (len - digits)));
                      carry = (int (ndigits coeff) > prec);
                      coeff' = (if carry then coeff div 10 else coeff);
                      exp_min' = (if carry then exp_min + 1 else exp_min)
                  in if exp_min' > Etop then Inl Overflow
                     else Inr \<lparr>d_sign = d_sign d, d_int = coeff', d_exp = exp_min'\<rparr>
                else Inr d)"

definition decimal_mul :: "Decimal \<Rightarrow> Decimal \<Rightarrow> decimal_signal + Decimal" where
  \<comment> \<open>\<^verbatim>\<open>__mul__\<close>; its special cases for a zero or a power of ten build the same triple.\<close>
  "decimal_mul x y =
     decimal_fix \<lparr>d_sign = (d_sign x \<noteq> d_sign y), d_int = d_int x * d_int y,
                  d_exp = d_exp x + d_exp y\<rparr>"

function strip_zeros :: "nat \<Rightarrow> int \<Rightarrow> int \<Rightarrow> nat \<times> int" where
  \<comment> \<open>The loop of \<^verbatim>\<open>__truediv__\<close> that brings an exact quotient close to its ideal exponent:
      \<^verbatim>\<open>while exp < ideal_exp and coeff % 10 == 0: coeff //= 10; exp += 1\<close>.\<close>
  "strip_zeros coeff ex ideal_exp =
     (if ex < ideal_exp \<and> coeff mod 10 = 0
      then strip_zeros (coeff div 10) (ex + 1) ideal_exp
      else (coeff, ex))"
  by pat_completeness auto
termination
  by (relation "measure (\<lambda>(coeff, ex, ideal_exp). nat (ideal_exp - ex))") auto

declare ndigits.simps [simp del] strip_zeros.simps [simp del]

definition decimal_truediv :: "Decimal \<Rightarrow> Decimal \<Rightarrow> decimal_signal + Decimal" where
  \<comment> \<open>\<^verbatim>\<open>__truediv__\<close>: \<open>prec + 1\<close> digits of quotient, a sticky last digit when the
      division is inexact, then \<^verbatim>\<open>_fix\<close>.\<close>
  "decimal_truediv x y =
     (let sign = (d_sign x \<noteq> d_sign y) in
      if d_int y = 0 then (if d_int x = 0 then Inl InvalidOperation else Inl DivisionByZero)
      else if d_int x = 0
      then decimal_fix \<lparr>d_sign = sign, d_int = 0, d_exp = d_exp x - d_exp y\<rparr>
      else
        let shift = int (ndigits (d_int y)) - int (ndigits (d_int x)) + prec + 1;
            ex = d_exp x - d_exp y - shift;
            num = (if shift \<ge> 0 then d_int x * 10 ^ nat shift else d_int x);
            den = (if shift \<ge> 0 then d_int y else d_int y * 10 ^ nat (- shift));
            coeff = num div den;
            remainder = num mod den
        in if remainder \<noteq> 0
           then decimal_fix \<lparr>d_sign = sign,
                  d_int = (if coeff mod 5 = 0 then coeff + 1 else coeff), d_exp = ex\<rparr>
           else (case strip_zeros coeff ex (d_exp x - d_exp y) of
                   (coeff', exp') \<Rightarrow>
                     decimal_fix \<lparr>d_sign = sign, d_int = coeff', d_exp = exp'\<rparr>))"

definition decimal_rescale :: "Decimal \<Rightarrow> int \<Rightarrow> Decimal" where
  \<comment> \<open>\<^verbatim>\<open>_rescale(exp, ROUND_HALF_EVEN)\<close>: pad with zeros or round to the given exponent.\<close>
  "decimal_rescale d ex =
     (if d_int d = 0 then d\<lparr>d_exp := ex\<rparr>
      else if d_exp d \<ge> ex then d\<lparr>d_int := d_int d * 10 ^ nat (d_exp d - ex), d_exp := ex\<rparr>
      else
        let len = int (ndigits (d_int d));
            digits = len + d_exp d - ex
        in if digits < 0 then d\<lparr>d_int := 0, d_exp := ex\<rparr>
           else d\<lparr>d_int := round_half_even (d_int d) (nat (len - digits)), d_exp := ex\<rparr>)"

definition normalize_ops :: "nat \<times> int \<Rightarrow> nat \<times> int \<Rightarrow> (nat \<times> int) \<times> (nat \<times> int)" where
  \<comment> \<open>\<^verbatim>\<open>_normalize(op1, op2, prec)\<close> on (coefficient, exponent) pairs: align the exponents;
      an operand too small to influence the rounded sum is replaced by a sticky 1.\<close>
  "normalize_ops op1 op2 =
     (let swap = (snd op1 < snd op2);
          tmp = (if swap then op2 else op1);
          other = (if swap then op1 else op2);
          tmp_len = int (ndigits (fst tmp));
          other_len = int (ndigits (fst other));
          ex = snd tmp + min (- 1) (tmp_len - prec - 2);
          other' = (if other_len + snd other - 1 < ex then (1, ex) else other);
          tmp' = (fst tmp * 10 ^ nat (snd tmp - snd other'), snd other')
      in if swap then (other', tmp') else (tmp', other'))"

definition decimal_add :: "Decimal \<Rightarrow> Decimal \<Rightarrow> decimal_signal + Decimal" where
  \<comment> \<open>\<^verbatim>\<open>__add__\<close> under \<^verbatim>\<open>ROUND_HALF_EVEN\<close> (a zero sum of opposite operands is positive).\<close>
  "decimal_add x y =
     (let ex = min (d_exp x) (d_exp y) in
      if d_int x = 0 \<and> d_int y = 0
      then decimal_fix \<lparr>d_sign = (d_sign x \<and> d_sign y), d_int = 0, d_exp = ex\<rparr>
      else if d_int x = 0
      then decimal_fix (decimal_rescale y (max ex (d_exp y - prec - 1)))
      else if d_int y = 0
      then decimal_fix (decimal_rescale x (max ex (d_exp x - prec - 1)))
      else
        (case normalize_ops (d_int x, d_exp x) (d_int y, d_exp y) of
           ((i1, e1), (i2, e2)) \<Rightarrow>
             if d_sign x \<noteq> d_sign y \<and> i1 = i2
             then decimal_fix \<lparr>d_sign = False, d_int = 0, d_exp = ex\<rparr>
             else
               let v = (if d_sign x then - int i1 else int i1) +
                       (if d_sign y then - int i2 else int i2)
               in decimal_fix \<lparr>d_sign = (v < 0), d_int = nat \<bar>v\<bar>, d_exp = e1\<rparr>))"

definition bind_res :: "'e + 'a \<Rightarrow> ('a \<Rightarrow> 'e + 'b) \<Rightarrow> 'e + 'b" where
  \<comment> \<open>Sequencing of computations that may raise: the first exception ends the run.\<close>
  "bind_res m f = (case m of Inl e \<Rightarrow> Inl e | Inr v \<Rightarrow> f v)"

section \<open>The rent formula\<close>

definition calculer_montant_fermage ::
  "Decimal \<Rightarrow> Decimal \<Rightarrow> bool \<Rightarrow> Decimal \<Rightarrow> Decimal \<Rightarrow> bool \<Rightarrow> bool \<Rightarrow> Decimal \<Rightarrow> Decimal
   \<Rightarrow> decimal_signal + Decimal" where
  \<comment> \<open>\<^verbatim>\<open>crud.calculer_montant_fermage\<close>; the keyword defaults of the source
      (\<^verbatim>\<open>supp_gfa=False\<close>, \<^verbatim>\<open>supp_sctl=False\<close>, supplements \<^verbatim>\<open>Decimal("0")\<close>) are
      supplied by the callers below.\<close>
  "calculer_montant_fermage point_fermage surface est_sctl valeur_point_gfa valeur_point_sctl
       supp_gfa supp_sctl valeur_supp_gfa valeur_supp_sctl =
     bind_res (decimal_mul point_fermage surface) (\<lambda>ps.
     bind_res (decimal_truediv ps (Dec 10000 0)) (\<lambda>result.
       if est_sctl then
         bind_res (decimal_mul result valeur_point_sctl) (\<lambda>result.
           if supp_sctl then
             bind_res (decimal_mul result valeur_supp_sctl) (\<lambda>t.
             bind_res (decimal_truediv t (Dec 100 0)) (\<lambda>s.
             decimal_add result s))
           else Inr result)
       else
         bind_res (decimal_mul result valeur_point_gfa) (\<lambda>result.
           if supp_gfa then
             bind_res (decimal_mul result valeur_supp_gfa) (\<lambda>t.
             bind_res (decimal_truediv t (Dec 100 0)) (\<lambda>s.
             decimal_add result s))
           else Inr result)))"

section \<open>The relational store\<close>

text \<open>
  Each table of \<^verbatim>\<open>models.py\<close> is a list of rows, in the order in which the database
  scans it; a query without \<^verbatim>\<open>ORDER BY\<close> returns its rows in that order. Python's
  \<^verbatim>\<open>int\<close> is \<open>int\<close>, a nullable column is an \<open>option\<close>, and a calendar date is the triple
  (year, month, day) with its lexicographic order. The rows carry the columns that the
  operations below read or write; the remaining descriptive columns of \<^verbatim>\<open>Personne\<close>
  (address, contact, comments and the flags no filter reads) and of the cadastral tables
  play no part in them. Joins are modelled as the database computes them, one row for
  every matching pair, so the operations are defined on any lists of rows; where a
  theorem needs the primary key of a table to be unique, it assumes so
  (\<open>distinct (map id rows)\<close>).
\<close>

type_synonym date = "nat \<times> nat \<times> nat"

datatype TypeStructure = ALL_TYPES | GFA | ASSOC | TSL

fun TypeStructure_value :: "TypeStructure \<Rightarrow> int" where
  "TypeStructure_value ALL_TYPES = 0"
| "TypeStructure_value GFA = 2"
| "TypeStructure_value ASSOC = 5"
| "TypeStructure_value TSL = 6"

record Structure =
  st_id :: int
  nom_structure :: string
  type_structure :: int
  st_gfa :: "string option"

record Acte =
  ac_id :: int
  code_acte :: string
  date_acte :: "date option"
  libelle_acte :: "string option"
  provisoire :: bool
  ac_id_structure :: "int option"

record Personne =
  pe_id :: int
  civilite :: "string option"
  nom :: string
  prenom :: "string option"
  code_postal :: "string option"
  ville :: "string option"
  npai :: bool
  decede :: bool
  pe_termine :: bool
  fondateur :: bool
  de_droit :: bool
  adherent :: bool
  est_personne_morale :: bool
  pe_id_structure :: "int option"
  id_personne_morale :: "int option"

record Mouvement =
  mv_id :: int
  date_operation :: "date option"
  sens :: bool
  nb_parts :: int
  mv_id_personne :: int
  mv_id_acte :: "int option"
  id_type_apport :: "int option"
  id_type_remboursement :: "int option"

record NumeroPart =
  np_id :: int
  num_part :: int
  np_termine :: bool
  distribue :: bool
  etat :: int
  np_id_personne :: int
  np_id_mouvement :: "int option"
  np_id_structure :: "int option"

record ValeurPointCreate =
  annee :: int
  valeur_point_gfa :: Decimal
  valeur_point_sctl :: Decimal
  valeur_supp_gfa :: Decimal
  valeur_supp_sctl :: Decimal

record ValeurPoint = ValeurPointCreate +
  vp_id :: int

record Parcelle =
  pa_id :: int
  pa_parcelle :: string
  pa_sctl :: bool
  pa_id_commune :: int
  pa_id_lieu_dit :: "int option"
  pa_id_type_cadastre :: "int option"
  pa_id_gfa :: "int option"

record Subdivision =
  sd_id :: int
  division :: int
  sd_subdivision :: int
  surface :: Decimal
  revenu :: Decimal
  duree_fermage :: int
  point_fermage :: Decimal
  sd_id_parcelle :: int
  sd_id_exploitant :: "int option"
  sd_id_type_fermage :: "int option"

record Session =
  structures :: "Structure list"
  actes :: "Acte list"
  personnes :: "Personne list"
  mouvements :: "Mouvement list"
  numeros_parts :: "NumeroPart list"
  valeurs_points :: "ValeurPoint list"
  valeurs_points_seq :: int
  parcelles :: "Parcelle list"
  subdivisions :: "Subdivision list"

datatype db_error = IntegrityError

section \<open>Share ledger\<close>

definition parts_join_structure :: "Session \<Rightarrow> (NumeroPart \<times> Structure) list" where
  \<comment> \<open>\<^verbatim>\<open>select_from(NumeroPart).join(Structure, NumeroPart.id_structure == Structure.id)\<close>:
      an inner join, one row for every matching pair.\<close>
  "parts_join_structure session =
     [(p, st). p \<leftarrow> numeros_parts session, st \<leftarrow> structures session,
               np_id_structure p = Some (st_id st)]"

definition session_get_personne :: "Session \<Rightarrow> int \<Rightarrow> Personne option" where
  \<comment> \<open>\<^verbatim>\<open>session.get(Personne, personne_id)\<close>: the row with that primary key, if any.\<close>
  "session_get_personne session personne_id =
     find (\<lambda>p. pe_id p = personne_id) (personnes session)"

record PersonneWithParts = Personne +
  nb_parts_gfa :: nat
  nb_parts_sctl :: nat
  nb_parts_total :: nat

definition PersonneWithParts_of :: "Personne \<Rightarrow> nat \<Rightarrow> nat \<Rightarrow> PersonneWithParts" where
  \<comment> \<open>\<^verbatim>\<open>PersonneWithParts(**personne.model_dump(), nb_parts_gfa=..., nb_parts_sctl=...,
      nb_parts_total=gfa_count + sctl_count)\<close>.\<close>
  "PersonneWithParts_of personne gfa_count sctl_count =
     Personne.extend personne
       (PersonneWithParts.fields gfa_count sctl_count (gfa_count + sctl_count))"

definition count_parts_personne :: "Session \<Rightarrow> int \<Rightarrow> TypeStructure \<Rightarrow> nat" where
  \<comment> \<open>The \<^verbatim>\<open>select(func.count())\<close> of \<^verbatim>\<open>get_personne_with_parts\<close> for one structure type.\<close>
  "count_parts_personne session personne_id t =
     length [p. (p, st) \<leftarrow> parts_join_structure session,
                np_id_personne p = personne_id, \<not> np_termine p,
                type_structure st = TypeStructure_value t]"

definition get_personne_with_parts :: "Session \<Rightarrow> int \<Rightarrow> PersonneWithParts option" where
  "get_personne_with_parts session personne_id =
     (case session_get_personne session personne_id of
        None \<Rightarrow> None
      | Some personne \<Rightarrow>
          let gfa_count = count_parts_personne session personne_id GFA;
              sctl_count = count_parts_personne session personne_id TSL
          in Some (PersonneWithParts_of personne gfa_count sctl_count))"

definition parts_count_subquery :: "Session \<Rightarrow> TypeStructure \<Rightarrow> (int \<times> nat) list" where
  \<comment> \<open>\<^verbatim>\<open>gfa_subquery\<close> and \<^verbatim>\<open>sctl_subquery\<close>: the non-terminated parts of one structure
      type, grouped by owner, one (id_personne, count) row for each owner that has any.\<close>
  "parts_count_subquery session t =
     (let owners = [np_id_personne p. (p, st) \<leftarrow> parts_join_structure session,
                      \<not> np_termine p, type_structure st = TypeStructure_value t]
      in map (\<lambda>k. (k, count_list owners k)) (remdups owners))"

definition outerjoin_count :: "(int \<times> nat) list \<Rightarrow> int \<Rightarrow> nat option list" where
  \<comment> \<open>The rows a left outer join pairs with one personne: every subquery row on her id, or a
      single NULL when there is none.\<close>
  "outerjoin_count sub personne_id =
     (case filter (\<lambda>(k, c). k = personne_id) sub of
        [] \<Rightarrow> [None]
      | ms \<Rightarrow> map (\<lambda>(k, c). Some c) ms)"

definition coalesce0 :: "nat option \<Rightarrow> nat" where
  \<comment> \<open>\<^verbatim>\<open>func.coalesce(count, 0)\<close>.\<close>
  "coalesce0 c = (case c of None \<Rightarrow> 0 | Some n \<Rightarrow> n)"

record PersonneFilters =
  f_nom :: "string option"
  f_ville :: "string option"
  f_code_postal :: "string option"
  f_id_structure :: "int option"
  f_npai :: "bool option"
  f_decede :: "bool option"
  f_termine :: "bool option"
  f_fondateur :: "bool option"
  f_de_droit :: "bool option"
  f_adherent :: "bool option"
  f_est_personne_morale :: "bool option"

definition str_filter :: "string option \<Rightarrow> (string \<Rightarrow> bool) \<Rightarrow> bool" where
  \<comment> \<open>\<^verbatim>\<open>if nom: where(...)\<close>: the clause applies for a string that is neither None nor
      empty.\<close>
  "str_filter s P = (case s of None \<Rightarrow> True | Some v \<Rightarrow> if v = [] then True else P v)"

definition flag_matches :: "bool option \<Rightarrow> bool \<Rightarrow> bool" where
  \<comment> \<open>\<^verbatim>\<open>if flag is not None: where(column == flag)\<close>.\<close>
  "flag_matches f v = (case f of None \<Rightarrow> True | Some b \<Rightarrow> v = b)"

definition personne_where :: "(string \<Rightarrow> string \<Rightarrow> bool) \<Rightarrow> PersonneFilters \<Rightarrow> Personne \<Rightarrow> bool" where
  \<comment> \<open>The conjunction of the \<^verbatim>\<open>where\<close> clauses of \<^verbatim>\<open>get_personnes_with_parts\<close>. The
      database's \<^verbatim>\<open>ILIKE\<close> operator is the parameter \<open>ilike value pattern\<close>; a comparison
      with a NULL column is not true, so the row is dropped.\<close>
  "personne_where ilike f p =
     (str_filter (f_nom f) (\<lambda>n. ilike (nom p) (''%'' @ n @ ''%'')) \<and>
      str_filter (f_ville f) (\<lambda>n. case ville p of None \<Rightarrow> False
                                   | Some v \<Rightarrow> ilike v (''%'' @ n @ ''%'')) \<and>
      str_filter (f_code_postal f) (\<lambda>n. code_postal p = Some n) \<and>
      (case f_id_structure f of None \<Rightarrow> True | Some i \<Rightarrow> pe_id_structure p = Some i) \<and>
      flag_matches (f_npai f) (npai p) \<and>
      flag_matches (f_decede f) (decede p) \<and>
      flag_matches (f_termine f) (pe_termine p) \<and>
      flag_matches (f_fondateur f) (fondateur p) \<and>
      flag_matches (f_de_droit f) (de_droit p) \<and>
      flag_matches (f_adherent f) (adherent p) \<and>
      flag_matches (f_est_personne_morale f) (est_personne_morale p))"

fun insort_by :: "('a \<Rightarrow> 'a \<Rightarrow> bool) \<Rightarrow> 'a \<Rightarrow> 'a list \<Rightarrow> 'a list" where
  "insort_by le x [] = [x]"
| "insort_by le x (y # ys) = (if le x y then x # y # ys else y # insort_by le x ys)"

definition order_by :: "('a \<Rightarrow> 'a \<Rightarrow> bool) \<Rightarrow> 'a list \<Rightarrow> 'a list" where
  \<comment> \<open>\<^verbatim>\<open>ORDER BY\<close>: a stable insertion sort by the relation \<open>le x y\<close>, "x may come before y".
      SQL leaves the order of rows with equal keys open; the model keeps the scan order.\<close>
  "order_by le xs = foldr (insort_by le) xs []"

definition get_personnes_with_parts ::
  "(string \<Rightarrow> string \<Rightarrow> bool) \<Rightarrow> (Personne \<Rightarrow> Personne \<Rightarrow> bool) \<Rightarrow> Session \<Rightarrow> nat \<Rightarrow> nat
   \<Rightarrow> PersonneFilters \<Rightarrow> PersonneWithParts list \<times> nat" where
  \<comment> \<open>\<open>name_le\<close> is the database's ordering of rows by \<^verbatim>\<open>(nom, prenom)\<close> under its
      collation.\<close>
  "get_personnes_with_parts ilike name_le session skip limit f =
     (let gfa_subquery = parts_count_subquery session GFA;
          sctl_subquery = parts_count_subquery session TSL;
          statement =
            [(personne, coalesce0 g, coalesce0 s).
               personne \<leftarrow> personnes session,
               g \<leftarrow> outerjoin_count gfa_subquery (pe_id personne),
               s \<leftarrow> outerjoin_count sctl_subquery (pe_id personne),
               personne_where ilike f personne];
          count = length (filter (personne_where ilike f) (personnes session));
          results = take limit (drop skip
                      (order_by (\<lambda>r r'. name_le (fst r) (fst r')) statement))
      in (map (\<lambda>(personne, gfa_count, sctl_count).
                 PersonneWithParts_of personne gfa_count sctl_count) results,
          count))"

record PartsTotals =
  t_gfa :: nat
  t_sctl :: nat
  t_total :: nat
  t_actionnaires :: nat

definition get_parts_totals :: "Session \<Rightarrow> PartsTotals" where
  \<comment> \<open>The dictionary with the keys "gfa", "sctl", "total" and "actionnaires".\<close>
  "get_parts_totals session =
     (let gfa_total = length [p. (p, st) \<leftarrow> parts_join_structure session,
                                 \<not> np_termine p, type_structure st = TypeStructure_value GFA];
          sctl_total = length [p. (p, st) \<leftarrow> parts_join_structure session,
                                  \<not> np_termine p, type_structure st = TypeStructure_value TSL];
          actionnaires_count =
            length (remdups [np_id_personne p. p \<leftarrow> numeros_parts session, \<not> np_termine p])
      in \<lparr>t_gfa = gfa_total, t_sctl = sctl_total, t_total = gfa_total + sctl_total,
          t_actionnaires = actionnaires_count\<rparr>)"

definition mouvements_outerjoin_acte :: "Session \<Rightarrow> (Mouvement \<times> Acte option) list" where
  \<comment> \<open>\<^verbatim>\<open>select(Mouvement).outerjoin(Acte, Mouvement.id_acte == Acte.id)\<close>.\<close>
  "mouvements_outerjoin_acte session =
     concat (map (\<lambda>m.
       (case filter (\<lambda>a. mv_id_acte m = Some (ac_id a)) (actes session) of
          [] \<Rightarrow> [(m, None)]
        | as \<Rightarrow> map (\<lambda>a. (m, Some a)) as)) (mouvements session))"

definition effective_date :: "Mouvement \<times> Acte option \<Rightarrow> date option" where
  \<comment> \<open>\<^verbatim>\<open>func.coalesce(Mouvement.date_operation, Acte.date_acte)\<close>.\<close>
  "effective_date r =
     (case date_operation (fst r) of
        Some d \<Rightarrow> Some d
      | None \<Rightarrow> (case snd r of None \<Rightarrow> None | Some a \<Rightarrow> date_acte a))"

fun desc_le :: "bool \<Rightarrow> date option \<Rightarrow> date option \<Rightarrow> bool" where
  \<comment> \<open>\<open>desc_le nulls_first a b\<close>: key \<open>a\<close> may come before key \<open>b\<close> under
      \<^verbatim>\<open>ORDER BY key DESC\<close>. The source asks for no NULL placement, so the database's
      default decides: PostgreSQL, the database of this application, puts NULL first in a
      descending order (\<open>nulls_first = True\<close>); SQLite and MySQL put it last.\<close>
  "desc_le nulls_first None None = True"
| "desc_le nulls_first None (Some b) = nulls_first"
| "desc_le nulls_first (Some a) None = (\<not> nulls_first)"
| "desc_le nulls_first (Some a) (Some b) = (b \<le> a)"

definition opt_matches :: "'a option \<Rightarrow> 'a \<Rightarrow> bool" where
  \<comment> \<open>\<^verbatim>\<open>if v is not None: where(column == v)\<close>.\<close>
  "opt_matches f v = (case f of None \<Rightarrow> True | Some x \<Rightarrow> v = x)"

definition get_mouvements ::
  "bool \<Rightarrow> Session \<Rightarrow> nat \<Rightarrow> nat \<Rightarrow> int option \<Rightarrow> int option \<Rightarrow> bool option
   \<Rightarrow> Mouvement list \<times> nat" where
  "get_mouvements nulls_first session skip limit id_personne id_acte sens' =
     (let statement =
            filter (\<lambda>(m, a). opt_matches id_personne (mv_id_personne m) \<and>
                             (case id_acte of None \<Rightarrow> True | Some i \<Rightarrow> mv_id_acte m = Some i) \<and>
                             opt_matches sens' (sens m))
              (mouvements_outerjoin_acte session);
          count = length statement;
          ordered = order_by (\<lambda>r r'. desc_le nulls_first (effective_date r) (effective_date r'))
                      statement
      in (map fst (take limit (drop skip ordered)), count))"

definition fk_violation :: "Session \<Rightarrow> NumeroPart \<Rightarrow> NumeroPart \<Rightarrow> bool" where
  \<comment> \<open>The foreign keys declared on \<^verbatim>\<open>NumeroPart\<close> (\<^verbatim>\<open>personnes.id\<close>, \<^verbatim>\<open>mouvements.id\<close>,
      \<^verbatim>\<open>structures.id\<close>), checked by the database for every column that a flush rewrites.\<close>
  "fk_violation session old new =
     ((np_id_personne new \<noteq> np_id_personne old \<and>
       np_id_personne new \<notin> pe_id ` set (personnes session)) \<or>
      (np_id_mouvement new \<noteq> np_id_mouvement old \<and>
       (case np_id_mouvement new of None \<Rightarrow> False
        | Some m \<Rightarrow> m \<notin> mv_id ` set (mouvements session))) \<or>
      (np_id_structure new \<noteq> np_id_structure old \<and>
       (case np_id_structure new of None \<Rightarrow> False
        | Some i \<Rightarrow> i \<notin> st_id ` set (structures session))))"

definition commit_numeros_parts :: "Session \<Rightarrow> NumeroPart list \<Rightarrow> db_error + Session" where
  \<comment> \<open>\<^verbatim>\<open>session.commit()\<close> of pending changes to rows of \<^verbatim>\<open>numeros_parts\<close>: all of them are
      written, or the commit raises and the transaction is rolled back.\<close>
  "commit_numeros_parts session rows =
     (if list_ex (\<lambda>(old, new). fk_violation session old new) (zip (numeros_parts session) rows)
      then Inl IntegrityError
      else Inr (session\<lparr>numeros_parts := rows\<rparr>))"

definition session_get_numero_part :: "NumeroPart list \<Rightarrow> int \<Rightarrow> NumeroPart option" where
  \<comment> \<open>\<^verbatim>\<open>session.get(NumeroPart, part_id)\<close> on the rows as the session sees them.\<close>
  "session_get_numero_part rows part_id = find (\<lambda>p. np_id p = part_id) rows"

definition assign_owner :: "int \<Rightarrow> int \<Rightarrow> NumeroPart \<Rightarrow> NumeroPart" where
  \<comment> \<open>\<^verbatim>\<open>part.id_personne = new_owner_id; part.id_mouvement = mouvement_id\<close>.\<close>
  "assign_owner new_owner_id mouvement_id part =
     part\<lparr>np_id_personne := new_owner_id, np_id_mouvement := Some mouvement_id\<rparr>"

fun transfer_parts_loop ::
  "NumeroPart list \<Rightarrow> int list \<Rightarrow> int \<Rightarrow> int \<Rightarrow> int list \<Rightarrow> NumeroPart list \<times> int list" where
  \<comment> \<open>The \<^verbatim>\<open>for part_id in part_ids\<close> loop. A loaded part is an object of the session,
      identified by its primary key: \<open>transferred\<close> lists the keys of the objects appended.\<close>
  "transfer_parts_loop rows [] new_owner_id mouvement_id transferred = (rows, transferred)"
| "transfer_parts_loop rows (part_id # part_ids) new_owner_id mouvement_id transferred =
     (case session_get_numero_part rows part_id of
        None \<Rightarrow> transfer_parts_loop rows part_ids new_owner_id mouvement_id transferred
      | Some part \<Rightarrow>
          transfer_parts_loop
            (map (\<lambda>p. if np_id p = part_id then assign_owner new_owner_id mouvement_id p else p)
               rows)
            part_ids new_owner_id mouvement_id (transferred @ [part_id]))"

definition transfer_parts ::
  "Session \<Rightarrow> int list \<Rightarrow> int \<Rightarrow> int \<Rightarrow> db_error + (NumeroPart list \<times> Session)" where
  \<comment> \<open>Returns the refreshed parts and the store after the commit; \<open>Inl\<close> is the exception
      of a failed commit, which leaves the store as it was.\<close>
  "transfer_parts session part_ids new_owner_id mouvement_id =
     (case transfer_parts_loop (numeros_parts session) part_ids new_owner_id mouvement_id [] of
        (rows, transferred) \<Rightarrow>
          bind_res (commit_numeros_parts session rows) (\<lambda>session'.
            Inr (List.map_filter (session_get_numero_part (numeros_parts session')) transferred,
                 session')))"

datatype 'a upd = Unset | Set 'a

record NumeroPartUpdate =
  u_num_part :: "int upd"
  u_termine :: "bool upd"
  u_distribue :: "bool upd"
  u_etat :: "int upd"
  u_id_personne :: "int upd"
  u_id_mouvement :: "int option upd"
  u_id_structure :: "int option upd"

definition upd_or :: "'a upd \<Rightarrow> 'a \<Rightarrow> 'a" where
  "upd_or u v = (case u of Unset \<Rightarrow> v | Set x \<Rightarrow> x)"

definition sqlmodel_update :: "NumeroPart \<Rightarrow> NumeroPartUpdate \<Rightarrow> NumeroPart" where
  \<comment> \<open>\<^verbatim>\<open>db_part.sqlmodel_update(part_in.model_dump(exclude_unset=True))\<close>: only the fields
      the caller set overwrite. (A caller that sets a NOT NULL column to None is outside the
      model.)\<close>
  "sqlmodel_update p u =
     p\<lparr>num_part := upd_or (u_num_part u) (num_part p),
       np_termine := upd_or (u_termine u) (np_termine p),
       distribue := upd_or (u_distribue u) (distribue p),
       etat := upd_or (u_etat u) (etat p),
       np_id_personne := upd_or (u_id_personne u) (np_id_personne p),
       np_id_mouvement := upd_or (u_id_mouvement u) (np_id_mouvement p),
       np_id_structure := upd_or (u_id_structure u) (np_id_structure p)\<rparr>"

definition update_numero_part ::
  "Session \<Rightarrow> NumeroPart \<Rightarrow> NumeroPartUpdate \<Rightarrow> db_error + (NumeroPart \<times> Session)" where
  \<comment> \<open>\<open>db_part\<close> is an object of the session: the row with its primary key.\<close>
  "update_numero_part session db_part part_in =
     bind_res
       (commit_numeros_parts session
          (map (\<lambda>p. if np_id p = np_id db_part then sqlmodel_update p part_in else p)
             (numeros_parts session)))
       (\<lambda>session'. Inr (sqlmodel_update db_part part_in, session'))"

section \<open>Anomaly detection\<close>

definition find_parts_sans_mouvements :: "Session \<Rightarrow> int option \<Rightarrow> NumeroPart list" where
  "find_parts_sans_mouvements session id_structure =
     filter (\<lambda>p. np_id_mouvement p = None \<and>
                 (case id_structure of None \<Rightarrow> True | Some i \<Rightarrow> np_id_structure p = Some i))
       (numeros_parts session)"

section \<open>Point values\<close>

definition get_valeur_point_by_annee :: "Session \<Rightarrow> int \<Rightarrow> ValeurPoint option" where
  \<comment> \<open>\<^verbatim>\<open>session.exec(select(ValeurPoint).where(ValeurPoint.annee == annee)).first()\<close>.\<close>
  "get_valeur_point_by_annee session annee' =
     (case filter (\<lambda>v. annee v = annee') (valeurs_points session) of
        [] \<Rightarrow> None
      | v # _ \<Rightarrow> Some v)"

text \<open>
  \<^verbatim>\<open>create_valeur_point\<close> can fail in three ways. \<^verbatim>\<open>ValeurPoint.model_validate\<close> checks the
  field constraints of the model (\<^verbatim>\<open>max_digits\<close>, \<^verbatim>\<open>decimal_places\<close>) on the values it is
  given and raises \<^verbatim>\<open>ValidationError\<close>; the check belongs to the validation library, not to
  this repository, and is a parameter here. The \<^verbatim>\<open>INSERT\<close> of the commit raises \<^verbatim>\<open>DataError\<close>
  when a value does not fit its column: \<^verbatim>\<open>id\<close> and \<^verbatim>\<open>annee\<close> are 32-bit \<^verbatim>\<open>INTEGER\<close> columns,
  the point values \<^verbatim>\<open>NUMERIC(10, 4)\<close> and the supplements \<^verbatim>\<open>NUMERIC(5, 2)\<close>. The only
  uniqueness rule of the table is its primary key \<^verbatim>\<open>id\<close>, which the database fills from the
  sequence of the table: the insert raises \<^verbatim>\<open>IntegrityError\<close> when a row already has that
  id (\<open>DuplicateKey\<close> below). \<^verbatim>\<open>annee\<close> carries a plain index (\<^verbatim>\<open>Field(index=True)\<close>), no
  uniqueness rule that the insert could violate. The store after a failed call is not
  modelled.
\<close>

datatype create_error = ValidationError | DataError | DuplicateKey

definition int4 :: "int \<Rightarrow> bool" where
  \<comment> \<open>The values of a PostgreSQL \<^verbatim>\<open>INTEGER\<close> column.\<close>
  "int4 i \<longleftrightarrow> - 2147483648 \<le> i \<and> i \<le> 2147483647"

definition numeric_column :: "nat \<Rightarrow> nat \<Rightarrow> Decimal \<Rightarrow> Decimal option" where
  \<comment> \<open>What a \<^verbatim>\<open>NUMERIC(precision, scale)\<close> column keeps of a value and gives back when the row
      is read: the value rounded to \<open>scale\<close> decimal places, ties away from zero, written
      with exactly \<open>scale\<close> decimal places; nothing (the insert fails with a numeric field
      overflow) when the rounded value needs more than \<open>precision\<close> digits.\<close>
  "numeric_column precision scale d =
     (let coeff = (if - int scale \<le> d_exp d then d_int d * 10 ^ nat (d_exp d + int scale)
                   else (2 * d_int d + 10 ^ nat (- int scale - d_exp d)) div
                          (2 * 10 ^ nat (- int scale - d_exp d)))
      in if 10 ^ precision \<le> coeff then None
         else Some \<lparr>d_sign = (d_sign d \<and> coeff \<noteq> 0), d_int = coeff, d_exp = - int scale\<rparr>)"

definition create_valeur_point ::
  "(ValeurPointCreate \<Rightarrow> bool) \<Rightarrow> Session \<Rightarrow> ValeurPointCreate \<Rightarrow>
     create_error + (ValeurPoint \<times> Session)" where
  \<comment> \<open>\<^verbatim>\<open>ValeurPoint.model_validate(valeur_in)\<close>, \<^verbatim>\<open>add\<close>, \<^verbatim>\<open>commit\<close>, \<^verbatim>\<open>refresh\<close>: the object
      returned is the row as the database stored it.\<close>
  "create_valeur_point validate session valeur_in =
     (if \<not> validate valeur_in then Inl ValidationError
      else if \<not> int4 (valeurs_points_seq session) \<or> \<not> int4 (annee valeur_in)
      then Inl DataError
      else
        case (numeric_column 10 4 (valeur_point_gfa valeur_in),
              numeric_column 10 4 (valeur_point_sctl valeur_in),
              numeric_column 5 2 (valeur_supp_gfa valeur_in),
              numeric_column 5 2 (valeur_supp_sctl valeur_in)) of
          (Some vp_gfa, Some vp_sctl, Some vs_gfa, Some vs_sctl) \<Rightarrow>
            let db_obj = \<lparr>annee = annee valeur_in, valeur_point_gfa = vp_gfa,
                          valeur_point_sctl = vp_sctl, valeur_supp_gfa = vs_gfa,
                          valeur_supp_sctl = vs_sctl, vp_id = valeurs_points_seq session\<rparr>
            in if vp_id db_obj \<in> vp_id ` set (valeurs_points session) then Inl DuplicateKey
               else Inr (db_obj,
                         session\<lparr>valeurs_points := valeurs_points session @ [db_obj],
                                 valeurs_points_seq := valeurs_points_seq session + 1\<rparr>)
        | _ \<Rightarrow> Inl DataError)"

section \<open>Python's float\<close>

text \<open>
  The rent calculator answers with Python floats, IEEE 754 binary64 numbers. A finite float
  is kept here as its sign, its integral significand \<open>m < 2^53\<close> and the exponent \<open>e\<close> of the
  last bit of the significand, \<open>-1074 \<le> e \<le> 971\<close>; its value is \<open>(-1)^sign * m * 2^e\<close>.
  The significand is below \<open>2^52\<close> only for the zeros and the subnormal numbers, which have
  \<open>e = -1074\<close>, so every float has one representation: \<open>1.0\<close> is \<open>Float False (2^52) (-52)\<close>,
  \<open>0.0\<close> is \<open>Float False 0 (-1074)\<close>. \<^verbatim>\<open>float(d)\<close> of a finite Decimal is \<^verbatim>\<open>float(str(d))\<close>:
  the float nearest to the value of \<open>d\<close>, ties to the even significand, and an infinity,
  without any exception, when that rounding passes the largest float.
\<close>

datatype float = Float bool nat int | Infinity bool

fun nbits :: "nat \<Rightarrow> nat" where
  \<comment> \<open>\<^verbatim>\<open>int.bit_length\<close>.\<close>
  "nbits n = (if n = 0 then 0 else Suc (nbits (n div 2)))"

declare nbits.simps [simp del]

definition round_half_even_div :: "nat \<Rightarrow> nat \<Rightarrow> nat" where
  \<comment> \<open>The integer nearest to \<open>n / d\<close>, ties to even.\<close>
  "round_half_even_div n d =
     (let q = n div d; r = n mod d
      in if 2 * r > d \<or> (2 * r = d \<and> odd q) then q + 1 else q)"

definition scale2 :: "nat \<Rightarrow> nat \<Rightarrow> int \<Rightarrow> nat \<times> nat" where
  \<comment> \<open>Numerator and denominator of \<open>n / d / 2^e\<close>.\<close>
  "scale2 n d e = (if 0 \<le> e then (n, d * 2 ^ nat e) else (n * 2 ^ nat (- e), d))"

definition float_of_fraction :: "bool \<Rightarrow> nat \<Rightarrow> nat \<Rightarrow> float" where
  \<comment> \<open>The float nearest to \<open>(-1)^sign * n / d\<close>. \<open>log2\<close> is the exponent of the leading bit
      of \<open>n / d\<close>, \<open>e\<close> that of the last of the 53 bits kept (never below that of the
      subnormal numbers), \<open>m\<close> the significand; a significand rounded up to \<open>2^53\<close> is
      \<open>2^52\<close> one exponent higher.\<close>
  "float_of_fraction sign n d =
     (if n = 0 then Float sign 0 (- 1074)
      else
        let k = int (nbits n) - int (nbits d);
            log2 = (case scale2 n d k of (n', d') \<Rightarrow> if d' \<le> n' then k else k - 1);
            e = max (log2 - 52) (- 1074);
            m = (case scale2 n d e of (n', d') \<Rightarrow> round_half_even_div n' d')
        in if m = 2 ^ 53 then (if e + 1 > 971 then Infinity sign else Float sign (2 ^ 52) (e + 1))
           else if e > 971 then Infinity sign else Float sign m e)"

definition decimal_float :: "Decimal \<Rightarrow> float" where
  \<comment> \<open>\<^verbatim>\<open>Decimal.__float__\<close>.\<close>
  "decimal_float x =
     (if 0 \<le> d_exp x then float_of_fraction (d_sign x) (d_int x * 10 ^ nat (d_exp x)) 1
      else float_of_fraction (d_sign x) (d_int x) (10 ^ nat (- d_exp x)))"

definition float_is_zero :: "float \<Rightarrow> bool" where
  \<comment> \<open>\<^verbatim>\<open>x == 0\<close> on floats: true of \<open>0.0\<close> and of \<open>-0.0\<close>.\<close>
  "float_is_zero x = (case x of Float sign m e \<Rightarrow> m = 0 | Infinity sign \<Rightarrow> False)"

section \<open>Rent aggregation and the rent calculator route\<close>

record FermageTotaux =
  total_surface :: Decimal
  total_revenu :: Decimal
  total_montant :: Decimal
  nb_parcelles :: nat

definition fermage_subdivisions ::
  "Session \<Rightarrow> int option \<Rightarrow> int option \<Rightarrow> bool option \<Rightarrow> Subdivision list" where
  \<comment> \<open>\<^verbatim>\<open>select(Subdivision).join(Parcelle, Subdivision.id_parcelle == Parcelle.id)\<close> with the
      optional \<^verbatim>\<open>where\<close> clauses of \<^verbatim>\<open>get_fermage_totaux\<close>; the commune is the parcel's.\<close>
  "fermage_subdivisions session id_exploitant id_commune sctl =
     [sub. sub \<leftarrow> subdivisions session, p \<leftarrow> parcelles session,
           sd_id_parcelle sub = pa_id p,
           (case id_exploitant of None \<Rightarrow> True | Some e \<Rightarrow> sd_id_exploitant sub = Some e),
           opt_matches id_commune (pa_id_commune p),
           opt_matches sctl (pa_sctl p)]"

definition subdivision_est_sctl :: "Session \<Rightarrow> Subdivision \<Rightarrow> bool" where
  \<comment> \<open>\<^verbatim>\<open>sub.parcelle.sctl if sub.parcelle else False\<close>; the relationship loads the parcel
      whose primary key is \<^verbatim>\<open>sub.id_parcelle\<close>.\<close>
  "subdivision_est_sctl session sub =
     (case find (\<lambda>p. pa_id p = sd_id_parcelle sub) (parcelles session) of
        None \<Rightarrow> False
      | Some p \<Rightarrow> pa_sctl p)"

definition montant_subdivision :: "Session \<Rightarrow> ValeurPoint \<Rightarrow> Subdivision \<Rightarrow> decimal_signal + Decimal" where
  \<comment> \<open>The call of \<^verbatim>\<open>calculer_montant_fermage\<close> in the loop; the supplement flags keep their
      default \<^verbatim>\<open>False\<close>.\<close>
  "montant_subdivision session vp sub =
     calculer_montant_fermage (point_fermage sub) (surface sub) (subdivision_est_sctl session sub)
       (valeur_point_gfa vp) (valeur_point_sctl vp) False False
       (valeur_supp_gfa vp) (valeur_supp_sctl vp)"

fun fermage_totaux_loop ::
  "Session \<Rightarrow> ValeurPoint option \<Rightarrow> Subdivision list \<Rightarrow> Decimal \<times> Decimal \<times> Decimal \<times> int set
   \<Rightarrow> decimal_signal + (Decimal \<times> Decimal \<times> Decimal \<times> int set)" where
  \<comment> \<open>The \<^verbatim>\<open>for sub in subdivisions\<close> loop over the four accumulators.\<close>
  "fermage_totaux_loop session valeur_point [] acc = Inr acc"
| "fermage_totaux_loop session valeur_point (sub # subs) (ts, tr, tm, ids) =
     bind_res (decimal_add ts (surface sub)) (\<lambda>ts'.
     bind_res (decimal_add tr (revenu sub)) (\<lambda>tr'.
       (case valeur_point of
          None \<Rightarrow>
            fermage_totaux_loop session valeur_point subs
              (ts', tr', tm, insert (sd_id_parcelle sub) ids)
        | Some vp \<Rightarrow>
            bind_res (montant_subdivision session vp sub) (\<lambda>m.
            bind_res (decimal_add tm m) (\<lambda>tm'.
              fermage_totaux_loop session valeur_point subs
                (ts', tr', tm', insert (sd_id_parcelle sub) ids))))))"

definition get_fermage_totaux ::
  "Session \<Rightarrow> int option \<Rightarrow> int option \<Rightarrow> bool option \<Rightarrow> ValeurPoint option
   \<Rightarrow> decimal_signal + FermageTotaux" where
  "get_fermage_totaux session id_exploitant id_commune sctl valeur_point =
     bind_res
       (fermage_totaux_loop session valeur_point
          (fermage_subdivisions session id_exploitant id_commune sctl)
          (Dec 0 0, Dec 0 0, Dec 0 0, {}))
       (\<lambda>(ts, tr, tm, ids).
          Inr \<lparr>total_surface = ts, total_revenu = tr, total_montant = tm,
               nb_parcelles = card ids\<rparr>)"

record FermageCalcul =
  r_point_fermage :: float
  r_surface :: float
  r_sctl :: bool
  r_annee :: "int option"
  r_valeur_point :: float
  r_montant_fermage :: float

definition decimal_or :: "Decimal \<Rightarrow> Decimal \<Rightarrow> Decimal" where
  \<comment> \<open>Python's \<^verbatim>\<open>a or b\<close> on Decimals: \<open>b\<close> when \<open>a\<close> is zero.\<close>
  "decimal_or a b = (if decimal_bool a then a else b)"

definition calculate_fermage ::
  "Session \<Rightarrow> Decimal \<Rightarrow> Decimal \<Rightarrow> bool \<Rightarrow> int option \<Rightarrow> decimal_signal + FermageCalcul" where
  \<comment> \<open>The route \<^verbatim>\<open>GET /fermages/calculate\<close> of \<^verbatim>\<open>parcelles.py\<close>; the record is the
      dictionary it returns, the amounts converted with \<^verbatim>\<open>float()\<close>.\<close>
  "calculate_fermage session pf sf sctl annee' =
     (let valeur_point =
            (case annee' of
               None \<Rightarrow> None
             | Some a \<Rightarrow> if a = 0 then None else get_valeur_point_by_annee session a);
          vp_gfa = (case valeur_point of None \<Rightarrow> Dec 10 (- 1)
                    | Some v \<Rightarrow> decimal_or (valeur_point_gfa v) (Dec 10 (- 1)));
          vp_sctl = (case valeur_point of None \<Rightarrow> Dec 10 (- 1)
                     | Some v \<Rightarrow> decimal_or (valeur_point_sctl v) (Dec 10 (- 1)));
          vs_gfa = (case valeur_point of None \<Rightarrow> Dec 0 (- 1)
                    | Some v \<Rightarrow> decimal_or (valeur_supp_gfa v) (Dec 0 (- 1)));
          vs_sctl = (case valeur_point of None \<Rightarrow> Dec 0 (- 1)
                     | Some v \<Rightarrow> decimal_or (valeur_supp_sctl v) (Dec 0 (- 1)))
      in bind_res
           (calculer_montant_fermage pf sf sctl vp_gfa vp_sctl False False vs_gfa vs_sctl)
           (\<lambda>montant.
              Inr \<lparr>r_point_fermage = decimal_float pf, r_surface = decimal_float sf,
                   r_sctl = sctl, r_annee = annee',
                   r_valeur_point = decimal_float (if sctl then vp_sctl else vp_gfa),
                   r_montant_fermage = decimal_float montant\<rparr>))"

section \<open>Reference definitions\<close>

text \<open>
  The words of the specification, written on their own, to compare the code with.
\<close>

fun decimal_sum_from :: "Decimal \<Rightarrow> Decimal list \<Rightarrow> decimal_signal + Decimal" where
  "decimal_sum_from acc [] = Inr acc"
| "decimal_sum_from acc (x # xs) = bind_res (decimal_add acc x) (\<lambda>a. decimal_sum_from a xs)"

definition decimal_sum :: "Decimal list \<Rightarrow> decimal_signal + Decimal" where
  \<comment> \<open>The sum of a list of Decimals, added from the left to \<^verbatim>\<open>Decimal("0")\<close>.\<close>
  "decimal_sum xs = decimal_sum_from (Dec 0 0) xs"

fun sequence_res :: "('e + 'a) list \<Rightarrow> 'e + 'a list" where
  \<comment> \<open>The values of a list of computations, or the first exception.\<close>
  "sequence_res [] = Inr []"
| "sequence_res (m # ms) = bind_res m (\<lambda>v. bind_res (sequence_res ms) (\<lambda>vs. Inr (v # vs)))"

definition montant_exact :: "rat \<Rightarrow> rat \<Rightarrow> rat \<Rightarrow> rat" where
  \<comment> \<open>\<open>((points * surface) / 10000) * point value\<close> over the rationals, with no rounding.\<close>
  "montant_exact p s v = p * s / 10000 * v"

definition in_scope :: "int option \<Rightarrow> NumeroPart \<Rightarrow> bool" where
  \<comment> \<open>The optional structure scope of an anomaly query.\<close>
  "in_scope id_structure p =
     (case id_structure of None \<Rightarrow> True | Some i \<Rightarrow> np_id_structure p = Some i)"

definition NumeroPartUpdate_id_mouvement :: "int \<Rightarrow> NumeroPartUpdate" where
  \<comment> \<open>\<^verbatim>\<open>NumeroPartUpdate(id_mouvement=m)\<close>: every other field left unset.\<close>
  "NumeroPartUpdate_id_mouvement m =
     \<lparr>u_num_part = Unset, u_termine = Unset, u_distribue = Unset, u_etat = Unset,
      u_id_personne = Unset, u_id_mouvement = Set (Some m), u_id_structure = Unset\<rparr>"

definition structure_of :: "Session \<Rightarrow> NumeroPart \<Rightarrow> Structure option" where
  \<comment> \<open>The Structure that owns a part: the row that \<open>id_structure\<close> refers to.\<close>
  "structure_of session p =
     (case np_id_structure p of
        None \<Rightarrow> None
      | Some i \<Rightarrow> find (\<lambda>st. st_id st = i) (structures session))"

definition owned_by_kind :: "Session \<Rightarrow> TypeStructure \<Rightarrow> NumeroPart \<Rightarrow> bool" where
  \<comment> \<open>The part belongs to a Structure of the given type.\<close>
  "owned_by_kind session t p =
     (case structure_of session p of
        None \<Rightarrow> False
      | Some st \<Rightarrow> type_structure st = TypeStructure_value t)"

definition acte_of :: "Session \<Rightarrow> Mouvement \<Rightarrow> Acte option" where
  \<comment> \<open>The acte a mouvement is linked to: the row that \<open>id_acte\<close> refers to.\<close>
  "acte_of session m =
     (case mv_id_acte m of
        None \<Rightarrow> None
      | Some i \<Rightarrow> find (\<lambda>a. ac_id a = i) (actes session))"

definition date_effective :: "Session \<Rightarrow> Mouvement \<Rightarrow> date option" where
  \<comment> \<open>\<open>date_operation\<close> when present, otherwise the linked acte's \<open>date_acte\<close>.\<close>
  "date_effective session m =
     (case date_operation m of
        Some d \<Rightarrow> Some d
      | None \<Rightarrow> (case acte_of session m of None \<Rightarrow> None | Some a \<Rightarrow> date_acte a))"

definition mouvement_matches :: "int option \<Rightarrow> int option \<Rightarrow> bool option \<Rightarrow> Mouvement \<Rightarrow> bool" where
  \<comment> \<open>The mouvement passes the optional filters on owner, acte and direction.\<close>
  "mouvement_matches id_personne id_acte sens' m =
     ((case id_personne of None \<Rightarrow> True | Some i \<Rightarrow> mv_id_personne m = i) \<and>
      (case id_acte of None \<Rightarrow> True | Some i \<Rightarrow> mv_id_acte m = Some i) \<and>
      (case sens' of None \<Rightarrow> True | Some b \<Rightarrow> sens m = b))"

definition subdivision_matches ::
  "Session \<Rightarrow> int option \<Rightarrow> int option \<Rightarrow> bool option \<Rightarrow> Subdivision \<Rightarrow> bool" where
  \<comment> \<open>The subdivision has a parcel and passes the optional filters: the tenant is the
      subdivision's, the commune and the cooperative flag are its parcel's.\<close>
  "subdivision_matches session id_exploitant id_commune sctl sub =
     (case find (\<lambda>p. pa_id p = sd_id_parcelle sub) (parcelles session) of
        None \<Rightarrow> False
      | Some p \<Rightarrow>
          (case id_exploitant of None \<Rightarrow> True | Some e \<Rightarrow> sd_id_exploitant sub = Some e) \<and>
          (case id_commune of None \<Rightarrow> True | Some c \<Rightarrow> pa_id_commune p = c) \<and>
          (case sctl of None \<Rightarrow> True | Some b \<Rightarrow> pa_sctl p = b))"

section \<open>Example stores\<close>

text \<open>
  Small concrete stores on which the theorems below are instantiated. \<open>Personne_new\<close> and
  \<open>NumeroPart_new\<close> fill every column that is not given with the default that
  \<^verbatim>\<open>models.py\<close> declares for it.
\<close>

definition Personne_new :: "int \<Rightarrow> string \<Rightarrow> Personne" where
  "Personne_new i n =
     \<lparr>pe_id = i, civilite = None, nom = n, prenom = None, code_postal = None, ville = None,
      npai = False, decede = False, pe_termine = False, fondateur = False, de_droit = False,
      adherent = False, est_personne_morale = False, pe_id_structure = None,
      id_personne_morale = None\<rparr>"

definition NumeroPart_new :: "int \<Rightarrow> int \<Rightarrow> int \<Rightarrow> int option \<Rightarrow> int option \<Rightarrow> NumeroPart" where
  "NumeroPart_new i n owner mv st =
     \<lparr>np_id = i, num_part = n, np_termine = False, distribue = False, etat = 0,
      np_id_personne = owner, np_id_mouvement = mv, np_id_structure = st\<rparr>"

definition empty_session :: Session where
  "empty_session =
     \<lparr>structures = [], actes = [], personnes = [], mouvements = [], numeros_parts = [],
      valeurs_points = [], valeurs_points_seq = 1, parcelles = [], subdivisions = []\<rparr>"

definition ledger_example :: Session where
  "ledger_example = empty_session
     \<lparr>structures :=
        [\<lparr>st_id = 1, nom_structure = ''GFA Larzac'', type_structure = 2, st_gfa = None\<rparr>,
         \<lparr>st_id = 2, nom_structure = ''SCTL'', type_structure = 6, st_gfa = None\<rparr>],
      personnes := [Personne_new 5 ''Martin'', Personne_new 42 ''Durand''],
      mouvements :=
        [\<lparr>mv_id = 7, date_operation = None, sens = True, nb_parts = 2, mv_id_personne = 42,
          mv_id_acte = None, id_type_apport = None, id_type_remboursement = None\<rparr>],
      numeros_parts :=
        [NumeroPart_new 1 101 5 None (Some 1), NumeroPart_new 3 103 42 None (Some 2)]\<rparr>"

definition PersonneFilters_none :: PersonneFilters where
  \<comment> \<open>No filter supplied: every keyword argument keeps its default \<^verbatim>\<open>None\<close>.\<close>
  "PersonneFilters_none =
     \<lparr>f_nom = None, f_ville = None, f_code_postal = None, f_id_structure = None,
      f_npai = None, f_decede = None, f_termine = None, f_fondateur = None,
      f_de_droit = None, f_adherent = None, f_est_personne_morale = None\<rparr>"

definition mouvement_A :: Mouvement where
  \<comment> \<open>No operation date; linked to the acte dated 2020-01-01.\<close>
  "mouvement_A =
     \<lparr>mv_id = 1, date_operation = None, sens = True, nb_parts = 1, mv_id_personne = 5,
      mv_id_acte = Some 1, id_type_apport = None, id_type_remboursement = None\<rparr>"

definition mouvement_B :: Mouvement where
  \<comment> \<open>Operation date 2021-06-01.\<close>
  "mouvement_B =
     \<lparr>mv_id = 2, date_operation = Some (2021, 6, 1), sens = True, nb_parts = 1,
      mv_id_personne = 5, mv_id_acte = None, id_type_apport = None,
      id_type_remboursement = None\<rparr>"

definition mouvement_C :: Mouvement where
  \<comment> \<open>Neither an operation date nor an acte.\<close>
  "mouvement_C =
     \<lparr>mv_id = 3, date_operation = None, sens = True, nb_parts = 1, mv_id_personne = 5,
      mv_id_acte = None, id_type_apport = None, id_type_remboursement = None\<rparr>"

definition mouvements_example :: Session where
  "mouvements_example = empty_session
     \<lparr>actes :=
        [\<lparr>ac_id = 1, code_acte = ''AGE2020'', date_acte = Some (2020, 1, 1),
          libelle_acte = None, provisoire = False, ac_id_structure = None\<rparr>],
      personnes := [Personne_new 5 ''Martin''],
      mouvements := [mouvement_A, mouvement_B, mouvement_C]\<rparr>"

definition valeur_2024 :: ValeurPoint where
  "valeur_2024 =
     \<lparr>annee = 2024, valeur_point_gfa = Dec 169 (- 2), valeur_point_sctl = Dec 200 (- 2),
      valeur_supp_gfa = Dec 0 0, valeur_supp_sctl = Dec 0 0, vp_id = 1\<rparr>"

definition valeurs_example :: Session where
  "valeurs_example = empty_session\<lparr>valeurs_points := [valeur_2024], valeurs_points_seq := 2\<rparr>"

definition valeur_2024_bis :: ValeurPointCreate where
  "valeur_2024_bis =
     \<lparr>annee = 2024, valeur_point_gfa = Dec 175 (- 2), valeur_point_sctl = Dec 210 (- 2),
      valeur_supp_gfa = Dec 0 0, valeur_supp_sctl = Dec 0 0\<rparr>"

definition valeur_2024_row :: ValeurPoint where
  \<comment> \<open>The row of 2024 as the table holds it, every value at the scale of its column.\<close>
  "valeur_2024_row =
     \<lparr>annee = 2024, valeur_point_gfa = Dec 16900 (- 4), valeur_point_sctl = Dec 20000 (- 4),
      valeur_supp_gfa = Dec 0 (- 2), valeur_supp_sctl = Dec 0 (- 2), vp_id = 1\<rparr>"

definition valeurs_stored :: Session where
  "valeurs_stored = empty_session\<lparr>valeurs_points := [valeur_2024_row], valeurs_points_seq := 2\<rparr>"

definition within_digits :: "nat \<Rightarrow> nat \<Rightarrow> Decimal \<Rightarrow> bool" where
  \<comment> \<open>A Decimal written with at most \<open>max_digits\<close> digits, at most \<open>decimal_places\<close> of them
      after the point and at most \<open>max_digits - decimal_places\<close> before it.\<close>
  "within_digits max_digits decimal_places d =
     (if 0 \<le> d_exp d
      then ndigits (d_int d) + nat (d_exp d) \<le> max_digits - decimal_places
      else nat (- d_exp d) \<le> decimal_places \<and>
           max (ndigits (d_int d)) (nat (- d_exp d)) \<le> max_digits \<and>
           max (ndigits (d_int d)) (nat (- d_exp d)) - nat (- d_exp d) \<le>
             max_digits - decimal_places)"

definition field_constraints :: "ValeurPointCreate \<Rightarrow> bool" where
  \<comment> \<open>A validation that enforces the digits declared on the fields of \<^verbatim>\<open>ValeurPointBase\<close>.\<close>
  "field_constraints v \<longleftrightarrow>
     within_digits 10 4 (valeur_point_gfa v) \<and> within_digits 10 4 (valeur_point_sctl v) \<and>
     within_digits 5 2 (valeur_supp_gfa v) \<and> within_digits 5 2 (valeur_supp_sctl v)"

definition fermage_example :: Session where
  "fermage_example = valeurs_example
     \<lparr>parcelles :=
        [\<lparr>pa_id = 1, pa_parcelle = ''A12'', pa_sctl = True, pa_id_commune = 1,
          pa_id_lieu_dit = None, pa_id_type_cadastre = None, pa_id_gfa = None\<rparr>,
         \<lparr>pa_id = 2, pa_parcelle = ''B7'', pa_sctl = False, pa_id_commune = 1,
          pa_id_lieu_dit = None, pa_id_type_cadastre = None, pa_id_gfa = None\<rparr>],
      subdivisions :=
        [\<lparr>sd_id = 1, division = 0, sd_subdivision = 0, surface = Dec 25 (- 1),
          revenu = Dec 1200 (- 2), duree_fermage = 9, point_fermage = Dec 10 0,
          sd_id_parcelle = 1, sd_id_exploitant = Some 1, sd_id_type_fermage = None\<rparr>,
         \<lparr>sd_id = 2, division = 0, sd_subdivision = 1, surface = Dec 15 (- 1),
          revenu = Dec 800 (- 2), duree_fermage = 9, point_fermage = Dec 4 0,
          sd_id_parcelle = 1, sd_id_exploitant = Some 1, sd_id_type_fermage = None\<rparr>,
         \<lparr>sd_id = 3, division = 0, sd_subdivision = 0, surface = Dec 25 (- 1),
          revenu = Dec 500 (- 2), duree_fermage = 9, point_fermage = Dec 10 0,
          sd_id_parcelle = 2, sd_id_exploitant = Some 1, sd_id_type_fermage = None\<rparr>]\<rparr>"

section \<open>Lists, joins and ordering\<close>

lemma concat_map_if:
  "concat (map (\<lambda>x. if P x then [f x] else []) xs) = map f (filter P xs)"
  by (induction xs) auto

lemma if_if_Nil:
  "(if a then (if b then xs else []) else []) = (if a \<and> b then xs else [])"
  by simp

lemma filter_key_distinct:
  assumes "distinct (map key xs)"
  shows "filter (\<lambda>x. key x = i) xs = (case find (\<lambda>x. key x = i) xs of None \<Rightarrow> [] | Some x \<Rightarrow> [x])"
  using assms
proof (induction xs)
  case Nil
  show ?case by simp
next
  case (Cons x xs)
  show ?case
  proof (cases "key x = i")
    case True
    with Cons.prems have "filter (\<lambda>x. key x = i) xs = []"
      by (force simp: filter_empty_conv image_iff)
    with True show ?thesis by simp
  next
    case False
    with Cons show ?thesis by simp
  qed
qed

lemma mset_insort_by: "mset (insort_by le x xs) = add_mset x (mset xs)"
  by (induction xs) auto

lemma mset_order_by: "mset (order_by le xs) = mset xs"
  by (induction xs) (auto simp: order_by_def mset_insort_by)

lemma set_order_by: "set (order_by le xs) = set xs"
  by (metis mset_order_by set_mset_mset)

lemma length_order_by: "length (order_by le xs) = length xs"
  by (metis mset_order_by size_mset)

lemma set_insort_by: "set (insort_by le x xs) = insert x (set xs)"
  by (metis mset_insort_by set_mset_add_mset_insert set_mset_mset)

lemma sorted_wrt_insort_by:
  assumes total: "\<And>a b. le a b \<or> le b a" and trans: "\<And>a b c. le a b \<Longrightarrow> le b c \<Longrightarrow> le a c"
    and "sorted_wrt le xs"
  shows "sorted_wrt le (insort_by le x xs)"
  using assms(3)
proof (induction xs)
  case Nil
  show ?case by simp
next
  case (Cons y ys)
  show ?case
  proof (cases "le x y")
    case True
    with Cons.prems trans show ?thesis by auto
  next
    case False
    with total have "le y x" by blast
    with False Cons show ?thesis by (auto simp: set_insort_by)
  qed
qed

lemma sorted_wrt_order_by:
  assumes "\<And>a b. le a b \<or> le b a" and "\<And>a b c. le a b \<Longrightarrow> le b c \<Longrightarrow> le a c"
  shows "sorted_wrt le (order_by le xs)"
proof (induction xs)
  case Nil
  show ?case by (simp add: order_by_def)
next
  case (Cons x xs)
  have "order_by le (x # xs) = insort_by le x (order_by le xs)"
    by (simp add: order_by_def)
  with Cons sorted_wrt_insort_by [of le, OF assms] show ?case by simp
qed

section \<open>Transfer of parts\<close>

lemma np_id_assign_owner [simp]: "np_id (assign_owner o' m p) = np_id p"
  by (simp add: assign_owner_def)

lemma assign_owner_idem [simp]: "assign_owner o' m (assign_owner o' m p) = assign_owner o' m p"
  by (simp add: assign_owner_def)

lemma transfer_parts_loop_eq:
  "transfer_parts_loop rows ids o' m acc =
     (map (\<lambda>p. if np_id p \<in> set ids then assign_owner o' m p else p) rows,
      acc @ filter (\<lambda>i. i \<in> np_id ` set rows) ids)"
proof (induction ids arbitrary: rows acc)
  case Nil
  then show ?case by (simp add: map_idI)
next
  case (Cons i ids)
  show ?case
  proof (cases "session_get_numero_part rows i")
    case None
    then have absent: "i \<notin> np_id ` set rows"
      by (auto simp: session_get_numero_part_def find_None_iff)
    then have "map (\<lambda>p. if np_id p \<in> set (i # ids) then assign_owner o' m p else p) rows =
               map (\<lambda>p. if np_id p \<in> set ids then assign_owner o' m p else p) rows"
      by (intro map_cong) auto
    with None absent Cons.IH show ?thesis by simp
  next
    case (Some part)
    then have present: "i \<in> np_id ` set rows"
      by (auto simp: session_get_numero_part_def find_Some_iff)
    let ?rows' = "map (\<lambda>p. if np_id p = i then assign_owner o' m p else p) rows"
    have "map np_id ?rows' = map np_id rows"
      by (induction rows) auto
    then have ids: "np_id ` set ?rows' = np_id ` set rows"
      by (metis set_map)
    have "map (\<lambda>p. if np_id p \<in> set ids then assign_owner o' m p else p) ?rows' =
          map (\<lambda>p. if np_id p \<in> set (i # ids) then assign_owner o' m p else p) rows"
      by simp
    with Some present ids Cons.IH [of ?rows' "acc @ [i]"] show ?thesis by simp
  qed
qed

lemma find_map_same_key:
  assumes "\<And>p. key (f p) = key p"
  shows "find (\<lambda>p. key p = i) (map f rows) = map_option f (find (\<lambda>p. key p = i) rows)"
  using assms by (induction rows) auto

lemma no_fk_violation_assign:
  assumes "o' \<in> pe_id ` set (personnes session)" "m \<in> mv_id ` set (mouvements session)"
  shows "\<not> fk_violation session p (if c then assign_owner o' m p else p)"
  using assms by (auto simp: fk_violation_def assign_owner_def)

lemma commit_assign:
  assumes "o' \<in> pe_id ` set (personnes session)" "m \<in> mv_id ` set (mouvements session)"
  shows "commit_numeros_parts session
           (map (\<lambda>p. if np_id p \<in> ids then assign_owner o' m p else p) (numeros_parts session)) =
         Inr (session\<lparr>numeros_parts :=
                map (\<lambda>p. if np_id p \<in> ids then assign_owner o' m p else p)
                  (numeros_parts session)\<rparr>)"
proof -
  have "\<not> list_ex (\<lambda>(old, new). fk_violation session old new)
            (zip rows (map (\<lambda>p. if np_id p \<in> ids then assign_owner o' m p else p) rows))" for rows
    using no_fk_violation_assign [OF assms]
    by (auto simp: list_ex_iff zip_map2 zip_same_conv_map)
  then show ?thesis by (simp add: commit_numeros_parts_def)
qed

lemma session_get_None_iff:
  "session_get_numero_part rows i = None \<longleftrightarrow> i \<notin> np_id ` set rows"
  by (auto simp: session_get_numero_part_def find_None_iff)

lemma session_get_SomeD:
  "session_get_numero_part rows i = Some p \<Longrightarrow> np_id p = i \<and> p \<in> set rows"
  by (auto simp: session_get_numero_part_def find_Some_iff)

lemma session_get_map:
  "session_get_numero_part
     (map (\<lambda>p. if np_id p \<in> ids then assign_owner o' m p else p) rows) i =
   map_option (\<lambda>p. if np_id p \<in> ids then assign_owner o' m p else p)
     (session_get_numero_part rows i)"
  unfolding session_get_numero_part_def by (rule find_map_same_key) simp

lemma map_filter_present:
  "List.map_filter (\<lambda>i. map_option f (session_get_numero_part rows i))
     (filter (\<lambda>i. i \<in> np_id ` set rows) js) =
   List.map_filter (\<lambda>i. map_option f (session_get_numero_part rows i)) js"
proof (induction js)
  case Nil
  show ?case by simp
next
  case (Cons j js)
  show ?case
  proof (cases "session_get_numero_part rows j")
    case None
    with Cons session_get_None_iff [of rows j] show ?thesis
      by (simp add: List.map_filter_simps)
  next
    case (Some p)
    with Cons session_get_None_iff [of rows j] show ?thesis
      by (simp add: List.map_filter_simps)
  qed
qed

lemma map_filter_assign:
  assumes "set js \<subseteq> ids"
  shows "List.map_filter
           (\<lambda>i. map_option (\<lambda>p. if np_id p \<in> ids then assign_owner o' m p else p)
                   (session_get_numero_part rows i)) js =
         List.map_filter
           (\<lambda>i. map_option (assign_owner o' m) (session_get_numero_part rows i)) js"
  using assms
proof (induction js)
  case Nil
  show ?case by simp
next
  case (Cons j js)
  show ?case
  proof (cases "session_get_numero_part rows j")
    case None
    with Cons show ?thesis by (simp add: List.map_filter_simps)
  next
    case (Some p)
    with Cons session_get_SomeD [OF Some] show ?thesis
      by (simp add: List.map_filter_simps)
  qed
qed

lemma refreshed_parts:
  "List.map_filter
     (session_get_numero_part
        (map (\<lambda>p. if np_id p \<in> set ids then assign_owner o' m p else p) rows))
     (filter (\<lambda>i. i \<in> np_id ` set rows) ids) =
   List.map_filter
     (\<lambda>i. map_option (assign_owner o' m) (session_get_numero_part rows i)) ids"
proof -
  let ?f = "\<lambda>p. if np_id p \<in> set ids then assign_owner o' m p else p"
  have "session_get_numero_part (map ?f rows) =
        (\<lambda>i. map_option ?f (session_get_numero_part rows i))"
    by (rule ext) (rule session_get_map)
  then have "List.map_filter (session_get_numero_part (map ?f rows))
               (filter (\<lambda>i. i \<in> np_id ` set rows) ids) =
             List.map_filter (\<lambda>i. map_option ?f (session_get_numero_part rows i)) ids"
    by (simp only: map_filter_present)
  also have "\<dots> = List.map_filter
                      (\<lambda>i. map_option (assign_owner o' m) (session_get_numero_part rows i)) ids"
    by (rule map_filter_assign) simp
  finally show ?thesis .
qed

lemma set_map_filter_eq:
  "set (List.map_filter f xs) = {y. \<exists>x \<in> set xs. f x = Some y}"
  by (induction xs) (auto split: option.splits)

lemma commit_InrD:
  "commit_numeros_parts session rows = Inr session' \<Longrightarrow> session' = session\<lparr>numeros_parts := rows\<rparr>"
  by (auto simp: commit_numeros_parts_def split: if_splits)

lemma transfer_parts_InrD:
  assumes "transfer_parts session part_ids o' m = Inr (transferred, session')"
  shows "session' = session\<lparr>numeros_parts :=
           map (\<lambda>p. if np_id p \<in> set part_ids then assign_owner o' m p else p)
             (numeros_parts session)\<rparr> \<and>
         transferred = List.map_filter
           (\<lambda>i. map_option (assign_owner o' m)
                   (session_get_numero_part (numeros_parts session) i)) part_ids"
proof -
  let ?rows = "map (\<lambda>p. if np_id p \<in> set part_ids then assign_owner o' m p else p)
                 (numeros_parts session)"
  let ?found = "filter (\<lambda>i. i \<in> np_id ` set (numeros_parts session)) part_ids"
  from assms have eq: "bind_res (commit_numeros_parts session ?rows)
      (\<lambda>s1. Inr (List.map_filter (session_get_numero_part (numeros_parts s1)) ?found, s1)) =
      Inr (transferred, session')"
    by (simp add: transfer_parts_def transfer_parts_loop_eq)
  show ?thesis
  proof (cases "commit_numeros_parts session ?rows")
    case (Inl e)
    with eq show ?thesis by (simp add: bind_res_def)
  next
    case (Inr s1)
    with eq have "List.map_filter (session_get_numero_part (numeros_parts s1)) ?found =
                  transferred \<and> s1 = session'"
      by (clarsimp simp: bind_res_def)
    then have r: "List.map_filter (session_get_numero_part (numeros_parts s1)) ?found =
                  transferred"
      and s: "s1 = session'"
      by blast+
    from commit_InrD [OF Inr] have s1: "s1 = session\<lparr>numeros_parts := ?rows\<rparr>" .
    from r s1 have "transferred = List.map_filter (session_get_numero_part ?rows) ?found"
      by simp
    then have "transferred = List.map_filter
           (\<lambda>i. map_option (assign_owner o' m)
                   (session_get_numero_part (numeros_parts session) i)) part_ids"
      by (simp only: refreshed_parts)
    with s s1 show ?thesis by simp
  qed
qed

text \<open>
  Claim C4. For every list of part ids, and every new owner and mouvement that exist in the
  store, \<open>transfer_parts\<close> commits and returns, in the order of the list, exactly the parts
  of the list that exist, each with \<open>id_personne\<close> and \<open>id_mouvement\<close> set to the new owner
  and the mouvement; the rows whose id is in the list are the ones rewritten, an id with no
  row is skipped and no row is created for it.
\<close>

theorem transfer_parts_result:
  assumes "new_owner_id \<in> pe_id ` set (personnes session)"
    and "mouvement_id \<in> mv_id ` set (mouvements session)"
  shows "transfer_parts session part_ids new_owner_id mouvement_id =
           Inr (List.map_filter
                  (\<lambda>i. map_option (assign_owner new_owner_id mouvement_id)
                          (session_get_numero_part (numeros_parts session) i)) part_ids,
                session\<lparr>numeros_parts :=
                  map (\<lambda>p. if np_id p \<in> set part_ids
                            then assign_owner new_owner_id mouvement_id p else p)
                    (numeros_parts session)\<rparr>)"
  by (simp add: transfer_parts_def transfer_parts_loop_eq commit_assign [OF assms]
        bind_res_def refreshed_parts)

theorem transfer_parts_result_witness:
  "42 \<in> pe_id ` set (personnes ledger_example) \<and>
   7 \<in> mv_id ` set (mouvements ledger_example) \<and>
   transfer_parts ledger_example [1, 2, 3] 42 7 =
     Inr ([NumeroPart_new 1 101 42 (Some 7) (Some 1), NumeroPart_new 3 103 42 (Some 7) (Some 2)],
          ledger_example\<lparr>numeros_parts :=
            [NumeroPart_new 1 101 42 (Some 7) (Some 1),
             NumeroPart_new 3 103 42 (Some 7) (Some 2)]\<rparr>)"
proof -
  have h1: "42 \<in> pe_id ` set (personnes ledger_example)"
    and h2: "7 \<in> mv_id ` set (mouvements ledger_example)"
    by (simp_all add: ledger_example_def empty_session_def Personne_new_def)
  show ?thesis
    using h1 h2 transfer_parts_result [OF h1 h2, of "[1, 2, 3]"]
    by (simp add: ledger_example_def empty_session_def NumeroPart_new_def
          session_get_numero_part_def assign_owner_def)
qed

text \<open>
  Claim C10. When \<open>transfer_parts\<close> returns, every row of \<open>numeros_parts\<close> keeps its id,
  \<open>num_part\<close>, \<open>termine\<close>, \<open>distribue\<close>, \<open>etat\<close> and \<open>id_structure\<close>; a row whose id is not in
  the input list is unchanged; every other table is unchanged; and every returned part is
  a row of the list with only \<open>id_personne\<close> and \<open>id_mouvement\<close> rewritten.
\<close>

theorem transfer_parts_frame:
  assumes "transfer_parts session part_ids new_owner_id mouvement_id = Inr (transferred, session')"
  shows "list_all2
           (\<lambda>p p'. np_id p' = np_id p \<and> num_part p' = num_part p \<and>
                    np_termine p' = np_termine p \<and> distribue p' = distribue p \<and>
                    etat p' = etat p \<and> np_id_structure p' = np_id_structure p \<and>
                    (np_id p \<notin> set part_ids \<longrightarrow> p' = p))
           (numeros_parts session) (numeros_parts session') \<and>
         session'\<lparr>numeros_parts := numeros_parts session\<rparr> = session \<and>
         (\<forall>p' \<in> set transferred. \<exists>p \<in> set (numeros_parts session).
            np_id p \<in> set part_ids \<and>
            p' = p\<lparr>np_id_personne := new_owner_id, np_id_mouvement := Some mouvement_id\<rparr>)"
proof (intro conjI)
  note d0 = transfer_parts_InrD [OF assms]
  note d = conjunct1 [OF d0] conjunct2 [OF d0]
  show "list_all2
           (\<lambda>p p'. np_id p' = np_id p \<and> num_part p' = num_part p \<and>
                    np_termine p' = np_termine p \<and> distribue p' = distribue p \<and>
                    etat p' = etat p \<and> np_id_structure p' = np_id_structure p \<and>
                    (np_id p \<notin> set part_ids \<longrightarrow> p' = p))
           (numeros_parts session) (numeros_parts session')"
    by (simp add: d(1) list_all2_map2 list_all2_same assign_owner_def)
  show "session'\<lparr>numeros_parts := numeros_parts session\<rparr> = session"
    by (simp add: d(1))
  show "\<forall>p' \<in> set transferred. \<exists>p \<in> set (numeros_parts session).
            np_id p \<in> set part_ids \<and>
            p' = p\<lparr>np_id_personne := new_owner_id, np_id_mouvement := Some mouvement_id\<rparr>"
  proof
    fix p' assume "p' \<in> set transferred"
    then obtain i p where "i \<in> set part_ids"
      and "session_get_numero_part (numeros_parts session) i = Some p"
      and "p' = assign_owner new_owner_id mouvement_id p"
      by (auto simp: d(2) set_map_filter_eq)
    with session_get_SomeD [of "numeros_parts session" i p]
    show "\<exists>p \<in> set (numeros_parts session).
            np_id p \<in> set part_ids \<and>
            p' = p\<lparr>np_id_personne := new_owner_id, np_id_mouvement := Some mouvement_id\<rparr>"
      by (auto simp: assign_owner_def)
  qed
qed

theorem transfer_parts_frame_witness:
  "transfer_parts ledger_example [1, 2] 42 7 =
     Inr ([NumeroPart_new 1 101 42 (Some 7) (Some 1)],
          ledger_example\<lparr>numeros_parts :=
            [NumeroPart_new 1 101 42 (Some 7) (Some 1), NumeroPart_new 3 103 42 None (Some 2)]\<rparr>) \<and>
   list_all2
     (\<lambda>p p'. np_id p' = np_id p \<and> num_part p' = num_part p \<and>
              np_termine p' = np_termine p \<and> distribue p' = distribue p \<and>
              etat p' = etat p \<and> np_id_structure p' = np_id_structure p \<and>
              (np_id p \<notin> set [1, 2] \<longrightarrow> p' = p))
     (numeros_parts ledger_example)
     [NumeroPart_new 1 101 42 (Some 7) (Some 1), NumeroPart_new 3 103 42 None (Some 2)]"
proof -
  have run: "transfer_parts ledger_example [1, 2] 42 7 =
     Inr ([NumeroPart_new 1 101 42 (Some 7) (Some 1)],
          ledger_example\<lparr>numeros_parts :=
            [NumeroPart_new 1 101 42 (Some 7) (Some 1), NumeroPart_new 3 103 42 None (Some 2)]\<rparr>)"
    by (simp add: transfer_parts_def ledger_example_def empty_session_def NumeroPart_new_def
          Personne_new_def session_get_numero_part_def assign_owner_def
          commit_numeros_parts_def fk_violation_def bind_res_def)
  from transfer_parts_frame [OF run] run show ?thesis by simp
qed

text \<open>
  The hypothesis on the mouvement is needed: a transfer that names a mouvement with no row
  violates the foreign key of \<open>id_mouvement\<close>, the commit raises and nothing is written.
\<close>

lemma transfer_parts_unknown_mouvement:
  "transfer_parts ledger_example [1, 2, 3] 42 99 = Inl IntegrityError"
  by (simp add: transfer_parts_def ledger_example_def empty_session_def NumeroPart_new_def
        Personne_new_def session_get_numero_part_def assign_owner_def
        commit_numeros_parts_def fk_violation_def bind_res_def)

section \<open>Parts without mouvement\<close>

lemma sqlmodel_update_id_mouvement:
  "sqlmodel_update p (NumeroPartUpdate_id_mouvement m) = p\<lparr>np_id_mouvement := Some m\<rparr>"
  by (simp add: sqlmodel_update_def NumeroPartUpdate_id_mouvement_def upd_or_def)

lemma commit_set_mouvement:
  assumes "m \<in> mv_id ` set (mouvements session)"
  shows "commit_numeros_parts session
           (map (\<lambda>p. if c p then p\<lparr>np_id_mouvement := Some m\<rparr> else p) (numeros_parts session)) =
         Inr (session\<lparr>numeros_parts :=
                map (\<lambda>p. if c p then p\<lparr>np_id_mouvement := Some m\<rparr> else p)
                  (numeros_parts session)\<rparr>)"
proof -
  have "\<not> fk_violation session p (if c p then p\<lparr>np_id_mouvement := Some m\<rparr> else p)" for p
    using assms by (auto simp: fk_violation_def)
  then have "\<not> list_ex (\<lambda>(old, new). fk_violation session old new)
            (zip rows (map (\<lambda>p. if c p then p\<lparr>np_id_mouvement := Some m\<rparr> else p) rows))" for rows
    by (auto simp: list_ex_iff zip_map2 zip_same_conv_map)
  then show ?thesis by (simp add: commit_numeros_parts_def)
qed

text \<open>
  Claim C9. For every store and optional structure scope, \<open>find_parts_sans_mouvements\<close>
  returns exactly the parts whose \<open>id_mouvement\<close> is null (within the scope, when one is
  given); and once \<open>update_numero_part\<close> has set the \<open>id_mouvement\<close> of a part to an existing
  mouvement, the same query returns what it returned before without that part.
\<close>

theorem find_parts_sans_mouvements_exact:
  assumes "m \<in> mv_id ` set (mouvements session)"
  shows "set (find_parts_sans_mouvements session id_structure) =
           {p \<in> set (numeros_parts session). np_id_mouvement p = None \<and> in_scope id_structure p} \<and>
         (\<exists>part' session'.
            update_numero_part session part (NumeroPartUpdate_id_mouvement m) =
              Inr (part', session') \<and>
            np_id_mouvement part' = Some m \<and>
            set (find_parts_sans_mouvements session' id_structure) =
              {p \<in> set (find_parts_sans_mouvements session id_structure). np_id p \<noteq> np_id part})"
proof (intro conjI exI)
  let ?rows = "map (\<lambda>p. if np_id p = np_id part then p\<lparr>np_id_mouvement := Some m\<rparr> else p)
                 (numeros_parts session)"
  show "set (find_parts_sans_mouvements session id_structure) =
           {p \<in> set (numeros_parts session). np_id_mouvement p = None \<and> in_scope id_structure p}"
    by (auto simp: find_parts_sans_mouvements_def in_scope_def)
  show "update_numero_part session part (NumeroPartUpdate_id_mouvement m) =
          Inr (part\<lparr>np_id_mouvement := Some m\<rparr>, session\<lparr>numeros_parts := ?rows\<rparr>)"
    by (simp add: update_numero_part_def sqlmodel_update_id_mouvement
          commit_set_mouvement [OF assms] bind_res_def cong: if_cong)
  show "np_id_mouvement (part\<lparr>np_id_mouvement := Some m\<rparr>) = Some m" by simp
  show "set (find_parts_sans_mouvements (session\<lparr>numeros_parts := ?rows\<rparr>) id_structure) =
          {p \<in> set (find_parts_sans_mouvements session id_structure). np_id p \<noteq> np_id part}"
    by (auto simp: find_parts_sans_mouvements_def)
qed

theorem find_parts_sans_mouvements_exact_witness:
  "7 \<in> mv_id ` set (mouvements ledger_example) \<and>
   set (find_parts_sans_mouvements ledger_example (Some 1)) =
     {NumeroPart_new 1 101 5 None (Some 1)} \<and>
   (\<exists>part' session'.
      update_numero_part ledger_example (NumeroPart_new 1 101 5 None (Some 1))
        (NumeroPartUpdate_id_mouvement 7) = Inr (part', session') \<and>
      np_id_mouvement part' = Some 7 \<and>
      set (find_parts_sans_mouvements session' (Some 1)) = {})"
proof -
  have h: "7 \<in> mv_id ` set (mouvements ledger_example)"
    by (simp add: ledger_example_def empty_session_def)
  have before: "set (find_parts_sans_mouvements ledger_example (Some 1)) =
                  {NumeroPart_new 1 101 5 None (Some 1)}"
    by (simp add: find_parts_sans_mouvements_def ledger_example_def empty_session_def
          NumeroPart_new_def)
  from find_parts_sans_mouvements_exact
         [OF h, of "Some 1" "NumeroPart_new 1 101 5 None (Some 1)"]
  obtain part' session' where
    "update_numero_part ledger_example (NumeroPart_new 1 101 5 None (Some 1))
       (NumeroPartUpdate_id_mouvement 7) = Inr (part', session')"
    and "np_id_mouvement part' = Some 7"
    and "set (find_parts_sans_mouvements session' (Some 1)) =
           {p \<in> set (find_parts_sans_mouvements ledger_example (Some 1)).
              np_id p \<noteq> np_id (NumeroPart_new 1 101 5 None (Some 1))}"
    by blast
  moreover from this(3) have "set (find_parts_sans_mouvements session' (Some 1)) = {}"
    unfolding before by auto
  ultimately show ?thesis using h before by blast
qed

section \<open>Global share totals\<close>

lemma join_rows_of_part:
  assumes "distinct (map st_id (structures session))"
  shows "concat (map (\<lambda>st. if np_id_structure p = Some (st_id st) then [(p, st)] else [])
           (structures session)) =
         (case structure_of session p of None \<Rightarrow> [] | Some st \<Rightarrow> [(p, st)])"
proof (cases "np_id_structure p")
  case None
  then show ?thesis by (simp add: structure_of_def)
next
  case (Some i)
  have "concat (map (\<lambda>st. if np_id_structure p = Some (st_id st) then [(p, st)] else [])
           (structures session)) =
        map (Pair p) (filter (\<lambda>st. st_id st = i) (structures session))"
    unfolding Some by (simp add: concat_map_if eq_commute [of i])
  also have "\<dots> = (case structure_of session p of None \<Rightarrow> [] | Some st \<Rightarrow> [(p, st)])"
    by (simp add: filter_key_distinct [OF assms] structure_of_def Some split: option.split)
  finally show ?thesis .
qed

lemma select_from_join:
  assumes "distinct (map st_id (structures session))"
  shows "concat (map (\<lambda>(p, st). if Q p st then [f p] else []) (parts_join_structure session)) =
         map f (filter (\<lambda>p. case structure_of session p of None \<Rightarrow> False | Some st \<Rightarrow> Q p st)
                  (numeros_parts session))"
proof -
  have "concat (map (\<lambda>(p, st). if Q p st then [f p] else [])
          (concat (map (\<lambda>p. case structure_of session p of None \<Rightarrow> [] | Some st \<Rightarrow> [(p, st)]) ps))) =
        map f (filter (\<lambda>p. case structure_of session p of None \<Rightarrow> False | Some st \<Rightarrow> Q p st) ps)"
    for ps
    by (induction ps) (auto split: option.splits)
  then show ?thesis
    by (simp add: parts_join_structure_def join_rows_of_part [OF assms])
qed

lemma count_join_kind:
  assumes "distinct (map st_id (structures session))"
  shows "[p. (p, st) \<leftarrow> parts_join_structure session, Q p,
                    type_structure st = TypeStructure_value t] =
         filter (\<lambda>p. Q p \<and> owned_by_kind session t p) (numeros_parts session)"
proof -
  have "(\<lambda>p. case structure_of session p of None \<Rightarrow> False
              | Some st \<Rightarrow> Q p \<and> type_structure st = TypeStructure_value t) =
        (\<lambda>p. Q p \<and> owned_by_kind session t p)"
    by (auto simp: owned_by_kind_def fun_eq_iff split: option.splits)
  with select_from_join [OF assms, of "\<lambda>p st. Q p \<and> type_structure st = TypeStructure_value t" "\<lambda>p. p"]
  show ?thesis by (simp add: if_if_Nil)
qed

text \<open>
  Claim C6. In a store whose Structure ids are unique (the primary key), \<open>get_parts_totals\<close>
  returns as \<open>gfa\<close> the number of non-terminated parts that belong to a Structure of type
  GFA, as \<open>sctl\<close> the number that belong to one of type TSL, as \<open>total\<close> their sum, and as
  \<open>actionnaires\<close> the number of distinct owners of non-terminated parts.
\<close>

theorem get_parts_totals_counts:
  assumes "distinct (map st_id (structures session))"
  shows "t_gfa (get_parts_totals session) =
           length (filter (\<lambda>p. \<not> np_termine p \<and> owned_by_kind session GFA p)
                     (numeros_parts session)) \<and>
         t_sctl (get_parts_totals session) =
           length (filter (\<lambda>p. \<not> np_termine p \<and> owned_by_kind session TSL p)
                     (numeros_parts session)) \<and>
         t_total (get_parts_totals session) =
           t_gfa (get_parts_totals session) + t_sctl (get_parts_totals session) \<and>
         t_actionnaires (get_parts_totals session) =
           card (np_id_personne ` {p \<in> set (numeros_parts session). \<not> np_termine p})"
proof -
  have "set [np_id_personne p. p \<leftarrow> numeros_parts session, \<not> np_termine p] =
        np_id_personne ` {p \<in> set (numeros_parts session). \<not> np_termine p}"
    by auto
  then have "length (remdups [np_id_personne p. p \<leftarrow> numeros_parts session, \<not> np_termine p]) =
        card (np_id_personne ` {p \<in> set (numeros_parts session). \<not> np_termine p})"
    by (simp only: length_remdups_card_conv)
  then show ?thesis
    by (simp add: get_parts_totals_def Let_def
          count_join_kind [OF assms, of "\<lambda>p. \<not> np_termine p"])
qed

theorem get_parts_totals_counts_witness:
  "distinct (map st_id (structures ledger_example)) \<and>
   get_parts_totals ledger_example =
     \<lparr>t_gfa = 1, t_sctl = 1, t_total = 2, t_actionnaires = 2\<rparr> \<and>
   length (filter (\<lambda>p. \<not> np_termine p \<and> owned_by_kind ledger_example GFA p)
             (numeros_parts ledger_example)) = 1 \<and>
   card (np_id_personne ` {p \<in> set (numeros_parts ledger_example). \<not> np_termine p}) = 2"
proof -
  have h: "distinct (map st_id (structures ledger_example))"
    by (simp add: ledger_example_def empty_session_def)
  have e: "get_parts_totals ledger_example =
             \<lparr>t_gfa = 1, t_sctl = 1, t_total = 2, t_actionnaires = 2\<rparr>"
    by (simp add: get_parts_totals_def parts_join_structure_def ledger_example_def
          empty_session_def NumeroPart_new_def)
  from get_parts_totals_counts [OF h] h e show ?thesis by simp
qed

section \<open>Share counts of a personne: single row and batch\<close>

lemma count_single_eq_count_list:
  "length (concat (map (\<lambda>(p, st). if np_id_personne p = k
                          then if A p then if B st then [p] else [] else [] else []) rows)) =
   count_list (concat (map (\<lambda>(p, st). if A p then if B st then [np_id_personne p] else []
                                       else []) rows)) k"
  by (induction rows) auto

lemma filter_key_remdups:
  "filter (\<lambda>(k, c). k = i) (map (\<lambda>k. (k, h k)) (remdups ks)) =
     (if i \<in> set ks then [(i, h i)] else [])"
proof -
  have "filter (\<lambda>(k, c). k = i) (map (\<lambda>k. (k, h k)) js) = map (\<lambda>k. (k, h k)) (filter (\<lambda>k. k = i) js)"
    for js by (induction js) auto
  moreover have "filter (\<lambda>k. k = i) js = (if i \<in> set js then [i] else [])" if "distinct js" for js
    using that by (induction js) auto
  ultimately show ?thesis by simp
qed

lemma outerjoin_count_subquery:
  "outerjoin_count (parts_count_subquery session t) k =
     (if count_parts_personne session k t = 0 then [None]
      else [Some (count_parts_personne session k t)])"
proof -
  define owners where "owners = [np_id_personne p. (p, st) \<leftarrow> parts_join_structure session,
                    \<not> np_termine p, type_structure st = TypeStructure_value t]"
  have c: "count_parts_personne session k t = count_list owners k"
    unfolding count_parts_personne_def owners_def by (rule count_single_eq_count_list)
  have sub: "parts_count_subquery session t = map (\<lambda>k. (k, count_list owners k)) (remdups owners)"
    by (simp add: parts_count_subquery_def owners_def Let_def)
  have "k \<in> set owners \<longleftrightarrow> count_list owners k \<noteq> 0"
    by (simp add: count_list_0_iff)
  then show ?thesis
    unfolding c sub by (simp add: outerjoin_count_def filter_key_remdups)
qed

lemma coalesce_outerjoin:
  "map coalesce0 (outerjoin_count (parts_count_subquery session t) k) =
     [count_parts_personne session k t]"
  by (simp add: outerjoin_count_subquery coalesce0_def)

lemma statement_rows:
  "[(personne, coalesce0 g, coalesce0 s).
       personne \<leftarrow> ps,
       g \<leftarrow> outerjoin_count (parts_count_subquery session GFA) (pe_id personne),
       s \<leftarrow> outerjoin_count (parts_count_subquery session TSL) (pe_id personne),
       W personne] =
   map (\<lambda>p. (p, count_parts_personne session (pe_id p) GFA,
              count_parts_personne session (pe_id p) TSL)) (filter W ps)"
  by (induction ps) (auto simp: outerjoin_count_subquery coalesce0_def)

lemma get_personnes_with_parts_eq:
  "get_personnes_with_parts ilike name_le session skip limit f =
     (map (\<lambda>(p, g, s). PersonneWithParts_of p g s)
        (take limit (drop skip
           (order_by (\<lambda>r r'. name_le (fst r) (fst r'))
              (map (\<lambda>p. (p, count_parts_personne session (pe_id p) GFA,
                         count_parts_personne session (pe_id p) TSL))
                 (filter (personne_where ilike f) (personnes session)))))),
      length (filter (personne_where ilike f) (personnes session)))"
  by (simp add: get_personnes_with_parts_def Let_def statement_rows)

lemma session_get_personne_distinct:
  assumes "distinct (map pe_id (personnes session))" "p \<in> set (personnes session)"
  shows "session_get_personne session (pe_id p) = Some p"
proof -
  have "find (\<lambda>q. pe_id q = pe_id p) ps = Some p" if "distinct (map pe_id ps)" "p \<in> set ps" for ps
    using that by (induction ps) (auto simp: image_iff)
  with assms show ?thesis by (simp add: session_get_personne_def)
qed

lemma get_personne_with_parts_row:
  assumes "distinct (map pe_id (personnes session))" "p \<in> set (personnes session)"
  shows "get_personne_with_parts session (pe_id p) =
           Some (PersonneWithParts_of p (count_parts_personne session (pe_id p) GFA)
                   (count_parts_personne session (pe_id p) TSL))"
  by (simp add: get_personne_with_parts_def session_get_personne_distinct [OF assms])

lemma pe_id_PersonneWithParts_of [simp]: "pe_id (PersonneWithParts_of p g s) = pe_id p"
  by (simp add: PersonneWithParts_of_def Personne.defs)

lemma nb_parts_PersonneWithParts_of [simp]:
  "nb_parts_gfa (PersonneWithParts_of p g s) = g"
  "nb_parts_sctl (PersonneWithParts_of p g s) = s"
  "nb_parts_total (PersonneWithParts_of p g s) = g + s"
  by (simp_all add: PersonneWithParts_of_def Personne.defs PersonneWithParts.defs)

lemma count_parts_personne_kind:
  assumes "distinct (map st_id (structures session))"
  shows "count_parts_personne session k t =
           length (filter (\<lambda>p. np_id_personne p = k \<and> \<not> np_termine p \<and>
                               owned_by_kind session t p) (numeros_parts session))"
proof -
  have "[p. (p, st) \<leftarrow> parts_join_structure session, np_id_personne p = k, \<not> np_termine p,
            type_structure st = TypeStructure_value t] =
        [p. (p, st) \<leftarrow> parts_join_structure session, np_id_personne p = k \<and> \<not> np_termine p,
            type_structure st = TypeStructure_value t]"
    by (simp add: if_if_Nil)
  also have "\<dots> = filter (\<lambda>p. (np_id_personne p = k \<and> \<not> np_termine p) \<and>
                              owned_by_kind session t p) (numeros_parts session)"
    by (rule count_join_kind [OF assms])
  finally show ?thesis by (simp add: count_parts_personne_def conj_assoc)
qed

text \<open>
  Claim C3. In a store whose Personne ids and Structure ids are unique (the primary keys),
  every row that the batch computation \<open>get_personnes_with_parts\<close> returns, for any filters
  and any page, is exactly what the single-row computation \<open>get_personne_with_parts\<close>
  returns for that personne: the same \<open>nb_parts_gfa\<close>, \<open>nb_parts_sctl\<close> and
  \<open>nb_parts_total\<close>, the total being the sum of the two, and each count being the number of
  non-terminated parts of the personne that belong to a Structure of type GFA, respectively
  TSL. Every personne that passes the filters is in the full listing with the row of the
  single-row computation.
\<close>

theorem get_personnes_with_parts_agrees:
  assumes "distinct (map pe_id (personnes session))"
    and "distinct (map st_id (structures session))"
  shows "(\<forall>r \<in> set (fst (get_personnes_with_parts ilike name_le session skip limit f)).
            get_personne_with_parts session (pe_id r) = Some r \<and>
            nb_parts_total r = nb_parts_gfa r + nb_parts_sctl r \<and>
            nb_parts_gfa r =
              length (filter (\<lambda>p. np_id_personne p = pe_id r \<and> \<not> np_termine p \<and>
                                  owned_by_kind session GFA p) (numeros_parts session)) \<and>
            nb_parts_sctl r =
              length (filter (\<lambda>p. np_id_personne p = pe_id r \<and> \<not> np_termine p \<and>
                                  owned_by_kind session TSL p) (numeros_parts session))) \<and>
         (\<forall>p \<in> set (personnes session). personne_where ilike f p \<longrightarrow>
            (\<exists>r \<in> set (fst (get_personnes_with_parts ilike name_le session 0
                               (length (personnes session)) f)).
               get_personne_with_parts session (pe_id p) = Some r))"
proof (intro conjI ballI impI)
  fix r
  assume "r \<in> set (fst (get_personnes_with_parts ilike name_le session skip limit f))"
  then obtain p where p: "p \<in> set (personnes session)"
    and r: "r = PersonneWithParts_of p (count_parts_personne session (pe_id p) GFA)
                  (count_parts_personne session (pe_id p) TSL)"
    by (auto simp: get_personnes_with_parts_eq set_order_by
             dest!: in_set_takeD in_set_dropD)
  from get_personne_with_parts_row [OF assms(1) p] r
  show "get_personne_with_parts session (pe_id r) = Some r" by simp
  from r show "nb_parts_total r = nb_parts_gfa r + nb_parts_sctl r" by simp
  from r show "nb_parts_gfa r =
              length (filter (\<lambda>p. np_id_personne p = pe_id r \<and> \<not> np_termine p \<and>
                                  owned_by_kind session GFA p) (numeros_parts session))"
    by (simp add: count_parts_personne_kind [OF assms(2)])
  from r show "nb_parts_sctl r =
              length (filter (\<lambda>p. np_id_personne p = pe_id r \<and> \<not> np_termine p \<and>
                                  owned_by_kind session TSL p) (numeros_parts session))"
    by (simp add: count_parts_personne_kind [OF assms(2)])
next
  fix p
  assume p: "p \<in> set (personnes session)" and w: "personne_where ilike f p"
  let ?rows = "map (\<lambda>p. (p, count_parts_personne session (pe_id p) GFA,
                         count_parts_personne session (pe_id p) TSL))
                 (filter (personne_where ilike f) (personnes session))"
  let ?r = "PersonneWithParts_of p (count_parts_personne session (pe_id p) GFA)
              (count_parts_personne session (pe_id p) TSL)"
  have "length (order_by (\<lambda>r r'. name_le (fst r) (fst r')) ?rows) \<le> length (personnes session)"
    by (simp add: length_order_by)
  then have "take (length (personnes session)) (order_by (\<lambda>r r'. name_le (fst r) (fst r')) ?rows) =
             order_by (\<lambda>r r'. name_le (fst r) (fst r')) ?rows"
    by simp
  with p w have "?r \<in> set (fst (get_personnes_with_parts ilike name_le session 0
                               (length (personnes session)) f))"
    by (force simp: get_personnes_with_parts_eq set_order_by)
  with get_personne_with_parts_row [OF assms(1) p]
  show "\<exists>r \<in> set (fst (get_personnes_with_parts ilike name_le session 0
                               (length (personnes session)) f)).
               get_personne_with_parts session (pe_id p) = Some r"
    by blast
qed

theorem get_personnes_with_parts_agrees_witness:
  "distinct (map pe_id (personnes ledger_example)) \<and>
   distinct (map st_id (structures ledger_example)) \<and>
   fst (get_personnes_with_parts (\<lambda>v p. True) (\<lambda>p q. pe_id p \<le> pe_id q) ledger_example 0 10
          PersonneFilters_none) =
     [PersonneWithParts_of (Personne_new 5 ''Martin'') 1 0,
      PersonneWithParts_of (Personne_new 42 ''Durand'') 0 1] \<and>
   get_personne_with_parts ledger_example 5 =
     Some (PersonneWithParts_of (Personne_new 5 ''Martin'') 1 0) \<and>
   get_personne_with_parts ledger_example 42 =
     Some (PersonneWithParts_of (Personne_new 42 ''Durand'') 0 1)"
proof -
  have h: "distinct (map pe_id (personnes ledger_example))"
    by (simp add: ledger_example_def empty_session_def Personne_new_def)
  have c: "count_parts_personne ledger_example 5 GFA = 1"
    "count_parts_personne ledger_example 5 TSL = 0"
    "count_parts_personne ledger_example 42 GFA = 0"
    "count_parts_personne ledger_example 42 TSL = 1"
    by (simp_all add: count_parts_personne_def parts_join_structure_def ledger_example_def
          empty_session_def NumeroPart_new_def)
  have h2: "distinct (map st_id (structures ledger_example))"
    by (simp add: ledger_example_def empty_session_def)
  have ps: "personnes ledger_example = [Personne_new 5 ''Martin'', Personne_new 42 ''Durand'']"
    by (simp add: ledger_example_def empty_session_def)
  have w: "personne_where (\<lambda>v p. True) PersonneFilters_none p" for p
    by (simp add: personne_where_def PersonneFilters_none_def str_filter_def flag_matches_def)
  have e: "fst (get_personnes_with_parts (\<lambda>v p. True) (\<lambda>p q. pe_id p \<le> pe_id q)
                 ledger_example 0 10 PersonneFilters_none) =
     [PersonneWithParts_of (Personne_new 5 ''Martin'') 1 0,
      PersonneWithParts_of (Personne_new 42 ''Durand'') 0 1]"
    unfolding get_personnes_with_parts_eq
    by (simp add: w ps order_by_def c Personne_new_def)
  from get_personnes_with_parts_agrees
         [OF h h2, of "\<lambda>v p. True" "\<lambda>p q. pe_id p \<le> pe_id q" 0 10 PersonneFilters_none]
  have "\<forall>r \<in> set [PersonneWithParts_of (Personne_new 5 ''Martin'') 1 0,
                   PersonneWithParts_of (Personne_new 42 ''Durand'') 0 1].
          get_personne_with_parts ledger_example (pe_id r) = Some r"
    unfolding e by blast
  then have "get_personne_with_parts ledger_example 5 =
               Some (PersonneWithParts_of (Personne_new 5 ''Martin'') 1 0)"
    and "get_personne_with_parts ledger_example 42 =
               Some (PersonneWithParts_of (Personne_new 42 ''Durand'') 0 1)"
    by (simp_all add: Personne_new_def)
  with h h2 e show ?thesis by simp
qed

section \<open>Listing of mouvements by effective date\<close>

lemma desc_le_total: "desc_le nf a b \<or> desc_le nf b a"
  by (cases a; cases b) auto

lemma desc_le_trans: "desc_le nf a b \<Longrightarrow> desc_le nf b c \<Longrightarrow> desc_le nf a c"
  by (cases a; cases b; cases c) auto

lemma sorted_by_effective_date:
  "sorted_wrt (\<lambda>r r'. desc_le nf (key r) (key r'))
     (order_by (\<lambda>r r'. desc_le nf (key r) (key r')) rows)"
  by (rule sorted_wrt_order_by) (use desc_le_total desc_le_trans in blast)+

lemma outerjoin_acte_distinct:
  assumes "distinct (map ac_id (actes session))"
  shows "mouvements_outerjoin_acte session = map (\<lambda>m. (m, acte_of session m)) (mouvements session)"
proof -
  have "(case filter (\<lambda>a. mv_id_acte m = Some (ac_id a)) (actes session) of
           [] \<Rightarrow> [(m, None)] | as \<Rightarrow> map (\<lambda>a. (m, Some a)) as) = [(m, acte_of session m)]" for m
  proof (cases "mv_id_acte m")
    case None
    then show ?thesis by (simp add: acte_of_def)
  next
    case (Some i)
    then have "filter (\<lambda>a. mv_id_acte m = Some (ac_id a)) (actes session) =
               filter (\<lambda>a. ac_id a = i) (actes session)"
      by (auto intro: filter_cong)
    with Some show ?thesis
      by (simp add: acte_of_def filter_key_distinct [OF assms] split: option.split)
  qed
  then show ?thesis
    by (simp add: mouvements_outerjoin_acte_def concat_map_singleton)
qed

lemma effective_date_row: "effective_date (m, acte_of session m) = date_effective session m"
  by (simp add: effective_date_def date_effective_def split: option.split)

lemma statement_mouvements:
  assumes "distinct (map ac_id (actes session))"
  shows "filter (\<lambda>(m, a). opt_matches id_personne (mv_id_personne m) \<and>
                   (case id_acte of None \<Rightarrow> True | Some i \<Rightarrow> mv_id_acte m = Some i) \<and>
                   opt_matches sens' (sens m))
           (mouvements_outerjoin_acte session) =
         map (\<lambda>m. (m, acte_of session m))
           (filter (mouvement_matches id_personne id_acte sens') (mouvements session))"
proof -
  have "(\<lambda>m. opt_matches id_personne (mv_id_personne m) \<and>
             (case id_acte of None \<Rightarrow> True | Some i \<Rightarrow> mv_id_acte m = Some i) \<and>
             opt_matches sens' (sens m)) = mouvement_matches id_personne id_acte sens'"
    by (auto simp: fun_eq_iff mouvement_matches_def opt_matches_def split: option.splits)
  then show ?thesis
    by (simp add: outerjoin_acte_distinct [OF assms] filter_map comp_def)
qed

lemma get_mouvements_eq:
  assumes "distinct (map ac_id (actes session))"
  shows "get_mouvements nf session skip limit id_personne id_acte sens' =
     (map fst (take limit (drop skip
        (order_by (\<lambda>r r'. desc_le nf (effective_date r) (effective_date r'))
           (map (\<lambda>m. (m, acte_of session m))
              (filter (mouvement_matches id_personne id_acte sens') (mouvements session)))))),
      length (filter (mouvement_matches id_personne id_acte sens') (mouvements session)))"
  by (simp add: get_mouvements_def Let_def statement_mouvements [OF assms])

text \<open>
  Claim C5, as amended. In a store whose Acte ids are unique (the primary key), for every
  filter combination \<open>get_mouvements\<close> returns the requested page of a listing that holds
  exactly the matching mouvements, ordered by effective date (\<open>date_operation\<close> when
  present, otherwise the linked acte's \<open>date_acte\<close>) descending, and the count of the
  matching mouvements. The query asks for no NULL placement: mouvements with neither date
  come where the database puts NULL in a descending order, first on PostgreSQL
  (\<open>nulls_first = True\<close>) and last on a database that sorts NULL low.
\<close>

theorem get_mouvements_ordered:
  assumes "distinct (map ac_id (actes session))"
  shows "fst (get_mouvements nulls_first session skip limit id_personne id_acte sens') =
           take limit (drop skip
             (fst (get_mouvements nulls_first session 0 (length (mouvements session))
                     id_personne id_acte sens'))) \<and>
         mset (fst (get_mouvements nulls_first session 0 (length (mouvements session))
                     id_personne id_acte sens')) =
           mset (filter (mouvement_matches id_personne id_acte sens') (mouvements session)) \<and>
         sorted_wrt (\<lambda>m m'. desc_le nulls_first (date_effective session m)
                                (date_effective session m'))
           (fst (get_mouvements nulls_first session skip limit id_personne id_acte sens')) \<and>
         snd (get_mouvements nulls_first session skip limit id_personne id_acte sens') =
           length (filter (mouvement_matches id_personne id_acte sens') (mouvements session))"
proof -
  let ?le = "\<lambda>r r'. desc_le nulls_first (effective_date r) (effective_date r')"
  let ?rows = "map (\<lambda>m. (m, acte_of session m))
                 (filter (mouvement_matches id_personne id_acte sens') (mouvements session))"
  let ?R = "\<lambda>m m'. desc_le nulls_first (date_effective session m) (date_effective session m')"
  have len: "length (order_by ?le ?rows) \<le> length (mouvements session)"
    by (simp add: length_order_by)
  have full: "fst (get_mouvements nulls_first session 0 (length (mouvements session))
                     id_personne id_acte sens') = map fst (order_by ?le ?rows)"
    using len by (simp add: get_mouvements_eq [OF assms])
  have page: "fst (get_mouvements nulls_first session skip limit id_personne id_acte sens') =
              take limit (drop skip (map fst (order_by ?le ?rows)))"
    by (simp add: get_mouvements_eq [OF assms] take_map drop_map)
  have perm: "mset (map fst (order_by ?le ?rows)) =
              mset (filter (mouvement_matches id_personne id_acte sens') (mouvements session))"
  proof -
    have "mset (map fst (order_by ?le ?rows)) = mset (map fst ?rows)"
      by (simp only: mset_map mset_order_by)
    also have "map fst ?rows =
               filter (mouvement_matches id_personne id_acte sens') (mouvements session)"
      by (simp add: comp_def)
    finally show ?thesis .
  qed
  have rows: "\<forall>r \<in> set (order_by ?le ?rows). effective_date r = date_effective session (fst r)"
    by (auto simp: set_order_by effective_date_row)
  have s0: "sorted_wrt ?le (order_by ?le ?rows)"
    by (rule sorted_by_effective_date)
  have "sorted_wrt (\<lambda>r r'. ?R (fst r) (fst r')) (order_by ?le ?rows)"
  proof (rule sorted_wrt_mono_rel [OF _ s0])
    fix x y
    assume x: "x \<in> set (order_by ?le ?rows)" and y: "y \<in> set (order_by ?le ?rows)"
      and le: "?le x y"
    from rows x have ex: "effective_date x = date_effective session (fst x)" by blast
    from rows y have ey: "effective_date y = date_effective session (fst y)" by blast
    from le show "?R (fst x) (fst y)" unfolding ex ey .
  qed
  then have "sorted_wrt ?R (map fst (order_by ?le ?rows))"
    by (simp only: sorted_wrt_map)
  then have sorted: "sorted_wrt ?R (take limit (drop skip (map fst (order_by ?le ?rows))))"
    by (intro sorted_wrt_take sorted_wrt_drop)
  show ?thesis
  proof (intro conjI)
    show "fst (get_mouvements nulls_first session skip limit id_personne id_acte sens') =
           take limit (drop skip
             (fst (get_mouvements nulls_first session 0 (length (mouvements session))
                     id_personne id_acte sens')))"
      by (simp only: page full)
    show "mset (fst (get_mouvements nulls_first session 0 (length (mouvements session))
                     id_personne id_acte sens')) =
           mset (filter (mouvement_matches id_personne id_acte sens') (mouvements session))"
      by (simp only: full perm)
    show "sorted_wrt ?R
           (fst (get_mouvements nulls_first session skip limit id_personne id_acte sens'))"
      by (simp only: page sorted)
    show "snd (get_mouvements nulls_first session skip limit id_personne id_acte sens') =
           length (filter (mouvement_matches id_personne id_acte sens') (mouvements session))"
      by (simp only: get_mouvements_eq [OF assms] snd_conv)
  qed
qed

theorem get_mouvements_ordered_witness:
  "distinct (map ac_id (actes mouvements_example)) \<and>
   get_mouvements False mouvements_example 0 100 None None None =
     ([mouvement_B, mouvement_A, mouvement_C], 3) \<and>
   sorted_wrt (\<lambda>m m'. desc_le False (date_effective mouvements_example m)
                          (date_effective mouvements_example m'))
     [mouvement_B, mouvement_A, mouvement_C]"
proof -
  have h: "distinct (map ac_id (actes mouvements_example))"
    by (simp add: mouvements_example_def empty_session_def)
  have e: "get_mouvements False mouvements_example 0 100 None None None =
             ([mouvement_B, mouvement_A, mouvement_C], 3)"
    by (simp add: get_mouvements_def mouvements_outerjoin_acte_def mouvements_example_def
          empty_session_def mouvement_A_def mouvement_B_def mouvement_C_def
          order_by_def effective_date_def opt_matches_def)
  from get_mouvements_ordered [OF h, of False 0 100 None None None]
  have "sorted_wrt (\<lambda>m m'. desc_le False (date_effective mouvements_example m)
                             (date_effective mouvements_example m'))
          (fst (get_mouvements False mouvements_example 0 100 None None None))"
    by blast
  then have "sorted_wrt (\<lambda>m m'. desc_le False (date_effective mouvements_example m)
                                  (date_effective mouvements_example m'))
               [mouvement_B, mouvement_A, mouvement_C]"
    by (simp only: e fst_conv)
  with h e show ?thesis by blast
qed

text \<open>
  The scenario of the claim on PostgreSQL: mouvement C, which has no date at all, is listed
  first, not last.
\<close>

theorem get_mouvements_nulls_first_counterexample:
  "fst (get_mouvements True mouvements_example 0 100 None None None) =
     [mouvement_C, mouvement_B, mouvement_A] \<and>
   fst (get_mouvements True mouvements_example 0 100 None None None) \<noteq>
     [mouvement_B, mouvement_A, mouvement_C]"
  by (simp add: get_mouvements_def mouvements_outerjoin_acte_def mouvements_example_def
        empty_session_def mouvement_A_def mouvement_B_def mouvement_C_def
        order_by_def effective_date_def opt_matches_def)

section \<open>Decimal arithmetic and the rent formula\<close>

lemma ndigits_le:
  "0 < k \<Longrightarrow> n < 10 ^ k \<Longrightarrow> ndigits n \<le> k"
proof (induction k arbitrary: n)
  case 0
  then show ?case by simp
next
  case (Suc k)
  show ?case
  proof (cases "n < 10")
    case True
    then show ?thesis by (simp add: ndigits.simps [of n])
  next
    case False
    with Suc.prems have k: "0 < k" by (cases k) auto
    from Suc.prems have "n div 10 < 10 ^ k"
      by (simp add: less_mult_imp_div_less mult.commute)
    with Suc.IH [OF k] False show ?thesis by (simp add: ndigits.simps [of n])
  qed
qed

lemma ndigits_pos: "0 < ndigits n"
  by (simp add: ndigits.simps [of n])

lemma ndigits_small: "n < 10 \<Longrightarrow> ndigits n = 1"
  by (simp add: ndigits.simps [of n])

lemma ndigits_times10: "0 < n \<Longrightarrow> ndigits (10 * n) = Suc (ndigits n)"
  by (simp add: ndigits.simps [of "10 * n"])

lemma ndigits_power10: "ndigits (10 ^ k) = Suc k"
  by (induction k) (simp_all add: ndigits_small ndigits_times10)

lemma decimal_val_powi:
  "decimal_val d = (if d_sign d then - 1 else 1) * of_nat (d_int d) * 10 powi d_exp d"
  by (simp add: decimal_val_def power_int_def field_simps)

lemma decimal_fix_in_range:
  assumes "d_int d < 10 ^ 28" "Etiny \<le> d_exp d" "d_exp d \<le> Etop"
  shows "decimal_fix d = Inr d"
proof (cases "d_int d = 0")
  case True
  with assms show ?thesis
    by (simp add: decimal_fix_def Etiny_def Etop_def Emax_def Emin_def prec_def min_def max_def)
next
  case False
  from assms(1) have "ndigits (d_int d) \<le> 28" by (intro ndigits_le) simp_all
  with False assms(2,3) show ?thesis
    by (simp add: decimal_fix_def Let_def prec_def)
qed

lemma decimal_mul_exact:
  assumes "d_int x * d_int y < 10 ^ 28" "Etiny \<le> d_exp x + d_exp y" "d_exp x + d_exp y \<le> Etop"
  shows "decimal_mul x y =
           Inr \<lparr>d_sign = (d_sign x \<noteq> d_sign y), d_int = d_int x * d_int y,
                d_exp = d_exp x + d_exp y\<rparr>"
  using assms by (simp add: decimal_mul_def decimal_fix_in_range)

lemma decimal_val_mul:
  "decimal_val \<lparr>d_sign = (d_sign x \<noteq> d_sign y), d_int = d_int x * d_int y,
                d_exp = d_exp x + d_exp y\<rparr> = decimal_val x * decimal_val y"
  by (simp add: decimal_val_powi power_int_add)

lemma strip_zeros_props:
  "strip_zeros c e i = (c', e') \<Longrightarrow>
     e \<le> e' \<and> (e \<le> i \<longrightarrow> e' \<le> i) \<and> c = c' * 10 ^ nat (e' - e)"
proof (induction c e i arbitrary: c' e' rule: strip_zeros.induct)
  case (1 coeff ex ideal_exp)
  show ?case
  proof (cases "ex < ideal_exp \<and> coeff mod 10 = 0")
    case True
    with "1.prems" have r: "strip_zeros (coeff div 10) (ex + 1) ideal_exp = (c', e')"
      by (simp add: strip_zeros.simps [of coeff])
    from "1.IH" [OF True r] have le: "ex + 1 \<le> e'" and i: "e' \<le> ideal_exp"
      and c: "coeff div 10 = c' * 10 ^ nat (e' - (ex + 1))"
      using True by auto
    from True have "coeff = 10 * (coeff div 10)" by presburger
    also have "\<dots> = c' * 10 ^ Suc (nat (e' - (ex + 1)))" by (simp add: c)
    also from le have "Suc (nat (e' - (ex + 1))) = nat (e' - ex)" by simp
    finally show ?thesis using le i by simp
  next
    case False
    with "1.prems" show ?thesis by (simp add: strip_zeros.simps [of coeff])
  qed
qed

lemma strip_zeros_shift:
  "e + int n \<le> i \<Longrightarrow> strip_zeros (c * 10 ^ n) e i = strip_zeros c (e + int n) i"
proof (induction n arbitrary: e)
  case 0
  show ?case by simp
next
  case (Suc n)
  then have "e < i" by simp
  then have "strip_zeros (c * 10 ^ Suc n) e i = strip_zeros (c * 10 ^ n) (e + 1) i"
    by (subst strip_zeros.simps) simp
  also from Suc.prems have "\<dots> = strip_zeros c (e + 1 + int n) i"
    by (intro Suc.IH) simp
  also have "e + 1 + int n = e + int (Suc n)" by simp
  finally show ?case .
qed

lemma Dec_power10: "Dec (10 ^ k) 0 = \<lparr>d_sign = False, d_int = 10 ^ k, d_exp = 0\<rparr>"
  by (simp add: Dec_def nat_power_eq)

lemma decimal_truediv_power10:
  assumes "d_int x < 10 ^ 28" "Etiny + int k \<le> d_exp x" "d_exp x \<le> Etop"
  shows "\<exists>q. decimal_truediv x (Dec (10 ^ k) 0) = Inr q \<and>
              decimal_val q = decimal_val x / 10 ^ k \<and>
              d_int q \<le> d_int x \<and> d_exp x - int k \<le> d_exp q \<and> d_exp q \<le> d_exp x"
proof (cases "d_int x = 0")
  case True
  with assms show ?thesis
    by (simp add: decimal_truediv_def Dec_power10 decimal_fix_in_range decimal_val_def)
next
  case False
  define len where "len = ndigits (d_int x)"
  define shift where "shift = Suc k + 29 - len"
  from assms(1) have len: "len \<le> 28" unfolding len_def by (intro ndigits_le) simp_all
  then have sh: "int (ndigits (10 ^ k)) - int (ndigits (d_int x)) + prec + 1 = int shift"
    by (simp add: ndigits_power10 shift_def len_def prec_def)
  from len have shk: "k \<le> shift" by (simp add: shift_def)
  have num: "d_int x * 10 ^ shift = (d_int x * 10 ^ (shift - k)) * 10 ^ k"
    using shk by (simp add: power_add [symmetric])
  obtain c' e' where st: "strip_zeros (d_int x) (d_exp x - int k) (d_exp x) = (c', e')"
    by (cases "strip_zeros (d_int x) (d_exp x - int k) (d_exp x)")
  from strip_zeros_props [OF st]
  have lo: "d_exp x - int k \<le> e'" and hi: "e' \<le> d_exp x"
    and c: "d_int x = c' * 10 ^ nat (e' - (d_exp x - int k))"
    by auto
  from c have c'le: "c' \<le> d_int x" by simp
  have "strip_zeros (d_int x * 10 ^ (shift - k)) (d_exp x - int shift) (d_exp x) =
        strip_zeros (d_int x) (d_exp x - int shift + int (shift - k)) (d_exp x)"
    by (rule strip_zeros_shift) simp
  also from shk have "d_exp x - int shift + int (shift - k) = d_exp x - int k" by simp
  finally have st': "strip_zeros (d_int x * 10 ^ (shift - k)) (d_exp x - int shift) (d_exp x) =
                     (c', e')"
    using st by simp
  let ?q = "\<lparr>d_sign = d_sign x, d_int = c', d_exp = e'\<rparr>"
  have fx: "decimal_fix ?q = Inr ?q"
    using c'le assms lo hi by (intro decimal_fix_in_range) simp_all
  have run: "decimal_truediv x (Dec (10 ^ k) 0) = Inr ?q"
    using False
    by (simp add: decimal_truediv_def Dec_power10 Let_def sh num st' fx del: power_Suc)
  have "of_nat c' * 10 powi e' = (of_nat (d_int x) :: rat) * 10 powi (d_exp x - int k)"
  proof -
    have "(of_nat (d_int x) :: rat) * 10 powi (d_exp x - int k) =
          of_nat c' * 10 ^ nat (e' - (d_exp x - int k)) * 10 powi (d_exp x - int k)"
      by (subst c) simp
    also have "\<dots> = of_nat c' * (10 powi (e' - (d_exp x - int k)) * 10 powi (d_exp x - int k))"
      using lo by (simp add: power_int_def)
    also have "10 powi (e' - (d_exp x - int k)) * 10 powi (d_exp x - int k) = (10 :: rat) powi e'"
      by (simp add: power_int_add [symmetric])
    finally show ?thesis by simp
  qed
  then have val: "decimal_val ?q = decimal_val x / 10 ^ k"
    by (simp add: decimal_val_powi power_int_diff field_simps)
  from run val c'le lo hi show ?thesis by auto
qed

lemma Etiny_Etop_values: "Etiny = - 1000026" "Etop = 999972"
  by (simp_all add: Etiny_def Etop_def Emin_def Emax_def prec_def)

lemma calculer_sans_supplement:
  "calculer_montant_fermage P S est_sctl Vg Vs False False sg ss =
     bind_res (bind_res (decimal_mul P S) (\<lambda>ps. decimal_truediv ps (Dec 10000 0)))
       (\<lambda>b. decimal_mul b (if est_sctl then Vs else Vg))"
  by (cases "decimal_mul P S"; cases est_sctl)
     (auto simp: calculer_montant_fermage_def bind_res_def split: sum.splits)

lemma montant_exact_in_range:
  assumes PS: "d_int P * d_int S < 10 ^ 28"
    and PSV: "d_int P * d_int S * d_int V < 10 ^ 28"
    and eP: "\<bar>d_exp P\<bar> \<le> 300000" and eS: "\<bar>d_exp S\<bar> \<le> 300000" and eV: "\<bar>d_exp V\<bar> \<le> 300000"
  shows "\<exists>r. bind_res (bind_res (decimal_mul P S) (\<lambda>ps. decimal_truediv ps (Dec 10000 0)))
               (\<lambda>b. decimal_mul b V) = Inr r \<and>
             decimal_val r = montant_exact (decimal_val P) (decimal_val S) (decimal_val V)"
proof -
  let ?ps = "\<lparr>d_sign = (d_sign P \<noteq> d_sign S), d_int = d_int P * d_int S,
              d_exp = d_exp P + d_exp S\<rparr>"
  have m1: "decimal_mul P S = Inr ?ps"
    using PS eP eS by (intro decimal_mul_exact) (simp_all add: Etiny_Etop_values)
  have "\<exists>q. decimal_truediv ?ps (Dec (10 ^ 4) 0) = Inr q \<and>
              decimal_val q = decimal_val ?ps / 10 ^ 4 \<and>
              d_int q \<le> d_int ?ps \<and> d_exp ?ps - int 4 \<le> d_exp q \<and> d_exp q \<le> d_exp ?ps"
    using PS eP eS by (intro decimal_truediv_power10) (simp_all add: Etiny_Etop_values)
  then obtain q where d: "decimal_truediv ?ps (Dec 10000 0) = Inr q"
    and vq: "decimal_val q = decimal_val ?ps / 10000"
    and cq: "d_int q \<le> d_int P * d_int S"
    and lo: "d_exp P + d_exp S - 4 \<le> d_exp q" and hi: "d_exp q \<le> d_exp P + d_exp S"
    by auto
  from cq have "d_int q * d_int V \<le> d_int P * d_int S * d_int V"
    by (rule mult_le_mono1)
  from this PSV have cqV: "d_int q * d_int V < 10 ^ 28" by (rule le_less_trans)
  let ?r = "\<lparr>d_sign = (d_sign q \<noteq> d_sign V), d_int = d_int q * d_int V,
             d_exp = d_exp q + d_exp V\<rparr>"
  have m2: "decimal_mul q V = Inr ?r"
    using cqV lo hi eP eS eV by (intro decimal_mul_exact) (simp_all add: Etiny_Etop_values)
  have "decimal_val ?r = decimal_val q * decimal_val V" by (rule decimal_val_mul)
  also have "\<dots> = decimal_val P * decimal_val S / 10000 * decimal_val V"
    by (simp only: vq decimal_val_mul)
  finally have "decimal_val ?r = montant_exact (decimal_val P) (decimal_val S) (decimal_val V)"
    by (simp add: montant_exact_def)
  with m1 d m2 show ?thesis by (simp add: bind_res_def)
qed

lemmas decimal_eval =
  calculer_montant_fermage_def bind_res_def decimal_mul_def decimal_fix_def
  decimal_truediv_def decimal_add_def decimal_rescale_def normalize_ops_def
  round_half_even_def Dec_def Let_def ndigits.simps strip_zeros.simps
  prec_def Etiny_def Etop_def Emax_def Emin_def

lemma calculer_example:
  "calculer_montant_fermage (Dec 10 0) (Dec 25 (- 1)) False (Dec 169 (- 2)) (Dec 0 0)
     False False (Dec 0 0) (Dec 0 0) = Inr (Dec 4225 (- 6))"
  by (simp add: decimal_eval)

lemma calculer_example_supplement:
  "calculer_montant_fermage (Dec 10 0) (Dec 25 (- 1)) False (Dec 169 (- 2)) (Dec 0 0)
     True False (Dec 5 0) (Dec 0 0) = Inr (Dec 443625 (- 8))"
  by (simp add: decimal_eval)

text \<open>
  Claim C1, as amended. For all finite Decimal inputs \<open>calculer_montant_fermage\<close> is
  \<open>((point_fermage * surface) / 10000) * valeur_point_sctl\<close> when \<open>est_sctl\<close> holds and the
  same with \<open>valeur_point_gfa\<close> otherwise, plus \<open>result * supplement / 100\<close> when the
  supplement flag of that branch is set, each operation being Python's Decimal operation
  under the default context: rounded half-even to 28 significant digits, and raising on
  overflow. The result is the exact rational value when no rounding occurs; with no
  supplement that is the case whenever the coefficients of points, surface and point value
  multiply to less than \<open>10^28\<close> (and the exponents are at most 300000 in magnitude). The
  function reads no state, so equal inputs give equal results.
\<close>

theorem calculer_montant_fermage_decimal:
  "calculer_montant_fermage P S est_sctl Vg Vs supp_gfa supp_sctl sg ss =
     bind_res
       (bind_res (bind_res (decimal_mul P S) (\<lambda>ps. decimal_truediv ps (Dec 10000 0)))
          (\<lambda>b. decimal_mul b (if est_sctl then Vs else Vg)))
       (\<lambda>r. if (if est_sctl then supp_sctl else supp_gfa)
             then bind_res
                    (bind_res (decimal_mul r (if est_sctl then ss else sg))
                       (\<lambda>t. decimal_truediv t (Dec 100 0)))
                    (decimal_add r)
             else Inr r) \<and>
   (d_int P * d_int S < 10 ^ 28 \<and>
    d_int P * d_int S * d_int (if est_sctl then Vs else Vg) < 10 ^ 28 \<and>
    \<bar>d_exp P\<bar> \<le> 300000 \<and> \<bar>d_exp S\<bar> \<le> 300000 \<and>
    \<bar>d_exp (if est_sctl then Vs else Vg)\<bar> \<le> 300000 \<longrightarrow>
    (\<exists>r. calculer_montant_fermage P S est_sctl Vg Vs False False sg ss = Inr r \<and>
          decimal_val r =
            montant_exact (decimal_val P) (decimal_val S)
              (decimal_val (if est_sctl then Vs else Vg))))"
proof (intro conjI impI)
  show "calculer_montant_fermage P S est_sctl Vg Vs supp_gfa supp_sctl sg ss =
     bind_res
       (bind_res (bind_res (decimal_mul P S) (\<lambda>ps. decimal_truediv ps (Dec 10000 0)))
          (\<lambda>b. decimal_mul b (if est_sctl then Vs else Vg)))
       (\<lambda>r. if (if est_sctl then supp_sctl else supp_gfa)
             then bind_res
                    (bind_res (decimal_mul r (if est_sctl then ss else sg))
                       (\<lambda>t. decimal_truediv t (Dec 100 0)))
                    (decimal_add r)
             else Inr r)"
    by (cases "decimal_mul P S"; cases est_sctl)
       (auto simp: calculer_montant_fermage_def bind_res_def split: sum.splits)
next
  assume "d_int P * d_int S < 10 ^ 28 \<and>
    d_int P * d_int S * d_int (if est_sctl then Vs else Vg) < 10 ^ 28 \<and>
    \<bar>d_exp P\<bar> \<le> 300000 \<and> \<bar>d_exp S\<bar> \<le> 300000 \<and>
    \<bar>d_exp (if est_sctl then Vs else Vg)\<bar> \<le> 300000"
  then show "\<exists>r. calculer_montant_fermage P S est_sctl Vg Vs False False sg ss = Inr r \<and>
          decimal_val r =
            montant_exact (decimal_val P) (decimal_val S)
              (decimal_val (if est_sctl then Vs else Vg))"
    unfolding calculer_sans_supplement by (intro montant_exact_in_range) blast+
qed

theorem calculer_montant_fermage_decimal_witness:
  "d_int (Dec 10 0) * d_int (Dec 25 (- 1)) < 10 ^ 28 \<and>
   d_int (Dec 10 0) * d_int (Dec 25 (- 1)) * d_int (Dec 169 (- 2)) < 10 ^ 28 \<and>
   calculer_montant_fermage (Dec 10 0) (Dec 25 (- 1)) False (Dec 169 (- 2)) (Dec 0 0)
     False False (Dec 0 0) (Dec 0 0) = Inr (Dec 4225 (- 6)) \<and>
   decimal_val (Dec 4225 (- 6)) =
     montant_exact (decimal_val (Dec 10 0)) (decimal_val (Dec 25 (- 1)))
       (decimal_val (Dec 169 (- 2)))"
proof -
  have h: "d_int (Dec 10 0) * d_int (Dec 25 (- 1)) < 10 ^ 28 \<and>
    d_int (Dec 10 0) * d_int (Dec 25 (- 1)) * d_int (if False then Dec 0 0 else Dec 169 (- 2))
      < 10 ^ 28 \<and>
    \<bar>d_exp (Dec 10 0)\<bar> \<le> 300000 \<and> \<bar>d_exp (Dec 25 (- 1))\<bar> \<le> 300000 \<and>
    \<bar>d_exp (if False then Dec 0 0 else Dec 169 (- 2))\<bar> \<le> 300000"
    by (simp add: Dec_def)
  from calculer_montant_fermage_decimal
         [of "Dec 10 0" "Dec 25 (- 1)" False "Dec 169 (- 2)" "Dec 0 0" False False
             "Dec 0 0" "Dec 0 0"] h
  obtain r where "calculer_montant_fermage (Dec 10 0) (Dec 25 (- 1)) False (Dec 169 (- 2))
                    (Dec 0 0) False False (Dec 0 0) (Dec 0 0) = Inr r"
    and "decimal_val r =
           montant_exact (decimal_val (Dec 10 0)) (decimal_val (Dec 25 (- 1)))
             (decimal_val (if False then Dec 0 0 else Dec 169 (- 2)))"
    by blast
  with calculer_example h show ?thesis by simp
qed

text \<open>
  Exactness fails as soon as a product needs more than 28 digits: for points and surface
  both \<open>1.000000000000001\<close> and point value 1 the product has 31 digits, the library
  rounds it, and the amount returned is not \<open>points * surface / 10000 * value\<close>.
\<close>

theorem calculer_montant_fermage_rounding_counterexample:
  "calculer_montant_fermage (Dec 1000000000000001 (- 15)) (Dec 1000000000000001 (- 15))
     False (Dec 1 0) (Dec 0 0) False False (Dec 0 0) (Dec 0 0) =
     Inr (Dec 100000000000000200000000 (- 27)) \<and>
   decimal_val (Dec 100000000000000200000000 (- 27)) \<noteq>
     montant_exact (decimal_val (Dec 1000000000000001 (- 15)))
       (decimal_val (Dec 1000000000000001 (- 15))) (decimal_val (Dec 1 0))"
proof
  show "calculer_montant_fermage (Dec 1000000000000001 (- 15)) (Dec 1000000000000001 (- 15))
     False (Dec 1 0) (Dec 0 0) False False (Dec 0 0) (Dec 0 0) =
     Inr (Dec 100000000000000200000000 (- 27))"
    by (simp add: decimal_eval)
  show "decimal_val (Dec 100000000000000200000000 (- 27)) \<noteq>
     montant_exact (decimal_val (Dec 1000000000000001 (- 15)))
       (decimal_val (Dec 1000000000000001 (- 15))) (decimal_val (Dec 1 0))"
    by (simp add: decimal_val_def Dec_def montant_exact_def)
qed

section \<open>Point values by year\<close>

lemma get_valeur_point_by_annee_None:
  "get_valeur_point_by_annee session y = None \<longleftrightarrow> y \<notin> annee ` set (valeurs_points session)"
proof (cases "filter (\<lambda>v. annee v = y) (valeurs_points session)")
  case Nil
  then show ?thesis
    by (auto simp: get_valeur_point_by_annee_def filter_empty_conv)
next
  case (Cons r rs)
  then have "r \<in> set (filter (\<lambda>v. annee v = y) (valeurs_points session))" by simp
  then have "y \<in> annee ` set (valeurs_points session)" by auto
  with Cons show ?thesis by (simp add: get_valeur_point_by_annee_def)
qed

lemma get_valeur_point_by_annee_Some:
  assumes "get_valeur_point_by_annee session y = Some r"
  shows "r \<in> set (valeurs_points session) \<and> annee r = y"
proof -
  from assms obtain rs where "filter (\<lambda>v. annee v = y) (valeurs_points session) = r # rs"
    by (auto simp: get_valeur_point_by_annee_def split: list.splits)
  then have "r \<in> set (filter (\<lambda>v. annee v = y) (valeurs_points session))" by simp
  then show ?thesis by simp
qed

lemma numeric_column_Some:
  "numeric_column p s d \<noteq> None \<longleftrightarrow> (\<exists>v. numeric_column p s d = Some v)"
  by auto

lemma count_annee_append:
  "annee row = y \<Longrightarrow>
     length (filter (\<lambda>v. annee v = y) (rows @ [row])) =
       Suc (length (filter (\<lambda>v. annee v = y) rows))"
  by simp

lemma create_valeur_point_Inr:
  assumes "validate valeur_in" "int4 (valeurs_points_seq session)" "int4 (annee valeur_in)"
    and "valeurs_points_seq session \<notin> vp_id ` set (valeurs_points session)"
    and "numeric_column 10 4 (valeur_point_gfa valeur_in) = Some vp_gfa"
    and "numeric_column 10 4 (valeur_point_sctl valeur_in) = Some vp_sctl"
    and "numeric_column 5 2 (valeur_supp_gfa valeur_in) = Some vs_gfa"
    and "numeric_column 5 2 (valeur_supp_sctl valeur_in) = Some vs_sctl"
  shows "create_valeur_point validate session valeur_in =
           Inr (\<lparr>annee = annee valeur_in, valeur_point_gfa = vp_gfa,
                 valeur_point_sctl = vp_sctl, valeur_supp_gfa = vs_gfa,
                 valeur_supp_sctl = vs_sctl, vp_id = valeurs_points_seq session\<rparr>,
                session\<lparr>valeurs_points := valeurs_points session @
                          [\<lparr>annee = annee valeur_in, valeur_point_gfa = vp_gfa,
                            valeur_point_sctl = vp_sctl, valeur_supp_gfa = vs_gfa,
                            valeur_supp_sctl = vs_sctl, vp_id = valeurs_points_seq session\<rparr>],
                        valeurs_points_seq := valeurs_points_seq session + 1\<rparr>)"
  using assms by (simp add: create_valeur_point_def Let_def)

lemma create_valeur_point_ValidationError:
  "create_valeur_point validate session valeur_in = Inl ValidationError \<longleftrightarrow>
     \<not> validate valeur_in"
  by (simp add: create_valeur_point_def Let_def split: option.splits)

lemma create_valeur_point_DataError:
  "create_valeur_point validate session valeur_in = Inl DataError \<longleftrightarrow>
     validate valeur_in \<and>
     (\<not> int4 (valeurs_points_seq session) \<or> \<not> int4 (annee valeur_in) \<or>
      numeric_column 10 4 (valeur_point_gfa valeur_in) = None \<or>
      numeric_column 10 4 (valeur_point_sctl valeur_in) = None \<or>
      numeric_column 5 2 (valeur_supp_gfa valeur_in) = None \<or>
      numeric_column 5 2 (valeur_supp_sctl valeur_in) = None)"
  by (auto simp: create_valeur_point_def Let_def split: option.splits)

lemma create_valeur_point_DuplicateKey:
  "create_valeur_point validate session valeur_in = Inl DuplicateKey \<longleftrightarrow>
     validate valeur_in \<and> int4 (valeurs_points_seq session) \<and> int4 (annee valeur_in) \<and>
     numeric_column 10 4 (valeur_point_gfa valeur_in) \<noteq> None \<and>
     numeric_column 10 4 (valeur_point_sctl valeur_in) \<noteq> None \<and>
     numeric_column 5 2 (valeur_supp_gfa valeur_in) \<noteq> None \<and>
     numeric_column 5 2 (valeur_supp_sctl valeur_in) \<noteq> None \<and>
     valeurs_points_seq session \<in> vp_id ` set (valeurs_points session)"
  by (auto simp: create_valeur_point_def Let_def split: option.splits)

text \<open>
  A value written with no more decimal places than the column has, and small enough for
  it, is stored unchanged.
\<close>

lemma numeric_column_exact:
  assumes "- int s \<le> d_exp d" and "d_int d * 10 ^ nat (d_exp d + int s) < 10 ^ p"
    and "d_int d \<noteq> 0 \<or> \<not> d_sign d"
  shows "\<exists>v. numeric_column p s d = Some v \<and> decimal_val v = decimal_val d"
proof -
  let ?c = "d_int d * 10 ^ nat (d_exp d + int s)"
  let ?v = "\<lparr>d_sign = (d_sign d \<and> ?c \<noteq> 0), d_int = ?c, d_exp = - int s\<rparr>"
  from assms have n: "numeric_column p s d = Some ?v"
    by (simp add: numeric_column_def Let_def)
  have sg: "(d_sign d \<and> ?c \<noteq> 0) = d_sign d" using assms(3) by auto
  have "decimal_val ?v = decimal_val d"
  proof (cases "0 \<le> d_exp d")
    case True
    then have "nat (d_exp d + int s) = nat (d_exp d) + s" by (simp add: nat_add_distrib)
    with True sg show ?thesis
      by (cases "s = 0") (simp_all add: decimal_val_def power_add)
  next
    case False
    with assms(1) have e: "s = nat (d_exp d + int s) + nat (- d_exp d)" by simp
    have "(10::rat) ^ s = 10 ^ nat (d_exp d + int s) * 10 ^ nat (- d_exp d)"
      by (subst e) (simp only: power_add)
    with False assms(1) sg show ?thesis
      by (simp add: decimal_val_def field_simps)
  qed
  with n show ?thesis by blast
qed

text \<open>
  Claim C8, as amended. No uniqueness rule protects the year: whether \<open>create_valeur_point\<close>
  fails never depends on the years of the rows the table holds. It raises
  \<^verbatim>\<open>ValidationError\<close> exactly when the validation of the model refuses the input;
  \<^verbatim>\<open>DataError\<close> exactly when, the validation passed, the next id or the year is outside the
  32-bit \<^verbatim>\<open>INTEGER\<close> range or one of the four values does not fit its \<^verbatim>\<open>NUMERIC\<close> column;
  and it violates the primary key exactly when, all that passed, a row already has the
  next id of the sequence. In every other case, also when rows of that year exist
  already, it appends a new row with the next id and the values as their columns store
  them, so the table holds one more row of that year. \<open>get_valeur_point_by_annee\<close> returns
  nothing exactly when no row has the year, and otherwise a row of that year (the first
  found).
\<close>

theorem create_valeur_point_appends:
  "(validate valeur_in \<and> int4 (valeurs_points_seq session) \<and> int4 (annee valeur_in) \<and>
    valeurs_points_seq session \<notin> vp_id ` set (valeurs_points session) \<and>
    numeric_column 10 4 (valeur_point_gfa valeur_in) = Some vp_gfa \<and>
    numeric_column 10 4 (valeur_point_sctl valeur_in) = Some vp_sctl \<and>
    numeric_column 5 2 (valeur_supp_gfa valeur_in) = Some vs_gfa \<and>
    numeric_column 5 2 (valeur_supp_sctl valeur_in) = Some vs_sctl \<longrightarrow>
      (let row = \<lparr>annee = annee valeur_in, valeur_point_gfa = vp_gfa,
                   valeur_point_sctl = vp_sctl, valeur_supp_gfa = vs_gfa,
                   valeur_supp_sctl = vs_sctl, vp_id = valeurs_points_seq session\<rparr>
       in create_valeur_point validate session valeur_in =
            Inr (row, session\<lparr>valeurs_points := valeurs_points session @ [row],
                              valeurs_points_seq := valeurs_points_seq session + 1\<rparr>) \<and>
          length (filter (\<lambda>v. annee v = annee valeur_in) (valeurs_points session @ [row])) =
            Suc (length (filter (\<lambda>v. annee v = annee valeur_in) (valeurs_points session))))) \<and>
   (create_valeur_point validate session valeur_in = Inl ValidationError \<longleftrightarrow>
      \<not> validate valeur_in) \<and>
   (create_valeur_point validate session valeur_in = Inl DataError \<longleftrightarrow>
      validate valeur_in \<and>
      (\<not> int4 (valeurs_points_seq session) \<or> \<not> int4 (annee valeur_in) \<or>
       numeric_column 10 4 (valeur_point_gfa valeur_in) = None \<or>
       numeric_column 10 4 (valeur_point_sctl valeur_in) = None \<or>
       numeric_column 5 2 (valeur_supp_gfa valeur_in) = None \<or>
       numeric_column 5 2 (valeur_supp_sctl valeur_in) = None)) \<and>
   (create_valeur_point validate session valeur_in = Inl DuplicateKey \<longleftrightarrow>
      validate valeur_in \<and> int4 (valeurs_points_seq session) \<and> int4 (annee valeur_in) \<and>
      numeric_column 10 4 (valeur_point_gfa valeur_in) \<noteq> None \<and>
      numeric_column 10 4 (valeur_point_sctl valeur_in) \<noteq> None \<and>
      numeric_column 5 2 (valeur_supp_gfa valeur_in) \<noteq> None \<and>
      numeric_column 5 2 (valeur_supp_sctl valeur_in) \<noteq> None \<and>
      valeurs_points_seq session \<in> vp_id ` set (valeurs_points session)) \<and>
   (get_valeur_point_by_annee session y = None \<longleftrightarrow>
      y \<notin> annee ` set (valeurs_points session)) \<and>
   (\<forall>r. get_valeur_point_by_annee session y = Some r \<longrightarrow>
      r \<in> set (valeurs_points session) \<and> annee r = y)"
proof (intro conjI)
  show "validate valeur_in \<and> int4 (valeurs_points_seq session) \<and> int4 (annee valeur_in) \<and>
    valeurs_points_seq session \<notin> vp_id ` set (valeurs_points session) \<and>
    numeric_column 10 4 (valeur_point_gfa valeur_in) = Some vp_gfa \<and>
    numeric_column 10 4 (valeur_point_sctl valeur_in) = Some vp_sctl \<and>
    numeric_column 5 2 (valeur_supp_gfa valeur_in) = Some vs_gfa \<and>
    numeric_column 5 2 (valeur_supp_sctl valeur_in) = Some vs_sctl \<longrightarrow>
      (let row = \<lparr>annee = annee valeur_in, valeur_point_gfa = vp_gfa,
                   valeur_point_sctl = vp_sctl, valeur_supp_gfa = vs_gfa,
                   valeur_supp_sctl = vs_sctl, vp_id = valeurs_points_seq session\<rparr>
       in create_valeur_point validate session valeur_in =
            Inr (row, session\<lparr>valeurs_points := valeurs_points session @ [row],
                              valeurs_points_seq := valeurs_points_seq session + 1\<rparr>) \<and>
          length (filter (\<lambda>v. annee v = annee valeur_in) (valeurs_points session @ [row])) =
            Suc (length (filter (\<lambda>v. annee v = annee valeur_in) (valeurs_points session))))"
  proof
    assume h: "validate valeur_in \<and> int4 (valeurs_points_seq session) \<and>
      int4 (annee valeur_in) \<and>
      valeurs_points_seq session \<notin> vp_id ` set (valeurs_points session) \<and>
      numeric_column 10 4 (valeur_point_gfa valeur_in) = Some vp_gfa \<and>
      numeric_column 10 4 (valeur_point_sctl valeur_in) = Some vp_sctl \<and>
      numeric_column 5 2 (valeur_supp_gfa valeur_in) = Some vs_gfa \<and>
      numeric_column 5 2 (valeur_supp_sctl valeur_in) = Some vs_sctl"
    then have "create_valeur_point validate session valeur_in =
           Inr (\<lparr>annee = annee valeur_in, valeur_point_gfa = vp_gfa,
                 valeur_point_sctl = vp_sctl, valeur_supp_gfa = vs_gfa,
                 valeur_supp_sctl = vs_sctl, vp_id = valeurs_points_seq session\<rparr>,
                session\<lparr>valeurs_points := valeurs_points session @
                          [\<lparr>annee = annee valeur_in, valeur_point_gfa = vp_gfa,
                            valeur_point_sctl = vp_sctl, valeur_supp_gfa = vs_gfa,
                            valeur_supp_sctl = vs_sctl, vp_id = valeurs_points_seq session\<rparr>],
                        valeurs_points_seq := valeurs_points_seq session + 1\<rparr>)"
      by (intro create_valeur_point_Inr) simp_all
    then show "let row = \<lparr>annee = annee valeur_in, valeur_point_gfa = vp_gfa,
                   valeur_point_sctl = vp_sctl, valeur_supp_gfa = vs_gfa,
                   valeur_supp_sctl = vs_sctl, vp_id = valeurs_points_seq session\<rparr>
       in create_valeur_point validate session valeur_in =
            Inr (row, session\<lparr>valeurs_points := valeurs_points session @ [row],
                              valeurs_points_seq := valeurs_points_seq session + 1\<rparr>) \<and>
          length (filter (\<lambda>v. annee v = annee valeur_in) (valeurs_points session @ [row])) =
            Suc (length (filter (\<lambda>v. annee v = annee valeur_in) (valeurs_points session)))"
      by (simp add: Let_def)
  qed
next
  show "create_valeur_point validate session valeur_in = Inl ValidationError \<longleftrightarrow>
      \<not> validate valeur_in"
    by (rule create_valeur_point_ValidationError)
next
  show "create_valeur_point validate session valeur_in = Inl DataError \<longleftrightarrow>
      validate valeur_in \<and>
      (\<not> int4 (valeurs_points_seq session) \<or> \<not> int4 (annee valeur_in) \<or>
       numeric_column 10 4 (valeur_point_gfa valeur_in) = None \<or>
       numeric_column 10 4 (valeur_point_sctl valeur_in) = None \<or>
       numeric_column 5 2 (valeur_supp_gfa valeur_in) = None \<or>
       numeric_column 5 2 (valeur_supp_sctl valeur_in) = None)"
    by (rule create_valeur_point_DataError)
next
  show "create_valeur_point validate session valeur_in = Inl DuplicateKey \<longleftrightarrow>
      validate valeur_in \<and> int4 (valeurs_points_seq session) \<and> int4 (annee valeur_in) \<and>
      numeric_column 10 4 (valeur_point_gfa valeur_in) \<noteq> None \<and>
      numeric_column 10 4 (valeur_point_sctl valeur_in) \<noteq> None \<and>
      numeric_column 5 2 (valeur_supp_gfa valeur_in) \<noteq> None \<and>
      numeric_column 5 2 (valeur_supp_sctl valeur_in) \<noteq> None \<and>
      valeurs_points_seq session \<in> vp_id ` set (valeurs_points session)"
    by (rule create_valeur_point_DuplicateKey)
next
  show "get_valeur_point_by_annee session y = None \<longleftrightarrow>
      y \<notin> annee ` set (valeurs_points session)"
    by (rule get_valeur_point_by_annee_None)
next
  show "\<forall>r. get_valeur_point_by_annee session y = Some r \<longrightarrow>
      r \<in> set (valeurs_points session) \<and> annee r = y"
    using get_valeur_point_by_annee_Some by blast
qed

lemmas numeric_eval = numeric_column_def Dec_def Let_def int4_def field_constraints_def
  within_digits_def ndigits.simps

theorem create_valeur_point_appends_witness:
  "field_constraints valeur_2024_bis \<and> int4 (valeurs_points_seq valeurs_stored) \<and>
   int4 (annee valeur_2024_bis) \<and>
   valeurs_points_seq valeurs_stored \<notin> vp_id ` set (valeurs_points valeurs_stored) \<and>
   numeric_column 10 4 (valeur_point_gfa valeur_2024_bis) = Some (Dec 17500 (- 4)) \<and>
   numeric_column 10 4 (valeur_point_sctl valeur_2024_bis) = Some (Dec 21000 (- 4)) \<and>
   numeric_column 5 2 (valeur_supp_gfa valeur_2024_bis) = Some (Dec 0 (- 2)) \<and>
   numeric_column 5 2 (valeur_supp_sctl valeur_2024_bis) = Some (Dec 0 (- 2)) \<and>
   get_valeur_point_by_annee valeurs_stored 2024 = Some valeur_2024_row \<and>
   create_valeur_point field_constraints valeurs_stored valeur_2024_bis =
     Inr (\<lparr>annee = 2024, valeur_point_gfa = Dec 17500 (- 4),
           valeur_point_sctl = Dec 21000 (- 4), valeur_supp_gfa = Dec 0 (- 2),
           valeur_supp_sctl = Dec 0 (- 2), vp_id = 2\<rparr>,
          valeurs_stored\<lparr>valeurs_points :=
              [valeur_2024_row,
               \<lparr>annee = 2024, valeur_point_gfa = Dec 17500 (- 4),
                valeur_point_sctl = Dec 21000 (- 4), valeur_supp_gfa = Dec 0 (- 2),
                valeur_supp_sctl = Dec 0 (- 2), vp_id = 2\<rparr>],
            valeurs_points_seq := 3\<rparr>) \<and>
   length (filter (\<lambda>v. annee v = 2024)
             [valeur_2024_row,
              \<lparr>annee = 2024, valeur_point_gfa = Dec 17500 (- 4),
               valeur_point_sctl = Dec 21000 (- 4), valeur_supp_gfa = Dec 0 (- 2),
               valeur_supp_sctl = Dec 0 (- 2), vp_id = 2\<rparr>]) = 2"
proof -
  have h: "field_constraints valeur_2024_bis \<and> int4 (valeurs_points_seq valeurs_stored) \<and>
     int4 (annee valeur_2024_bis) \<and>
     valeurs_points_seq valeurs_stored \<notin> vp_id ` set (valeurs_points valeurs_stored) \<and>
     numeric_column 10 4 (valeur_point_gfa valeur_2024_bis) = Some (Dec 17500 (- 4)) \<and>
     numeric_column 10 4 (valeur_point_sctl valeur_2024_bis) = Some (Dec 21000 (- 4)) \<and>
     numeric_column 5 2 (valeur_supp_gfa valeur_2024_bis) = Some (Dec 0 (- 2)) \<and>
     numeric_column 5 2 (valeur_supp_sctl valeur_2024_bis) = Some (Dec 0 (- 2))"
    by (simp add: numeric_eval valeur_2024_bis_def valeurs_stored_def empty_session_def
          valeur_2024_row_def)
  have g: "get_valeur_point_by_annee valeurs_stored 2024 = Some valeur_2024_row"
    by (simp add: get_valeur_point_by_annee_def valeurs_stored_def empty_session_def
          valeur_2024_row_def)
  have s: "valeurs_points valeurs_stored = [valeur_2024_row]"
    "valeurs_points_seq valeurs_stored = 2" "annee valeur_2024_bis = 2024"
    by (simp_all add: valeurs_stored_def empty_session_def valeur_2024_bis_def)
  note t = create_valeur_point_appends
             [of field_constraints valeur_2024_bis valeurs_stored "Dec 17500 (- 4)"
                 "Dec 21000 (- 4)" "Dec 0 (- 2)" "Dec 0 (- 2)" 2024,
              THEN conjunct1, rule_format, OF h]
  from t have "create_valeur_point field_constraints valeurs_stored valeur_2024_bis =
     Inr (\<lparr>annee = 2024, valeur_point_gfa = Dec 17500 (- 4),
           valeur_point_sctl = Dec 21000 (- 4), valeur_supp_gfa = Dec 0 (- 2),
           valeur_supp_sctl = Dec 0 (- 2), vp_id = 2\<rparr>,
          valeurs_stored\<lparr>valeurs_points :=
              [valeur_2024_row,
               \<lparr>annee = 2024, valeur_point_gfa = Dec 17500 (- 4),
                valeur_point_sctl = Dec 21000 (- 4), valeur_supp_gfa = Dec 0 (- 2),
                valeur_supp_sctl = Dec 0 (- 2), vp_id = 2\<rparr>],
            valeurs_points_seq := 3\<rparr>)"
    and "length (filter (\<lambda>v. annee v = 2024)
             [valeur_2024_row,
              \<lparr>annee = 2024, valeur_point_gfa = Dec 17500 (- 4),
               valeur_point_sctl = Dec 21000 (- 4), valeur_supp_gfa = Dec 0 (- 2),
               valeur_supp_sctl = Dec 0 (- 2), vp_id = 2\<rparr>]) = 2"
    by (simp_all add: Let_def s valeur_2024_row_def)
  with h g show ?thesis by blast
qed

text \<open>
  A store that already holds a row for 2024 accepts a second one: the call returns the
  new row, and two rows have the year 2024 afterwards. What makes the call fail is a year
  beyond the 32-bit range, a value beyond its column (caught by the validation when it
  enforces the declared digits), or an id that is taken, whatever the year.
\<close>

theorem create_valeur_point_duplicate_counterexample:
  "get_valeur_point_by_annee valeurs_stored 2024 = Some valeur_2024_row \<and>
   annee valeur_2024_bis = 2024 \<and>
   (\<exists>session'.
      create_valeur_point field_constraints valeurs_stored valeur_2024_bis =
        Inr (\<lparr>annee = 2024, valeur_point_gfa = Dec 17500 (- 4),
              valeur_point_sctl = Dec 21000 (- 4), valeur_supp_gfa = Dec 0 (- 2),
              valeur_supp_sctl = Dec 0 (- 2), vp_id = 2\<rparr>, session') \<and>
      filter (\<lambda>v. annee v = 2024) (valeurs_points session') =
        [valeur_2024_row,
         \<lparr>annee = 2024, valeur_point_gfa = Dec 17500 (- 4),
          valeur_point_sctl = Dec 21000 (- 4), valeur_supp_gfa = Dec 0 (- 2),
          valeur_supp_sctl = Dec 0 (- 2), vp_id = 2\<rparr>])"
  by (simp add: get_valeur_point_by_annee_def create_valeur_point_def valeurs_stored_def
        empty_session_def valeur_2024_row_def valeur_2024_bis_def numeric_eval)

lemma create_valeur_point_failures:
  "create_valeur_point field_constraints valeurs_stored
     (valeur_2024_bis\<lparr>annee := 2147483648\<rparr>) = Inl DataError \<and>
   create_valeur_point field_constraints valeurs_stored
     (valeur_2024_bis\<lparr>valeur_point_gfa := Dec 1234567 0\<rparr>) = Inl ValidationError \<and>
   create_valeur_point (\<lambda>v. True) valeurs_stored
     (valeur_2024_bis\<lparr>valeur_point_gfa := Dec 1234567 0\<rparr>) = Inl DataError \<and>
   create_valeur_point field_constraints (valeurs_stored\<lparr>valeurs_points_seq := 1\<rparr>)
     (valeur_2024_bis\<lparr>annee := 2025\<rparr>) = Inl DuplicateKey"
  by (simp add: create_valeur_point_def valeurs_stored_def empty_session_def
        valeur_2024_bis_def valeur_2024_row_def numeric_eval)

section \<open>Conversion to float\<close>

text \<open>
  The conversion of a Decimal to a float gives a zero exactly when the Decimal is at most
  \<open>2^-1075\<close> in magnitude, half of the smallest positive float.
\<close>

lemma nbits_bounds:
  "0 < n \<Longrightarrow> 2 ^ (nbits n - 1) \<le> n \<and> n < 2 ^ nbits n"
proof (induction n rule: nbits.induct)
  case (1 n)
  show ?case
  proof (cases "n div 2 = 0")
    case True
    with 1 have "n = 1" by (cases n) auto
    then show ?thesis by (simp add: nbits.simps)
  next
    case False
    then have p: "0 < n div 2" by simp
    from 1 have n: "nbits n = Suc (nbits (n div 2))" by (subst nbits.simps) simp
    from 1(1) [OF _ p] 1(2) have ih: "2 ^ (nbits (n div 2) - 1) \<le> n div 2" "n div 2 < 2 ^ nbits (n div 2)"
      by auto
    from p have "0 < nbits (n div 2)" by (subst nbits.simps) simp
    then have e: "nbits (n div 2) = Suc (nbits (n div 2) - 1)" by simp
    have "2 ^ (nbits n - 1) = 2 * 2 ^ (nbits (n div 2) - 1)"
      unfolding n using e by (metis diff_Suc_1 power_Suc)
    also have "\<dots> \<le> 2 * (n div 2)" using ih(1) by simp
    also have "\<dots> \<le> n" by simp
    finally have a: "2 ^ (nbits n - 1) \<le> n" .
    have "n < 2 * (n div 2) + 2" by presburger
    also have "\<dots> \<le> 2 * 2 ^ nbits (n div 2)" using ih(2) by simp
    finally have "n < 2 ^ nbits n" by (simp add: n)
    with a show ?thesis by simp
  qed
qed

lemma scale2_ratio:
  assumes "0 < d" "scale2 n d e = (N, D)"
  shows "0 < D \<and> (of_nat N :: rat) / of_nat D = of_nat n / of_nat d / (2 powi e)"
proof (cases "0 \<le> e")
  case True
  with assms have "N = n" "D = d * 2 ^ nat e" by (simp_all add: scale2_def)
  with assms(1) True show ?thesis by (simp add: power_int_def)
next
  case False
  with assms have "N = n * 2 ^ nat (- e)" "D = d" by (simp_all add: scale2_def)
  with assms(1) False show ?thesis by (simp add: power_int_def field_simps)
qed

lemma scale2_le:
  assumes "0 < d" "scale2 n d e = (N, D)"
  shows "D \<le> N \<longleftrightarrow> 2 powi e \<le> (of_nat n / of_nat d :: rat)"
proof -
  from scale2_ratio [OF assms] have D: "0 < D"
    and r: "(of_nat N :: rat) / of_nat D = of_nat n / of_nat d / (2 powi e)" by auto
  have "D \<le> N \<longleftrightarrow> (1::rat) \<le> of_nat N / of_nat D"
    using D by (simp add: le_divide_eq)
  also have "\<dots> \<longleftrightarrow> 2 powi e \<le> (of_nat n / of_nat d :: rat)"
    unfolding r using assms(1) by (simp add: le_divide_eq mult.commute)
  finally show ?thesis .
qed

lemma scale2_half:
  assumes "0 < d" "scale2 n d e = (N, D)"
  shows "2 * N \<le> D \<longleftrightarrow> (of_nat n / of_nat d :: rat) \<le> 2 powi e / 2"
proof -
  from scale2_ratio [OF assms] have D: "0 < D"
    and r: "(of_nat N :: rat) / of_nat D = of_nat n / of_nat d / (2 powi e)" by auto
  have "2 * N \<le> D \<longleftrightarrow> (of_nat N :: rat) / of_nat D \<le> 1 / 2"
  proof -
    have "2 * N \<le> D \<longleftrightarrow> (of_nat (2 * N) :: rat) \<le> of_nat D" by (simp only: of_nat_le_iff)
    also have "\<dots> \<longleftrightarrow> (of_nat N :: rat) / of_nat D \<le> 1 / 2"
      using D by (simp add: divide_le_eq mult.commute)
    finally show ?thesis .
  qed
  also have "\<dots> \<longleftrightarrow> (of_nat n / of_nat d :: rat) \<le> 2 powi e / 2"
    unfolding r using assms(1) by (simp add: divide_le_eq mult.commute)
  finally show ?thesis .
qed

lemma round_half_even_div_zero:
  "0 < D \<Longrightarrow> round_half_even_div N D = 0 \<longleftrightarrow> 2 * N \<le> D"
proof -
  assume D: "0 < D"
  show ?thesis
  proof (cases "N < D")
    case True
    then show ?thesis by (auto simp: round_half_even_div_def Let_def)
  next
    case False
    then have "0 < N div D" using D by (simp add: div_greater_zero_iff)
    with False D show ?thesis by (auto simp: round_half_even_div_def Let_def)
  qed
qed


lemma float_log2_le:
  assumes "0 < n" "0 < d"
  shows "2 powi (case scale2 n d (int (nbits n) - int (nbits d)) of
                   (n', d') \<Rightarrow> if d' \<le> n' then int (nbits n) - int (nbits d)
                              else int (nbits n) - int (nbits d) - 1)
           \<le> (of_nat n / of_nat d :: rat)"
proof -
  define k where "k = int (nbits n) - int (nbits d)"
  obtain N D where sc: "scale2 n d k = (N, D)" by (cases "scale2 n d k")
  show ?thesis
  proof (cases "D \<le> N")
    case True
    with scale2_le [OF assms(2) sc] sc show ?thesis by (simp add: k_def)
  next
    case False
    from nbits_bounds [OF assms(1)] nbits_bounds [OF assms(2)]
    have a: "2 ^ (nbits n - 1) \<le> n" and b: "d < 2 ^ nbits d" by auto
    from assms(1) have pos: "0 < nbits n" by (subst nbits.simps) simp
    have "(2::rat) powi (k - 1) = 2 powi (int (nbits n - 1)) / 2 powi (int (nbits d))"
      using pos by (simp add: k_def power_int_diff of_nat_diff)
    also have "\<dots> = 2 ^ (nbits n - 1) / 2 ^ nbits d" by (simp only: power_int_of_nat)
    also have "\<dots> \<le> of_nat n / 2 ^ nbits d"
    proof -
      from a have "(of_nat (2 ^ (nbits n - 1)) :: rat) \<le> of_nat n" by (simp only: of_nat_le_iff)
      then show ?thesis by (simp add: divide_right_mono)
    qed
    also have "\<dots> \<le> of_nat n / of_nat d"
    proof -
      from b have "(of_nat d :: rat) \<le> of_nat (2 ^ nbits d)" by (simp only: of_nat_le_iff less_imp_le)
      then have "(of_nat d :: rat) \<le> 2 ^ nbits d" by simp
      with assms(2) show ?thesis by (intro divide_left_mono) simp_all
    qed
    finally show ?thesis using False sc by (simp add: k_def)
  qed
qed

lemma float_of_fraction_unfold:
  assumes "n \<noteq> 0"
    and "l = (case scale2 n d (int (nbits n) - int (nbits d)) of
                (n', d') \<Rightarrow> if d' \<le> n' then int (nbits n) - int (nbits d)
                           else int (nbits n) - int (nbits d) - 1)"
    and "e = max (l - 52) (- 1074)"
    and "scale2 n d e = (N, D)"
    and "m = round_half_even_div N D"
  shows "float_of_fraction s n d =
           (if m = 2 ^ 53 then (if e + 1 > 971 then Infinity s else Float s (2 ^ 52) (e + 1))
            else if e > 971 then Infinity s else Float s m e)"
proof -
  from assms(4) have "scale2 n d (max (l - 52) (- 1074)) = (N, D)" by (simp only: assms(3))
  then have "scale2 n d (max ((case scale2 n d (int (nbits n) - int (nbits d)) of
                (n', d') \<Rightarrow> if d' \<le> n' then int (nbits n) - int (nbits d)
                           else int (nbits n) - int (nbits d) - 1) - 52) (- 1074)) = (N, D)"
    by (simp only: assms(2))
  then show ?thesis
    unfolding float_of_fraction_def Let_def assms(5) assms(3) assms(2)
    using assms(1) by (simp only: if_False prod.case)
qed

lemma float_result_zero:
  "float_is_zero
     (if m = 2 ^ 53 then (if e + 1 > 971 then Infinity s else Float s (2 ^ 52) (e + 1))
      else if e > 971 then Infinity s else Float s m e) \<longleftrightarrow> m = 0 \<and> e \<le> 971"
  by (auto simp: float_is_zero_def)

lemma float_of_fraction_zero:
  assumes "0 < d"
  shows "float_is_zero (float_of_fraction s n d) \<longleftrightarrow> (of_nat n / of_nat d :: rat) \<le> 1 / 2 ^ 1075"
proof (cases "n = 0")
  case True
  then show ?thesis by (simp add: float_of_fraction_def float_is_zero_def)
next
  case False
  then have n: "0 < n" by simp
  define l where "l = (case scale2 n d (int (nbits n) - int (nbits d)) of
                   (n', d') \<Rightarrow> if d' \<le> n' then int (nbits n) - int (nbits d)
                              else int (nbits n) - int (nbits d) - 1)"
  define e where "e = max (l - 52) (- 1074)"
  obtain N D where sc: "scale2 n d e = (N, D)" by (cases "scale2 n d e")
  define m where "m = round_half_even_div N D"
  from float_log2_le [OF n assms] have l: "2 powi l \<le> (of_nat n / of_nat d :: rat)"
    by (simp only: l_def)
  from scale2_ratio [OF assms sc] have D: "0 < D" by simp
  have m0: "m = 0 \<longleftrightarrow> (of_nat n / of_nat d :: rat) \<le> 2 powi e / 2"
    unfolding m_def using round_half_even_div_zero [OF D] scale2_half [OF assms sc] by simp
  have z: "float_is_zero (float_of_fraction s n d) \<longleftrightarrow> m = 0 \<and> e \<le> 971"
    unfolding float_of_fraction_unfold [OF False l_def e_def sc m_def]
    by (rule float_result_zero)
  have tiny: "(2::rat) powi (- 1074) / 2 = 1 / 2 ^ 1075"
    by (simp add: power_int_minus divide_simps)
  show ?thesis
  proof
    assume "float_is_zero (float_of_fraction s n d)"
    with z m0 have h: "(of_nat n / of_nat d :: rat) \<le> 2 powi e / 2" by simp
    have "e = - 1074"
    proof (rule ccontr)
      assume "e \<noteq> - 1074"
      then have e: "e = l - 52" by (auto simp: e_def max_def split: if_splits)
      have "(2::rat) powi e / 2 = 2 powi (l - 53)"
        unfolding e by (simp add: power_int_diff)
      also have "\<dots> < 2 powi l" by (intro power_int_strict_increasing) simp_all
      finally have "(2::rat) powi e / 2 < 2 powi l" .
      with h have "(of_nat n / of_nat d :: rat) < 2 powi l" by (rule order_le_less_trans)
      with l show False by linarith
    qed
    with h tiny show "(of_nat n / of_nat d :: rat) \<le> 1 / 2 ^ 1075" by simp
  next
    assume h: "(of_nat n / of_nat d :: rat) \<le> 1 / 2 ^ 1075"
    from l h have "(2::rat) powi l \<le> 1 / 2 ^ 1075" by (rule order_trans)
    also have "(1::rat) / 2 ^ 1075 = 2 powi (- 1075)" by (simp add: power_int_minus divide_simps)
    finally have u: "(2::rat) powi l \<le> 2 powi (- 1075)" .
    have "l \<le> - 1075"
    proof (rule ccontr)
      assume "\<not> l \<le> - 1075"
      then have "(2::rat) powi (- 1075) < 2 powi l"
        by (intro power_int_strict_increasing) simp_all
      with u show False by linarith
    qed
    then have e: "e = - 1074" by (simp add: e_def)
    with h tiny m0 have "m = 0" by simp
    with e z show "float_is_zero (float_of_fraction s n d)" by simp
  qed
qed

lemma decimal_float_zero:
  "float_is_zero (decimal_float x) \<longleftrightarrow> \<bar>decimal_val x\<bar> \<le> 1 / 2 ^ 1075"
proof (cases "0 \<le> d_exp x")
  case True
  have a: "\<bar>decimal_val x\<bar> = of_nat (d_int x * 10 ^ nat (d_exp x)) / of_nat 1"
    using True by (simp add: decimal_val_def abs_mult)
  have z: "float_is_zero (float_of_fraction (d_sign x) (d_int x * 10 ^ nat (d_exp x)) 1) \<longleftrightarrow>
             (of_nat (d_int x * 10 ^ nat (d_exp x)) / of_nat 1 :: rat) \<le> 1 / 2 ^ 1075"
    by (rule float_of_fraction_zero) simp
  have df: "decimal_float x = float_of_fraction (d_sign x) (d_int x * 10 ^ nat (d_exp x)) 1"
    using True by (simp add: decimal_float_def)
  show ?thesis by (simp only: df z a)
next
  case False
  have a: "\<bar>decimal_val x\<bar> = of_nat (d_int x) / of_nat (10 ^ nat (- d_exp x))"
    using False by (simp add: decimal_val_def abs_mult)
  have z: "float_is_zero (float_of_fraction (d_sign x) (d_int x) (10 ^ nat (- d_exp x))) \<longleftrightarrow>
             (of_nat (d_int x) / of_nat (10 ^ nat (- d_exp x)) :: rat) \<le> 1 / 2 ^ 1075"
    by (rule float_of_fraction_zero) simp
  have df: "decimal_float x = float_of_fraction (d_sign x) (d_int x) (10 ^ nat (- d_exp x))"
    using False by (simp add: decimal_float_def)
  show ?thesis by (simp only: df z a)
qed

section \<open>Rent without a point value, and rent totals\<close>

lemmas float_eval = decimal_float_def float_of_fraction_def scale2_def round_half_even_div_def
  nbits.simps Dec_def Let_def

lemma decimal_float_one: "decimal_float (Dec 10 (- 1)) = Float False 4503599627370496 (- 52)"
  by (simp add: float_eval)

lemma calculate_fermage_no_row:
  assumes "y \<notin> annee ` set (valeurs_points session)"
  shows "calculate_fermage session P S sctl (Some y) =
           bind_res
             (calculer_montant_fermage P S sctl (Dec 10 (- 1)) (Dec 10 (- 1)) False False
                (Dec 0 (- 1)) (Dec 0 (- 1)))
             (\<lambda>montant.
                Inr \<lparr>r_point_fermage = decimal_float P, r_surface = decimal_float S,
                     r_sctl = sctl, r_annee = Some y,
                     r_valeur_point = Float False 4503599627370496 (- 52),
                     r_montant_fermage = decimal_float montant\<rparr>)"
proof -
  from assms have "get_valeur_point_by_annee session y = None"
    by (simp add: get_valeur_point_by_annee_None)
  then show ?thesis by (simp add: calculate_fermage_def Let_def decimal_float_one)
qed

lemma fermage_totaux_loop_None:
  "fermage_totaux_loop session None subs (ts, tr, tm, ids) = Inr (ts', tr', tm', ids') \<Longrightarrow>
     tm' = tm"
proof (induction subs arbitrary: ts tr ids)
  case Nil
  then show ?case by simp
next
  case (Cons sub subs)
  from Cons.prems obtain ts1 tr1 where
    "fermage_totaux_loop session None subs (ts1, tr1, tm, insert (sd_id_parcelle sub) ids) =
       Inr (ts', tr', tm', ids')"
    by (auto simp: bind_res_def split: sum.splits)
  then show ?case by (rule Cons.IH)
qed

lemma get_fermage_totaux_None:
  assumes "get_fermage_totaux session e c s None = Inr t"
  shows "total_montant t = Dec 0 0"
proof -
  from assms obtain ts tr tm ids where
    l: "fermage_totaux_loop session None (fermage_subdivisions session e c s)
          (Dec 0 0, Dec 0 0, Dec 0 0, {}) = Inr (ts, tr, tm, ids)"
    and t: "t = \<lparr>total_surface = ts, total_revenu = tr, total_montant = tm,
                 nb_parcelles = card ids\<rparr>"
    by (auto simp: get_fermage_totaux_def bind_res_def split: sum.splits)
  from fermage_totaux_loop_None [OF l] t show ?thesis by simp
qed

text \<open>
  Claim C2, as amended. For every year with no ValeurPoint row, \<open>calculate_fermage\<close> does
  not answer zero: it falls back to a point value of 1.0 with no supplement, computes
  \<open>((point_fermage * surface) / 10000) * 1.0\<close> in Decimal arithmetic and answers with the
  float nearest to that Decimal, the point value reported being the float \<open>1.0\<close>. For points
  and surface whose coefficients multiply to less than \<open>10^27\<close> (exponents at most 300000
  in magnitude) it does not raise, and the Decimal it converts is exactly
  \<open>points * surface / 10000\<close>, so that the amount answered is a zero exactly when
  \<open>points * surface / 10000\<close> is at most \<open>2^-1075\<close> in magnitude. The aggregation \<open>get_fermage_totaux\<close>, given the missing row
  of that year, reports \<open>total_montant = 0\<close> whenever it returns.
\<close>

theorem calculate_fermage_sans_valeur_point:
  assumes "y \<notin> annee ` set (valeurs_points session)"
  shows "calculate_fermage session P S sctl (Some y) =
           bind_res
             (calculer_montant_fermage P S sctl (Dec 10 (- 1)) (Dec 10 (- 1)) False False
                (Dec 0 (- 1)) (Dec 0 (- 1)))
             (\<lambda>montant.
                Inr \<lparr>r_point_fermage = decimal_float P, r_surface = decimal_float S,
                     r_sctl = sctl, r_annee = Some y,
                     r_valeur_point = Float False 4503599627370496 (- 52),
                     r_montant_fermage = decimal_float montant\<rparr>) \<and>
         (d_int P * d_int S < 10 ^ 27 \<and> \<bar>d_exp P\<bar> \<le> 300000 \<and> \<bar>d_exp S\<bar> \<le> 300000 \<longrightarrow>
            (\<exists>montant.
               decimal_val montant = decimal_val P * decimal_val S / 10000 \<and>
               calculate_fermage session P S sctl (Some y) =
                 Inr \<lparr>r_point_fermage = decimal_float P, r_surface = decimal_float S,
                      r_sctl = sctl, r_annee = Some y,
                      r_valeur_point = Float False 4503599627370496 (- 52),
                      r_montant_fermage = decimal_float montant\<rparr> \<and>
               (float_is_zero (decimal_float montant) \<longleftrightarrow>
                  \<bar>decimal_val P * decimal_val S / 10000\<bar> \<le> 1 / 2 ^ 1075))) \<and>
         (\<forall>t. get_fermage_totaux session e c s (get_valeur_point_by_annee session y) = Inr t \<longrightarrow>
              total_montant t = Dec 0 0)"
proof (intro conjI impI allI)
  show "calculate_fermage session P S sctl (Some y) =
           bind_res
             (calculer_montant_fermage P S sctl (Dec 10 (- 1)) (Dec 10 (- 1)) False False
                (Dec 0 (- 1)) (Dec 0 (- 1)))
             (\<lambda>montant.
                Inr \<lparr>r_point_fermage = decimal_float P, r_surface = decimal_float S,
                     r_sctl = sctl, r_annee = Some y,
                     r_valeur_point = Float False 4503599627370496 (- 52),
                     r_montant_fermage = decimal_float montant\<rparr>)"
    by (rule calculate_fermage_no_row [OF assms])
next
  assume h: "d_int P * d_int S < 10 ^ 27 \<and> \<bar>d_exp P\<bar> \<le> 300000 \<and> \<bar>d_exp S\<bar> \<le> 300000"
  have one: "d_int (Dec 10 (- 1)) = 10" "d_exp (Dec 10 (- 1)) = - 1"
    "decimal_val (Dec 10 (- 1)) = 1"
    by (simp_all add: Dec_def decimal_val_def)
  from h have "d_int P * d_int S < 10 ^ 28" by simp
  moreover from h have "d_int P * d_int S * d_int (Dec 10 (- 1)) < 10 ^ 28" by (simp add: one)
  moreover have "\<bar>d_exp (Dec 10 (- 1))\<bar> \<le> 300000" by (simp add: one)
  ultimately have "\<exists>r. bind_res (bind_res (decimal_mul P S) (\<lambda>ps. decimal_truediv ps (Dec 10000 0)))
               (\<lambda>b. decimal_mul b (Dec 10 (- 1))) = Inr r \<and>
             decimal_val r = montant_exact (decimal_val P) (decimal_val S) (decimal_val (Dec 10 (- 1)))"
    using h by (intro montant_exact_in_range) blast+
  then obtain m where "calculer_montant_fermage P S sctl (Dec 10 (- 1)) (Dec 10 (- 1)) False False
                (Dec 0 (- 1)) (Dec 0 (- 1)) = Inr m"
    and "decimal_val m = decimal_val P * decimal_val S / 10000"
    by (auto simp: calculer_sans_supplement montant_exact_def one)
  moreover from this have "float_is_zero (decimal_float m) \<longleftrightarrow>
                  \<bar>decimal_val P * decimal_val S / 10000\<bar> \<le> 1 / 2 ^ 1075"
    by (simp only: decimal_float_zero)
  ultimately show "\<exists>montant.
               decimal_val montant = decimal_val P * decimal_val S / 10000 \<and>
               calculate_fermage session P S sctl (Some y) =
                 Inr \<lparr>r_point_fermage = decimal_float P, r_surface = decimal_float S,
                      r_sctl = sctl, r_annee = Some y,
                      r_valeur_point = Float False 4503599627370496 (- 52),
                      r_montant_fermage = decimal_float montant\<rparr> \<and>
               (float_is_zero (decimal_float montant) \<longleftrightarrow>
                  \<bar>decimal_val P * decimal_val S / 10000\<bar> \<le> 1 / 2 ^ 1075)"
    by (intro exI [of _ m]) (simp add: calculate_fermage_no_row [OF assms] bind_res_def)
next
  fix t
  assume "get_fermage_totaux session e c s (get_valeur_point_by_annee session y) = Inr t"
  with assms show "total_montant t = Dec 0 0"
    by (simp add: get_valeur_point_by_annee_None [THEN iffD2] get_fermage_totaux_None)
qed

lemma calculer_example_sans_valeur:
  "calculer_montant_fermage (Dec 10 0) (Dec 25 (- 1)) False (Dec 10 (- 1)) (Dec 10 (- 1))
     False False (Dec 0 (- 1)) (Dec 0 (- 1)) = Inr (Dec 250 (- 5))"
  by (simp add: decimal_eval)

lemma decimal_float_examples:
  "decimal_float (Dec 10 0) = Float False 5629499534213120 (- 49)"
  "decimal_float (Dec 25 (- 1)) = Float False 5629499534213120 (- 51)"
  "decimal_float (Dec 250 (- 5)) = Float False 5764607523034235 (- 61)"
  by (simp_all add: float_eval)

theorem calculate_fermage_sans_valeur_point_witness:
  "2024 \<notin> annee ` set (valeurs_points empty_session) \<and>
   d_int (Dec 10 0) * d_int (Dec 25 (- 1)) < 10 ^ 27 \<and>
   \<bar>d_exp (Dec 10 0)\<bar> \<le> 300000 \<and> \<bar>d_exp (Dec 25 (- 1))\<bar> \<le> 300000 \<and>
   calculate_fermage empty_session (Dec 10 0) (Dec 25 (- 1)) False (Some 2024) =
     Inr \<lparr>r_point_fermage = Float False 5629499534213120 (- 49),
          r_surface = Float False 5629499534213120 (- 51), r_sctl = False,
          r_annee = Some 2024, r_valeur_point = Float False 4503599627370496 (- 52),
          r_montant_fermage = Float False 5764607523034235 (- 61)\<rparr> \<and>
   (\<exists>montant.
      decimal_val montant = decimal_val (Dec 10 0) * decimal_val (Dec 25 (- 1)) / 10000 \<and>
      decimal_float montant = Float False 5764607523034235 (- 61)) \<and>
   \<not> \<bar>decimal_val (Dec 10 0) * decimal_val (Dec 25 (- 1)) / 10000\<bar> \<le> 1 / 2 ^ 1075"
proof -
  have h: "2024 \<notin> annee ` set (valeurs_points empty_session)"
    by (simp add: empty_session_def)
  have b: "d_int (Dec 10 0) * d_int (Dec 25 (- 1)) < 10 ^ 27 \<and>
           \<bar>d_exp (Dec 10 0)\<bar> \<le> 300000 \<and> \<bar>d_exp (Dec 25 (- 1))\<bar> \<le> 300000"
    by (simp add: Dec_def)
  note t = calculate_fermage_sans_valeur_point
             [OF h, of "Dec 10 0" "Dec 25 (- 1)" False None None None]
  from t have e: "calculate_fermage empty_session (Dec 10 0) (Dec 25 (- 1)) False (Some 2024) =
     Inr \<lparr>r_point_fermage = Float False 5629499534213120 (- 49),
          r_surface = Float False 5629499534213120 (- 51), r_sctl = False,
          r_annee = Some 2024, r_valeur_point = Float False 4503599627370496 (- 52),
          r_montant_fermage = Float False 5764607523034235 (- 61)\<rparr>"
    by (simp add: calculer_example_sans_valeur decimal_float_examples bind_res_def)
  from t b obtain montant where
    v: "decimal_val montant = decimal_val (Dec 10 0) * decimal_val (Dec 25 (- 1)) / 10000"
    and "calculate_fermage empty_session (Dec 10 0) (Dec 25 (- 1)) False (Some 2024) =
           Inr \<lparr>r_point_fermage = decimal_float (Dec 10 0),
                r_surface = decimal_float (Dec 25 (- 1)),
                r_sctl = False, r_annee = Some 2024,
                r_valeur_point = Float False 4503599627370496 (- 52),
                r_montant_fermage = decimal_float montant\<rparr>"
    and z: "float_is_zero (decimal_float montant) \<longleftrightarrow>
              \<bar>decimal_val (Dec 10 0) * decimal_val (Dec 25 (- 1)) / 10000\<bar> \<le> 1 / 2 ^ 1075"
    by blast
  with e have f: "decimal_float montant = Float False 5764607523034235 (- 61)"
    by simp
  with v have x: "\<exists>montant.
      decimal_val montant = decimal_val (Dec 10 0) * decimal_val (Dec 25 (- 1)) / 10000 \<and>
      decimal_float montant = Float False 5764607523034235 (- 61)"
    by blast
  from z have n: "\<not> \<bar>decimal_val (Dec 10 0) * decimal_val (Dec 25 (- 1)) / 10000\<bar> \<le> 1 / 2 ^ 1075"
    unfolding f by (simp add: float_is_zero_def)
  from h b e x n show ?thesis by blast
qed

text \<open>
  With no row for 2024, 10 points on 2.5 hectares give the float 0.0025
  (\<open>5764607523034235 * 2^-61\<close>), not zero; and operands beyond the exponent range of the
  decimal context make the route raise.
\<close>

theorem calculate_fermage_sans_valeur_point_counterexample:
  "get_valeur_point_by_annee empty_session 2024 = None \<and>
   calculate_fermage empty_session (Dec 10 0) (Dec 25 (- 1)) False (Some 2024) =
     Inr \<lparr>r_point_fermage = Float False 5629499534213120 (- 49),
          r_surface = Float False 5629499534213120 (- 51), r_sctl = False,
          r_annee = Some 2024, r_valeur_point = Float False 4503599627370496 (- 52),
          r_montant_fermage = Float False 5764607523034235 (- 61)\<rparr> \<and>
   \<not> float_is_zero (Float False 5764607523034235 (- 61)) \<and>
   calculate_fermage empty_session (Dec 1 999990) (Dec 1 999990) False (Some 2024) =
     Inl Overflow"
proof (intro conjI)
  show g: "get_valeur_point_by_annee empty_session 2024 = None"
    by (simp add: get_valeur_point_by_annee_def empty_session_def)
  show "calculate_fermage empty_session (Dec 10 0) (Dec 25 (- 1)) False (Some 2024) =
     Inr \<lparr>r_point_fermage = Float False 5629499534213120 (- 49),
          r_surface = Float False 5629499534213120 (- 51), r_sctl = False,
          r_annee = Some 2024, r_valeur_point = Float False 4503599627370496 (- 52),
          r_montant_fermage = Float False 5764607523034235 (- 61)\<rparr>"
    by (simp add: calculate_fermage_def g calculer_example_sans_valeur bind_res_def Let_def
          decimal_float_examples decimal_float_one)
  show "\<not> float_is_zero (Float False 5764607523034235 (- 61))"
    by (simp add: float_is_zero_def)
  have o: "calculer_montant_fermage (Dec 1 999990) (Dec 1 999990) False (Dec 10 (- 1))
             (Dec 10 (- 1)) False False (Dec 0 (- 1)) (Dec 0 (- 1)) = Inl Overflow"
    by (simp add: decimal_eval)
  show "calculate_fermage empty_session (Dec 1 999990) (Dec 1 999990) False (Some 2024) =
          Inl Overflow"
    by (simp add: calculate_fermage_def g o bind_res_def Let_def)
qed

text \<open>
  Within the range of the Decimal arithmetic the float can still underflow: two operands
  of \<open>10^-200\<close> give the Decimal \<open>1.0E-404\<close>, which is not zero, and the float \<open>0.0\<close>.
\<close>

lemma calculate_fermage_underflow:
  "calculer_montant_fermage (Dec 1 (- 200)) (Dec 1 (- 200)) False (Dec 10 (- 1)) (Dec 10 (- 1))
     False False (Dec 0 (- 1)) (Dec 0 (- 1)) = Inr (Dec 10 (- 405)) \<and>
   r_montant_fermage
     (projr (calculate_fermage empty_session (Dec 1 (- 200)) (Dec 1 (- 200)) False (Some 2024))) =
     Float False 0 (- 1074)"
proof -
  have g: "get_valeur_point_by_annee empty_session 2024 = None"
    by (simp add: get_valeur_point_by_annee_def empty_session_def)
  have c: "calculer_montant_fermage (Dec 1 (- 200)) (Dec 1 (- 200)) False (Dec 10 (- 1))
             (Dec 10 (- 1)) False False (Dec 0 (- 1)) (Dec 0 (- 1)) = Inr (Dec 10 (- 405))"
    by (simp add: decimal_eval)
  have f: "decimal_float (Dec 10 (- 405)) = Float False 0 (- 1074)"
    by (simp add: float_eval)
  show ?thesis
    by (simp add: calculate_fermage_def g c f bind_res_def Let_def)
qed

lemma bind_res_Inr_iff:
  "bind_res m f = Inr r \<longleftrightarrow> (\<exists>v. m = Inr v \<and> f v = Inr r)"
  by (cases m) (simp_all add: bind_res_def)

lemma sequence_sum_Cons:
  "bind_res (sequence_res (m0 # ms)) (decimal_sum_from tm) = Inr r \<longleftrightarrow>
     (\<exists>v tm1. m0 = Inr v \<and> decimal_add tm v = Inr tm1 \<and>
        bind_res (sequence_res ms) (decimal_sum_from tm1) = Inr r)"
proof (cases m0)
  case (Inl e)
  then show ?thesis by (simp add: bind_res_def)
next
  case m0: (Inr v)
  show ?thesis
  proof (cases "sequence_res ms")
    case (Inl e)
    with m0 show ?thesis by (simp add: bind_res_def)
  next
    case ms: (Inr vs)
    show ?thesis
    proof (cases "decimal_add tm v")
      case (Inl e)
      with m0 ms show ?thesis by (simp add: bind_res_def)
    next
      case (Inr tm1)
      with m0 ms show ?thesis by (simp add: bind_res_def)
    qed
  qed
qed

lemma decimal_sum_from_Cons:
  "decimal_sum_from acc (x # xs) = Inr r \<longleftrightarrow>
     (\<exists>a. decimal_add acc x = Inr a \<and> decimal_sum_from a xs = Inr r)"
  by (simp add: bind_res_Inr_iff)

lemma fermage_totaux_loop_iff:
  "fermage_totaux_loop session (Some vp) subs (ts, tr, tm, ids) = Inr (ts', tr', tm', ids') \<longleftrightarrow>
     decimal_sum_from ts (map surface subs) = Inr ts' \<and>
     decimal_sum_from tr (map revenu subs) = Inr tr' \<and>
     bind_res (sequence_res (map (montant_subdivision session vp) subs))
       (decimal_sum_from tm) = Inr tm' \<and>
     ids' = ids \<union> sd_id_parcelle ` set subs"
proof (induction subs arbitrary: ts tr tm ids)
  case Nil
  show ?case by (auto simp: bind_res_def)
next
  case (Cons sub subs)
  let ?ids1 = "insert (sd_id_parcelle sub) ids"
  have step: "fermage_totaux_loop session (Some vp) (sub # subs) (ts, tr, tm, ids) =
                Inr (ts', tr', tm', ids') \<longleftrightarrow>
              (\<exists>ts1 tr1 m tm1.
                 decimal_add ts (surface sub) = Inr ts1 \<and>
                 decimal_add tr (revenu sub) = Inr tr1 \<and>
                 montant_subdivision session vp sub = Inr m \<and>
                 decimal_add tm m = Inr tm1 \<and>
                 fermage_totaux_loop session (Some vp) subs (ts1, tr1, tm1, ?ids1) =
                   Inr (ts', tr', tm', ids'))"
    by (simp add: bind_res_Inr_iff)
  have ids: "?ids1 \<union> sd_id_parcelle ` set subs = ids \<union> sd_id_parcelle ` set (sub # subs)"
    by auto
  show ?case
    unfolding step Cons.IH ids list.map decimal_sum_from_Cons sequence_sum_Cons
    by blast
qed

lemma concat_join_one:
  "concat (map (\<lambda>p. if k = key p
                     then (if A then (if B p then (if C p then [x] else []) else []) else [])
                     else []) ps) =
   map (\<lambda>p. x) (filter (\<lambda>p. A \<and> B p \<and> C p) (filter (\<lambda>p. key p = k) ps))"
  by (induction ps) auto

lemma fermage_subdivisions_distinct:
  assumes "distinct (map pa_id (parcelles session))"
  shows "fermage_subdivisions session e c s =
           filter (subdivision_matches session e c s) (subdivisions session)"
proof -
  have inner: "map (\<lambda>p. sub)
          (filter (\<lambda>p. (case e of None \<Rightarrow> True | Some x \<Rightarrow> sd_id_exploitant sub = Some x) \<and>
                        opt_matches c (pa_id_commune p) \<and> opt_matches s (pa_sctl p))
             (filter (\<lambda>p. pa_id p = sd_id_parcelle sub) (parcelles session))) =
        (if subdivision_matches session e c s sub then [sub] else [])" for sub
  proof (cases "find (\<lambda>p. pa_id p = sd_id_parcelle sub) (parcelles session)")
    case None
    then show ?thesis
      by (simp add: filter_key_distinct [OF assms] subdivision_matches_def)
  next
    case (Some p)
    then show ?thesis
      by (simp add: filter_key_distinct [OF assms] subdivision_matches_def opt_matches_def)
  qed
  show ?thesis
    unfolding fermage_subdivisions_def concat_join_one inner
    using concat_map_if [of "subdivision_matches session e c s" "\<lambda>x. x" "subdivisions session"]
    by simp
qed

lemma FermageTotaux_eq_iff:
  "t = \<lparr>total_surface = a, total_revenu = b, total_montant = c, nb_parcelles = n\<rparr> \<longleftrightarrow>
     total_surface t = a \<and> total_revenu t = b \<and> total_montant t = c \<and> nb_parcelles t = n"
  by (cases t) auto

lemma get_fermage_totaux_iff:
  "get_fermage_totaux session e c s (Some vp) = Inr t \<longleftrightarrow>
     decimal_sum (map surface (fermage_subdivisions session e c s)) = Inr (total_surface t) \<and>
     decimal_sum (map revenu (fermage_subdivisions session e c s)) = Inr (total_revenu t) \<and>
     bind_res (sequence_res (map (montant_subdivision session vp)
                               (fermage_subdivisions session e c s))) decimal_sum =
       Inr (total_montant t) \<and>
     nb_parcelles t = card (sd_id_parcelle ` set (fermage_subdivisions session e c s))"
proof -
  have ds: "decimal_sum = decimal_sum_from (Dec 0 0)"
    by (rule ext) (simp add: decimal_sum_def)
  have "get_fermage_totaux session e c s (Some vp) = Inr t \<longleftrightarrow>
        (\<exists>ts tr tm ids.
           fermage_totaux_loop session (Some vp) (fermage_subdivisions session e c s)
             (Dec 0 0, Dec 0 0, Dec 0 0, {}) = Inr (ts, tr, tm, ids) \<and>
           t = \<lparr>total_surface = ts, total_revenu = tr, total_montant = tm,
                nb_parcelles = card ids\<rparr>)"
    by (auto simp: get_fermage_totaux_def bind_res_Inr_iff)
  then show ?thesis
    unfolding fermage_totaux_loop_iff FermageTotaux_eq_iff ds by auto
qed

text \<open>
  Claim C7. In a store whose Parcelle ids are unique (the primary key), the subdivisions
  that \<open>get_fermage_totaux\<close> aggregates are those that have a parcel and pass the filters
  (tenant of the subdivision, commune and cooperative flag of its parcel). Given a
  point-value row, the operation returns totals \<open>t\<close> exactly when \<open>total_surface\<close> and
  \<open>total_revenu\<close> are the Decimal sums of the surfaces and revenues of these subdivisions,
  \<open>total_montant\<close> is the Decimal sum of their rents, and \<open>nb_parcelles\<close> is the number of
  distinct parcels among them; the rent of each subdivision is computed with the \<open>sctl\<close>
  flag of its own parcel. (It raises exactly when one of these Decimal operations does.)
\<close>

theorem get_fermage_totaux_sums:
  assumes "distinct (map pa_id (parcelles session))"
  shows "fermage_subdivisions session e c s =
           filter (subdivision_matches session e c s) (subdivisions session) \<and>
         (get_fermage_totaux session e c s (Some vp) = Inr t \<longleftrightarrow>
            decimal_sum (map surface (fermage_subdivisions session e c s)) =
              Inr (total_surface t) \<and>
            decimal_sum (map revenu (fermage_subdivisions session e c s)) =
              Inr (total_revenu t) \<and>
            bind_res (sequence_res (map (montant_subdivision session vp)
                                      (fermage_subdivisions session e c s))) decimal_sum =
              Inr (total_montant t) \<and>
            nb_parcelles t = card (sd_id_parcelle ` set (fermage_subdivisions session e c s))) \<and>
         (\<forall>sub \<in> set (fermage_subdivisions session e c s).
            \<exists>p \<in> set (parcelles session).
              pa_id p = sd_id_parcelle sub \<and>
              montant_subdivision session vp sub =
                calculer_montant_fermage (point_fermage sub) (surface sub) (pa_sctl p)
                  (valeur_point_gfa vp) (valeur_point_sctl vp) False False
                  (valeur_supp_gfa vp) (valeur_supp_sctl vp))"
proof (intro conjI ballI)
  show "fermage_subdivisions session e c s =
           filter (subdivision_matches session e c s) (subdivisions session)"
    by (rule fermage_subdivisions_distinct [OF assms])
  show "get_fermage_totaux session e c s (Some vp) = Inr t \<longleftrightarrow>
            decimal_sum (map surface (fermage_subdivisions session e c s)) =
              Inr (total_surface t) \<and>
            decimal_sum (map revenu (fermage_subdivisions session e c s)) =
              Inr (total_revenu t) \<and>
            bind_res (sequence_res (map (montant_subdivision session vp)
                                      (fermage_subdivisions session e c s))) decimal_sum =
              Inr (total_montant t) \<and>
            nb_parcelles t = card (sd_id_parcelle ` set (fermage_subdivisions session e c s))"
    by (rule get_fermage_totaux_iff)
next
  fix sub
  assume "sub \<in> set (fermage_subdivisions session e c s)"
  then have "subdivision_matches session e c s sub"
    by (simp add: fermage_subdivisions_distinct [OF assms])
  then obtain p where f: "find (\<lambda>p. pa_id p = sd_id_parcelle sub) (parcelles session) = Some p"
    by (auto simp: subdivision_matches_def split: option.splits)
  then have "p \<in> set (parcelles session)" "pa_id p = sd_id_parcelle sub"
    by (auto simp: find_Some_iff)
  moreover from f have "subdivision_est_sctl session sub = pa_sctl p"
    by (simp add: subdivision_est_sctl_def)
  ultimately show "\<exists>p \<in> set (parcelles session).
              pa_id p = sd_id_parcelle sub \<and>
              montant_subdivision session vp sub =
                calculer_montant_fermage (point_fermage sub) (surface sub) (pa_sctl p)
                  (valeur_point_gfa vp) (valeur_point_sctl vp) False False
                  (valeur_supp_gfa vp) (valeur_supp_sctl vp)"
    by (auto simp: montant_subdivision_def)
qed

theorem get_fermage_totaux_sums_witness:
  "distinct (map pa_id (parcelles fermage_example)) \<and>
   get_fermage_totaux fermage_example (Some 1) None None (Some valeur_2024) =
     Inr \<lparr>total_surface = Dec 65 (- 1), total_revenu = Dec 2500 (- 2),
          total_montant = Dec 10425 (- 6), nb_parcelles = 2\<rparr> \<and>
   decimal_sum (map surface (fermage_subdivisions fermage_example (Some 1) None None)) =
     Inr (Dec 65 (- 1)) \<and>
   bind_res (sequence_res (map (montant_subdivision fermage_example valeur_2024)
                             (fermage_subdivisions fermage_example (Some 1) None None)))
     decimal_sum = Inr (Dec 10425 (- 6)) \<and>
   card (sd_id_parcelle ` set (fermage_subdivisions fermage_example (Some 1) None None)) = 2"
proof -
  have h: "distinct (map pa_id (parcelles fermage_example))"
    by (simp add: fermage_example_def valeurs_example_def empty_session_def)
  have subs: "fermage_subdivisions fermage_example (Some 1) None None =
                subdivisions fermage_example"
    by (simp add: fermage_subdivisions_def fermage_example_def valeurs_example_def
          empty_session_def opt_matches_def)
  have m: "map (montant_subdivision fermage_example valeur_2024) (subdivisions fermage_example) =
             [Inr (Dec 5000 (- 6)), Inr (Dec 1200 (- 6)), Inr (Dec 4225 (- 6))]"
    by (simp add: montant_subdivision_def subdivision_est_sctl_def fermage_example_def
          valeurs_example_def empty_session_def valeur_2024_def decimal_eval)
  have e: "get_fermage_totaux fermage_example (Some 1) None None (Some valeur_2024) =
     Inr \<lparr>total_surface = Dec 65 (- 1), total_revenu = Dec 2500 (- 2),
          total_montant = Dec 10425 (- 6), nb_parcelles = 2\<rparr>"
    unfolding get_fermage_totaux_def subs
    using m
    by (simp add: fermage_example_def valeurs_example_def empty_session_def decimal_eval)
  define t0 where "t0 = \<lparr>total_surface = Dec 65 (- 1), total_revenu = Dec 2500 (- 2),
                            total_montant = Dec 10425 (- 6), nb_parcelles = 2\<rparr>"
  have sel: "total_surface t0 = Dec 65 (- 1)" "total_montant t0 = Dec 10425 (- 6)"
    "nb_parcelles t0 = 2"
    by (simp_all add: t0_def)
  from e have e': "get_fermage_totaux fermage_example (Some 1) None None (Some valeur_2024) =
                     Inr t0"
    by (simp only: t0_def)
  have "decimal_sum (map surface (fermage_subdivisions fermage_example (Some 1) None None)) =
          Inr (total_surface t0) \<and>
        decimal_sum (map revenu (fermage_subdivisions fermage_example (Some 1) None None)) =
          Inr (total_revenu t0) \<and>
        bind_res (sequence_res (map (montant_subdivision fermage_example valeur_2024)
                             (fermage_subdivisions fermage_example (Some 1) None None)))
          decimal_sum = Inr (total_montant t0) \<and>
        nb_parcelles t0 =
          card (sd_id_parcelle ` set (fermage_subdivisions fermage_example (Some 1) None None))"
    by (rule iffD1 [OF get_fermage_totaux_sums
                         [OF h, THEN conjunct2, THEN conjunct1,
                          of "Some 1" None None valeur_2024 t0] e'])
  then have "decimal_sum (map surface (fermage_subdivisions fermage_example (Some 1) None None)) =
          Inr (Dec 65 (- 1))"
    and "bind_res (sequence_res (map (montant_subdivision fermage_example valeur_2024)
                             (fermage_subdivisions fermage_example (Some 1) None None)))
           decimal_sum = Inr (Dec 10425 (- 6))"
    and "card (sd_id_parcelle ` set (fermage_subdivisions fermage_example (Some 1) None None)) =
           2"
    unfolding sel by simp_all
  with h e show ?thesis by blast
qed

end
